(* ===== verification/Prelude.thy ===== *)
theory Prelude
  imports Main "HOL-Library.Sublist"
begin

text \<open>
  Shared vocabulary of the development: the row identifiers of the SQLite tables, the
  exceptions a request handler of \<^verbatim>\<open>src/main.py\<close> can raise (Python and library
  exceptions as values of one datatype), the propagation of an exception through a
  handler (\<open>ok_bind\<close>), and the decimal text of integers, which both Python's
  \<open>str(int)\<close> (SQLite's TEXT affinity) and Werkzeug's \<open><int:...>\<close> converter use.
\<close>

type_synonym rowid = nat

text \<open>
  The exceptions that can escape a handler. \<open>BadRequest\<close> is raised by Flask's
  \<open>request.get_json()\<close> when the body is not JSON; \<open>KeyError\<close> and \<open>TypeError\<close>
  by Python's subscript and \<open>in\<close> on the decoded body; \<open>IntegrityError\<close> by SQLite
  for a NULL in a NOT NULL column; \<open>BindingError\<close> by the \<open>sqlite3\<close> driver for a
  parameter it cannot bind (a list or dict, an int outside 64 bits).
\<close>

datatype exc = BadRequest | KeyError string | TypeError | IntegrityError | BindingError

named_theorems db_simps "equations of the database operations, used by the handler proofs"
named_theorems wf_intros "invariant-preservation facts of the database operations"

text \<open>Propagation of an exception: the rest of the handler runs only on a value.\<close>

definition ok_bind :: "'e + 'a \<Rightarrow> ('a \<Rightarrow> 'e + 'b) \<Rightarrow> 'e + 'b" where
  "ok_bind m f = (case m of Inl e \<Rightarrow> Inl e | Inr a \<Rightarrow> f a)"

text \<open>Decimal text of a natural number and of an integer (Python's \<open>str\<close>).\<close>

definition digit_char :: "nat \<Rightarrow> char" where
  "digit_char d = char_of (48 + d)"

fun nat_text :: "nat \<Rightarrow> string" where
  "nat_text n = (if n < 10 then [digit_char n] else nat_text (n div 10) @ [digit_char (n mod 10)])"

definition int_text :: "int \<Rightarrow> string" where
  "int_text i = (if i < 0 then CHR ''-'' # nat_text (nat (- i)) else nat_text (nat i))"

text \<open>Reading decimal digits back (Werkzeug's \<open>\d+\<close> followed by \<open>int()\<close>).\<close>

definition is_digit :: "char \<Rightarrow> bool" where
  "is_digit c \<longleftrightarrow> 48 \<le> (of_char c :: nat) \<and> (of_char c :: nat) \<le> 57"

definition digit_value :: "char \<Rightarrow> nat" where
  "digit_value c = of_char c - 48"

fun digits_value :: "nat \<Rightarrow> string \<Rightarrow> nat" where
  "digits_value acc [] = acc"
| "digits_value acc (c # cs) = digits_value (10 * acc + digit_value c) cs"

subsection \<open>Generic lemmas\<close>

lemma ok_bind_Inl [simp]: "ok_bind (Inl e) f = Inl e"
  by (simp add: ok_bind_def)

lemma ok_bind_Inr [simp]: "ok_bind (Inr a) f = f a"
  by (simp add: ok_bind_def)

lemma ok_bind_eq_Inr:
  "ok_bind m f = Inr b \<longleftrightarrow> (\<exists>a. m = Inr a \<and> f a = Inr b)"
  by (cases m) auto

declare nat_text.simps [simp del]

lemma of_char_digit_char [simp]: "d < 10 \<Longrightarrow> (of_char (digit_char d) :: nat) = 48 + d"
  by (simp add: digit_char_def)

lemma is_digit_digit_char [simp]: "d < 10 \<Longrightarrow> is_digit (digit_char d)"
  by (simp add: is_digit_def)

lemma digit_value_digit_char [simp]: "d < 10 \<Longrightarrow> digit_value (digit_char d) = d"
  by (simp add: digit_value_def)

lemma digits_value_append:
  "digits_value acc (xs @ ys) = digits_value (digits_value acc xs) ys"
  by (induction xs arbitrary: acc) auto

lemma digits_value_snoc [simp]:
  "digits_value acc (xs @ [c]) = 10 * digits_value acc xs + digit_value c"
  by (simp add: digits_value_append)

lemma nat_text_not_Nil [simp]: "nat_text n \<noteq> []"
  by (subst nat_text.simps) simp

lemma nat_text_digits: "list_all is_digit (nat_text n)"
proof (induction n rule: nat_text.induct)
  case (1 n)
  then show ?case by (subst nat_text.simps) simp
qed

lemma digits_value_nat_text: "digits_value 0 (nat_text n) = n"
proof (induction n rule: nat_text.induct)
  case (1 n)
  then show ?case by (subst nat_text.simps) simp
qed

lemma odd_div_half:
  fixes x :: int
  assumes "0 \<le> x" "x < 2 * m" "0 < m"
  shows "odd (x div m) \<longleftrightarrow> m \<le> x"
proof (cases "m \<le> x")
  case True
  then have "x div m = 1"
    using assms by (intro div_pos_geq [THEN trans]) (auto simp: div_pos_pos_trivial)
  with True show ?thesis by simp
next
  case False
  then have "x div m = 0" using assms by (simp add: div_pos_pos_trivial)
  with False show ?thesis by simp
qed

lemma nat_text_nondigit: "\<not> is_digit c \<Longrightarrow> c \<notin> set (nat_text n)"
  using nat_text_digits [of n] by (auto simp: list_all_iff)

lemma length_nat_text: "n < 10 ^ Suc d \<Longrightarrow> length (nat_text n) \<le> Suc d"
proof (induction n arbitrary: d rule: nat_text.induct)
  case (1 n)
  show ?case
  proof (cases "n < 10")
    case True
    then show ?thesis by (subst nat_text.simps) simp
  next
    case False
    then obtain d' where d: "d = Suc d'" using 1(2) by (cases d) auto
    have "n div 10 < 10 ^ Suc d'"
      using 1(2) d by (simp add: less_mult_imp_div_less mult.commute)
    then have "length (nat_text (n div 10)) \<le> Suc d'" using 1(1) False by blast
    then show ?thesis using False d by (subst nat_text.simps) simp
  qed
qed

lemma slash_not_digit [simp]: "\<not> is_digit CHR ''/''"
  by (simp add: is_digit_def)

end
