(* ===== verification/Json.thy ===== *)
theory Json
  imports Prelude "HOL-Library.Char_ord" "HOL-Library.List_Lexorder"
begin

text \<open>
  The decoded JSON request body and the two Python operations the handlers of
  \<^verbatim>\<open>src/main.py\<close> apply to it: the subscript \<open>data['comment']\<close> and the membership
  test \<open>'comment' in data\<close>. \<open>request.get_json()\<close> returns whatever JSON value the
  body holds (an object, but also a list, a string, a number, \<open>null\<close>), so both
  operations are modelled on every JSON value, with Python's exceptions where Python
  raises one. JSON numbers with a fraction or exponent are not modelled.
\<close>

datatype jvalue =
    JNull
  | JBool bool
  | JInt int
  | JStr string
  | JList "jvalue list"
  | JObj "(string \<times> jvalue) list"

text \<open>
  A JSON object decodes to a Python dict; when a key occurs twice, \<open>json.loads\<close> keeps
  the value that comes last.
\<close>

definition dict_lookup :: "(string \<times> jvalue) list \<Rightarrow> string \<Rightarrow> jvalue option" where
  "dict_lookup kvs k = map_of (rev kvs) k"

text \<open>
  \<open>request.get_json()\<close>: the body is \<open>None\<close> when the request carries no JSON
  (missing or wrong content type, or text that does not parse); Flask then aborts the
  request with a 4xx error, which the model calls \<open>BadRequest\<close>.
\<close>

definition get_json :: "jvalue option \<Rightarrow> exc + jvalue" where
  "get_json body = (case body of None \<Rightarrow> Inl BadRequest | Some v \<Rightarrow> Inr v)"

text \<open>\<open>data[k]\<close> for a string key \<open>k\<close>: a dict lookup, \<open>KeyError\<close> for a missing
  key, \<open>TypeError\<close> for every other JSON value (lists and strings take integer
  indices; \<open>None\<close>, numbers and booleans are not subscriptable).\<close>

fun py_getitem :: "jvalue \<Rightarrow> string \<Rightarrow> exc + jvalue" where
  "py_getitem (JObj kvs) k = (case dict_lookup kvs k of None \<Rightarrow> Inl (KeyError k) | Some v \<Rightarrow> Inr v)"
| "py_getitem _ k = Inl TypeError"

text \<open>\<open>k in data\<close> for a string \<open>k\<close>: key membership for a dict, element equality
  for a list, the substring test for a string, and \<open>TypeError\<close> for \<open>None\<close>, numbers
  and booleans, which are not iterable.\<close>

fun py_contains :: "string \<Rightarrow> jvalue \<Rightarrow> exc + bool" where
  "py_contains k (JObj kvs) = Inr (k \<in> set (map fst kvs))"
| "py_contains k (JList vs) = Inr (JStr k \<in> set vs)"
| "py_contains k (JStr s) = Inr (sublist k s)"
| "py_contains k JNull = Inl TypeError"
| "py_contains k (JBool b) = Inl TypeError"
| "py_contains k (JInt i) = Inl TypeError"

text \<open>The dict that \<open>dict(pairs)\<close> builds, as \<open>json.dumps\<close> sees it: each key once with
  its last value (\<open>last_pairs\<close>), listed in the order of \<open>sorted(d.items())\<close> for
  \<open>sort_keys=True\<close> (\<open>py_dict\<close>); the order of strings is Python's order of code points.\<close>

fun last_pairs :: "(string \<times> 'a) list \<Rightarrow> (string \<times> 'a) list" where
  "last_pairs [] = []"
| "last_pairs ((k, v) # kvs) = (if k \<in> set (map fst kvs) then last_pairs kvs else (k, v) # last_pairs kvs)"

definition py_dict :: "(string \<times> 'a) list \<Rightarrow> (string \<times> 'a) list" where
  "py_dict kvs = sort_key fst (last_pairs kvs)"

subsection \<open>Lemmas\<close>

lemma dict_lookup_Some_key: "dict_lookup kvs k = Some v \<Longrightarrow> k \<in> set (map fst kvs)"
  by (force simp: dict_lookup_def dest: map_of_SomeD)

lemma dict_lookup_None_iff: "dict_lookup kvs k = None \<longleftrightarrow> k \<notin> set (map fst kvs)"
  by (simp add: dict_lookup_def map_of_eq_None_iff image_iff)

lemma get_json_eq_Inr [simp]: "get_json body = Inr v \<longleftrightarrow> body = Some v"
  by (cases body) (auto simp: get_json_def)

lemma get_json_None [simp]: "get_json None = Inl BadRequest"
  by (simp add: get_json_def)

lemma get_json_Some [simp]: "get_json (Some v) = Inr v"
  by (simp add: get_json_def)

lemma set_last_pairs: "set (last_pairs kvs) \<subseteq> set kvs"
  by (induction kvs rule: last_pairs.induct) auto

lemma set_py_dict: "set (py_dict kvs) \<subseteq> set kvs"
  using set_last_pairs by (simp add: py_dict_def)

text \<open>A value of a dict is smaller than the object: the termination argument of the
  functions that recurse through \<open>py_dict\<close>.\<close>

lemma py_dict_size [termination_simp]:
  "(k, v) \<in> set (py_dict kvs) \<Longrightarrow> size v < Suc (size_list (\<lambda>x. Suc (size (snd x))) kvs)"
  using set_py_dict [of kvs] size_list_estimation' [of "(k, v)" kvs "size v" "\<lambda>x. Suc (size (snd x))"]
  by fastforce

end
