(* ===== verification/Table.thy ===== *)
theory Table
  imports Prelude
begin

text \<open>
  A SQLite table whose primary key is an \<open>INTEGER PRIMARY KEY\<close> column (the \<open>id\<close>
  of \<open>User\<close> and of \<open>Answer\<close> in \<^verbatim>\<open>src/main.py\<close>): the column is the table's rowid, the
  table is a B-tree ordered by rowid, and a row inserted without an id gets the largest
  rowid in the table plus one (1 for an empty table). The table is the list of its
  rows in rowid order; a full scan returns them in that order.
\<close>

type_synonym 'r table = "(rowid \<times> 'r) list"

definition max_rowid :: "'r table \<Rightarrow> rowid" where
  "max_rowid t = foldr (\<lambda>(k, _) m. max k m) t 0"

definition new_rowid :: "'r table \<Rightarrow> rowid" where
  "new_rowid t = Suc (max_rowid t)"

definition tbl_get :: "'r table \<Rightarrow> rowid \<Rightarrow> 'r option" where
  "tbl_get t k = map_of t k"

definition tbl_insert :: "'r \<Rightarrow> 'r table \<Rightarrow> rowid \<times> 'r table" where
  "tbl_insert r t = (let k = new_rowid t in (k, t @ [(k, r)]))"

definition tbl_delete :: "rowid \<Rightarrow> 'r table \<Rightarrow> 'r table" where
  "tbl_delete k t = filter (\<lambda>(k', _). k' \<noteq> k) t"

definition tbl_set :: "rowid \<Rightarrow> 'r \<Rightarrow> 'r table \<Rightarrow> 'r table" where
  "tbl_set k r t = map (\<lambda>(k', r'). if k' = k then (k', r) else (k', r')) t"

definition tbl_select :: "('r \<Rightarrow> bool) \<Rightarrow> 'r table \<Rightarrow> 'r table" where
  "tbl_select P t = filter (\<lambda>(_, r). P r) t"

definition tbl_delete_where :: "('r \<Rightarrow> bool) \<Rightarrow> 'r table \<Rightarrow> 'r table" where
  "tbl_delete_where P t = filter (\<lambda>(_, r). \<not> P r) t"

text \<open>The table invariant: rowids strictly increase along the B-tree and are positive.\<close>

definition tbl_ok :: "'r table \<Rightarrow> bool" where
  "tbl_ok t \<longleftrightarrow> sorted_wrt (<) (map fst t) \<and> 0 \<notin> set (map fst t)"

subsection \<open>Allocation of rowids\<close>

lemma max_rowid_Nil [simp]: "max_rowid [] = 0"
  by (simp add: max_rowid_def)

lemma max_rowid_Cons [simp]: "max_rowid ((k, r) # t) = max k (max_rowid t)"
  by (simp add: max_rowid_def)

lemma max_rowid_append [simp]: "max_rowid (t @ u) = max (max_rowid t) (max_rowid u)"
  by (induction t) (auto simp: max_rowid_def)

lemma le_max_rowid: "k \<in> set (map fst t) \<Longrightarrow> k \<le> max_rowid t"
  by (induction t) (fastforce simp: le_max_iff_disj)+

lemma new_rowid_gt: "k \<in> set (map fst t) \<Longrightarrow> k < new_rowid t"
  by (simp add: new_rowid_def le_imp_less_Suc le_max_rowid)

lemma new_rowid_fresh [simp]: "tbl_get t (new_rowid t) = None"
proof -
  have "new_rowid t \<notin> set (map fst t)"
    using new_rowid_gt by blast
  then show ?thesis by (simp add: tbl_get_def map_of_eq_None_iff image_iff)
qed

lemma new_rowid_pos [simp]: "0 < new_rowid t"
  by (simp add: new_rowid_def)

subsection \<open>The table operations against the map they represent\<close>

lemma tbl_get_insert [simp]:
  "tbl_insert r t = (k, t') \<Longrightarrow> tbl_get t' = (tbl_get t)(k \<mapsto> r)"
proof -
  assume ins: "tbl_insert r t = (k, t')"
  then have k: "k = new_rowid t" and t': "t' = t @ [(k, r)]"
    by (auto simp: tbl_insert_def Let_def)
  have "tbl_get t k = None" using k by simp
  then show ?thesis
    by (auto simp: t' tbl_get_def map_of_append map_add_def fun_eq_iff split: option.split)
qed

lemma tbl_get_delete [simp]: "tbl_get (tbl_delete k t) = (tbl_get t)(k := None)"
  by (induction t) (auto simp: tbl_get_def tbl_delete_def fun_eq_iff)

lemma tbl_get_set [simp]:
  "tbl_get (tbl_set k r t) = (\<lambda>k'. if k' = k then map_option (\<lambda>_. r) (tbl_get t k) else tbl_get t k')"
  by (induction t) (auto simp: tbl_get_def tbl_set_def fun_eq_iff)

lemma keys_set [simp]: "map fst (tbl_set k r t) = map fst t"
  by (induction t) (auto simp: tbl_set_def)

lemma set_tbl_delete [simp]: "set (tbl_delete k t) = {x \<in> set t. fst x \<noteq> k}"
  by (auto simp: tbl_delete_def)

lemma set_tbl_delete_where [simp]: "set (tbl_delete_where P t) = {x \<in> set t. \<not> P (snd x)}"
  by (auto simp: tbl_delete_where_def)

lemma set_tbl_select [simp]: "set (tbl_select P t) = {x \<in> set t. P (snd x)}"
  by (auto simp: tbl_select_def)

lemma in_set_tbl_set: "x \<in> set (tbl_set k r t) \<Longrightarrow> x = (k, r) \<or> x \<in> set t"
  by (auto simp: tbl_set_def split: if_splits)

lemma tbl_get_Some_in: "tbl_get t k = Some r \<Longrightarrow> (k, r) \<in> set t"
  by (simp add: tbl_get_def map_of_SomeD)

lemma in_tbl_get: "tbl_ok t \<Longrightarrow> (k, r) \<in> set t \<Longrightarrow> tbl_get t k = Some r"
  by (simp add: tbl_ok_def tbl_get_def strict_sorted_iff map_of_is_SomeI)

lemma tbl_ok_unique_key:
  "tbl_ok t \<Longrightarrow> (k, r) \<in> set t \<Longrightarrow> (k, r') \<in> set t \<Longrightarrow> r = r'"
  by (metis in_tbl_get option.inject)

lemma tbl_select_set:
  "(\<forall>r. (k, r) \<in> set t \<longrightarrow> P r = P r') \<Longrightarrow> tbl_select P (tbl_set k r' t) = tbl_set k r' (tbl_select P t)"
  by (induction t) (auto simp: tbl_select_def tbl_set_def split: if_splits)

lemma map_tbl_set:
  "map (\<lambda>(k', r). (k', f r)) (tbl_set k r' t) =
     map (\<lambda>(k', x). if k' = k then (k', f r') else (k', x)) (map (\<lambda>(k', r). (k', f r)) t)"
  by (induction t) (auto simp: tbl_set_def)

subsection \<open>The invariant is kept by every operation\<close>

lemma tbl_ok_Nil [simp, intro]: "tbl_ok []"
  by (simp add: tbl_ok_def)

lemma sorted_wrt_map_filter:
  "sorted_wrt R (map f xs) \<Longrightarrow> sorted_wrt R (map f (filter P xs))"
  by (induction xs) auto

lemma tbl_ok_insert:
  assumes ok: "tbl_ok t" and ins: "tbl_insert r t = (k, t')"
  shows "tbl_ok t'"
proof -
  from ins have k: "k = new_rowid t" and t': "t' = t @ [(k, r)]"
    by (auto simp: tbl_insert_def Let_def)
  have "\<forall>k' \<in> set (map fst t). k' < k"
    using k new_rowid_gt by blast
  with ok k show ?thesis
    by (auto simp: t' tbl_ok_def sorted_wrt_append)
qed

lemma tbl_ok_delete: "tbl_ok t \<Longrightarrow> tbl_ok (tbl_delete k t)"
  by (auto simp: tbl_ok_def tbl_delete_def sorted_wrt_map_filter)

lemma tbl_ok_delete_where: "tbl_ok t \<Longrightarrow> tbl_ok (tbl_delete_where P t)"
  by (auto simp: tbl_ok_def tbl_delete_where_def sorted_wrt_map_filter)

lemma tbl_ok_set: "tbl_ok t \<Longrightarrow> tbl_ok (tbl_set k r t)"
  by (simp add: tbl_ok_def)

end
