(* ===== verification/Store.thy ===== *)
theory Store
  imports Json Table
begin

text \<open>
  The database of \<^verbatim>\<open>src/main.py\<close>: the two model classes \<open>User\<close> (a question) and
  \<open>Answer\<close>, stored in the SQLite tables \<open>user\<close> and \<open>answer\<close>, and the ORM
  operations the handlers perform, each followed by \<open>db.session.commit()\<close>. A value
  assigned to a \<open>String(500)\<close> column is bound by the \<open>sqlite3\<close> driver and stored
  with TEXT affinity (\<open>bind_text\<close>); a failed bind or constraint raises at the commit,
  and the request's session is then rolled back, so every operation either returns the
  new database or an exception and no database. The relationship \<open>User.answers\<close>
  with \<open>cascade="all, delete-orphan"\<close> makes deleting a user delete its answers.
\<close>

record User =
  comment :: string

record Answer =
  answer :: string
  question_id :: rowid

record db =
  user_tbl :: "User table"
  answer_tbl :: "Answer table"

text \<open>\<open>db.create_all()\<close> on a fresh database file: both tables empty.\<close>

definition empty_db :: db where
  "empty_db = \<lparr>user_tbl = [], answer_tbl = []\<rparr>"

text \<open>The range of a SQLite INTEGER (a signed 64-bit value), which \<open>sqlite3\<close> checks
  when it binds a Python int.\<close>

definition sqlite_int_ok :: "int \<Rightarrow> bool" where
  "sqlite_int_ok i \<longleftrightarrow> - (2 ^ 63) \<le> i \<and> i < 2 ^ 63"

text \<open>
  The text stored for a JSON value assigned to a \<open>String\<close> column: a string as it
  is; an int (a bool is the int 0 or 1) converted to its decimal text by the column's
  TEXT affinity, or \<open>BindingError\<close> beyond 64 bits; \<open>None\<close> violates
  \<open>nullable=False\<close>; a list or dict cannot be bound. The declared length 500 is not
  checked: SQLite does not enforce the length of a VARCHAR.
\<close>

fun bind_text :: "jvalue \<Rightarrow> exc + string" where
  "bind_text (JStr s) = Inr s"
| "bind_text (JInt i) = (if sqlite_int_ok i then Inr (int_text i) else Inl BindingError)"
| "bind_text (JBool b) = Inr (if b then ''1'' else ''0'')"
| "bind_text JNull = Inl IntegrityError"
| "bind_text (JList vs) = Inl BindingError"
| "bind_text (JObj kvs) = Inl BindingError"

text \<open>\<open>User.query.get(id)\<close> and \<open>Answer.query.get(id)\<close>: a primary-key SELECT, whose
  parameter the driver must bind.\<close>

definition query_get_user :: "db \<Rightarrow> nat \<Rightarrow> exc + User option" where
  "query_get_user s k =
     (if sqlite_int_ok (int k) then Inr (tbl_get (user_tbl s) k) else Inl BindingError)"

definition query_get_answer :: "db \<Rightarrow> nat \<Rightarrow> exc + Answer option" where
  "query_get_answer s k =
     (if sqlite_int_ok (int k) then Inr (tbl_get (answer_tbl s) k) else Inl BindingError)"

text \<open>The relationship \<open>User.answers\<close>: the answers whose \<open>question_id\<close> is the
  user's id, in the order of the table scan.\<close>

definition user_answers :: "db \<Rightarrow> rowid \<Rightarrow> Answer table" where
  "user_answers s k = tbl_select (\<lambda>a. question_id a = k) (answer_tbl s)"

text \<open>\<open>db.session.add(User(comment)); db.session.commit()\<close>: the new row, its id and
  the database after the commit.\<close>

definition session_add_user :: "jvalue \<Rightarrow> db \<Rightarrow> exc + (rowid \<times> User \<times> db)" where
  "session_add_user v s =
     ok_bind (bind_text v) (\<lambda>c.
       let u = \<lparr>comment = c\<rparr>; (k, t) = tbl_insert u (user_tbl s)
       in Inr (k, u, s\<lparr>user_tbl := t\<rparr>))"

text \<open>\<open>db.session.add(Answer(answer, question_id)); db.session.commit()\<close>.\<close>

definition session_add_answer :: "jvalue \<Rightarrow> rowid \<Rightarrow> db \<Rightarrow> exc + (rowid \<times> Answer \<times> db)" where
  "session_add_answer v q s =
     ok_bind (bind_text v) (\<lambda>c.
       let a = \<lparr>answer = c, question_id = q\<rparr>; (k, t) = tbl_insert a (answer_tbl s)
       in Inr (k, a, s\<lparr>answer_tbl := t\<rparr>))"

text \<open>\<open>db.session.delete(user); db.session.commit()\<close>: the cascade deletes the user's
  answers, then the user.\<close>

definition session_delete_user :: "rowid \<Rightarrow> db \<Rightarrow> db" where
  "session_delete_user k s =
     s\<lparr>answer_tbl := tbl_delete_where (\<lambda>a. question_id a = k) (answer_tbl s),
       user_tbl := tbl_delete k (user_tbl s)\<rparr>"

text \<open>\<open>db.session.delete(ans); db.session.commit()\<close>.\<close>

definition session_delete_answer :: "rowid \<Rightarrow> db \<Rightarrow> db" where
  "session_delete_answer k s = s\<lparr>answer_tbl := tbl_delete k (answer_tbl s)\<rparr>"

text \<open>\<open>comment.comment = v; db.session.commit()\<close> on the loaded row \<open>u\<close> with id \<open>k\<close>.\<close>

definition session_set_comment :: "rowid \<Rightarrow> User \<Rightarrow> jvalue \<Rightarrow> db \<Rightarrow> exc + (User \<times> db)" where
  "session_set_comment k u v s =
     ok_bind (bind_text v) (\<lambda>c.
       let u' = u\<lparr>comment := c\<rparr> in Inr (u', s\<lparr>user_tbl := tbl_set k u' (user_tbl s)\<rparr>))"

text \<open>\<open>ans.answer = v; db.session.commit()\<close> on the loaded row \<open>a\<close> with id \<open>k\<close>.\<close>

definition session_set_answer :: "rowid \<Rightarrow> Answer \<Rightarrow> jvalue \<Rightarrow> db \<Rightarrow> exc + (Answer \<times> db)" where
  "session_set_answer k a v s =
     ok_bind (bind_text v) (\<lambda>c.
       let a' = a\<lparr>answer := c\<rparr> in Inr (a', s\<lparr>answer_tbl := tbl_set k a' (answer_tbl s)\<rparr>))"

text \<open>
  The invariant of the database: both tables are well-formed rowid tables, and every
  answer's \<open>question_id\<close> names a user that exists (the foreign key
  \<open>answer.question_id \<rightarrow> user.id\<close>; SQLite does not enforce it by default, the ORM
  cascade and the existence check of \<open>add_answer\<close> keep it).
\<close>

definition wf_db :: "db \<Rightarrow> bool" where
  "wf_db s \<longleftrightarrow> tbl_ok (user_tbl s) \<and> tbl_ok (answer_tbl s) \<and>
     list_all (\<lambda>(_, a). tbl_get (user_tbl s) (question_id a) \<noteq> None) (answer_tbl s)"

subsection \<open>Equations of the operations\<close>

lemma query_get_user_small [simp]:
  "int k < 2 ^ 63 \<Longrightarrow> query_get_user s k = Inr (tbl_get (user_tbl s) k)"
  by (simp add: query_get_user_def sqlite_int_ok_def)

lemma query_get_answer_small [simp]:
  "int k < 2 ^ 63 \<Longrightarrow> query_get_answer s k = Inr (tbl_get (answer_tbl s) k)"
  by (simp add: query_get_answer_def sqlite_int_ok_def)

lemma query_get_user_eq_Inr:
  "query_get_user s k = Inr r \<longleftrightarrow> sqlite_int_ok (int k) \<and> tbl_get (user_tbl s) k = r"
  by (auto simp: query_get_user_def)

lemma query_get_answer_eq_Inr:
  "query_get_answer s k = Inr r \<longleftrightarrow> sqlite_int_ok (int k) \<and> tbl_get (answer_tbl s) k = r"
  by (auto simp: query_get_answer_def)

lemma session_add_user_Inr [db_simps]:
  "session_add_user v s = Inr (k, u, s') \<longleftrightarrow>
     (\<exists>c. bind_text v = Inr c \<and> u = \<lparr>comment = c\<rparr> \<and> k = new_rowid (user_tbl s) \<and>
          s' = s\<lparr>user_tbl := user_tbl s @ [(k, u)]\<rparr>)"
  by (cases "bind_text v") (auto simp: session_add_user_def tbl_insert_def Let_def)

lemma session_add_answer_Inr [db_simps]:
  "session_add_answer v q s = Inr (k, a, s') \<longleftrightarrow>
     (\<exists>c. bind_text v = Inr c \<and> a = \<lparr>answer = c, question_id = q\<rparr> \<and>
          k = new_rowid (answer_tbl s) \<and> s' = s\<lparr>answer_tbl := answer_tbl s @ [(k, a)]\<rparr>)"
  by (cases "bind_text v") (auto simp: session_add_answer_def tbl_insert_def Let_def)

lemma session_set_comment_Inr [db_simps]:
  "session_set_comment k u v s = Inr (u', s') \<longleftrightarrow>
     (\<exists>c. bind_text v = Inr c \<and> u' = u\<lparr>comment := c\<rparr> \<and>
          s' = s\<lparr>user_tbl := tbl_set k u' (user_tbl s)\<rparr>)"
  by (cases "bind_text v") (auto simp: session_set_comment_def Let_def)

lemma session_set_answer_Inr [db_simps]:
  "session_set_answer k a v s = Inr (a', s') \<longleftrightarrow>
     (\<exists>c. bind_text v = Inr c \<and> a' = a\<lparr>answer := c\<rparr> \<and>
          s' = s\<lparr>answer_tbl := tbl_set k a' (answer_tbl s)\<rparr>)"
  by (cases "bind_text v") (auto simp: session_set_answer_def Let_def)

subsection \<open>The relationship \<open>User.answers\<close> after each operation\<close>

lemma tables_delete_user [simp]:
  "user_tbl (session_delete_user k s) = tbl_delete k (user_tbl s)"
  "answer_tbl (session_delete_user k s) = tbl_delete_where (\<lambda>a. question_id a = k) (answer_tbl s)"
  by (simp_all add: session_delete_user_def)

lemma tables_delete_answer [simp]:
  "user_tbl (session_delete_answer k s) = user_tbl s"
  "answer_tbl (session_delete_answer k s) = tbl_delete k (answer_tbl s)"
  by (simp_all add: session_delete_answer_def)

lemma user_answers_delete_user [simp]:
  "user_answers (session_delete_user k s) j = (if j = k then [] else user_answers s j)"
  by (auto simp: user_answers_def session_delete_user_def tbl_select_def tbl_delete_where_def
      filter_filter filter_empty_conv intro: filter_cong)

lemma user_answers_delete_answer [simp]:
  "user_answers (session_delete_answer k s) j = tbl_delete k (user_answers s j)"
  by (simp add: user_answers_def session_delete_answer_def tbl_select_def tbl_delete_def
      filter_filter conj_commute case_prod_beta)

lemma user_answers_user_tbl [simp]: "user_answers (s\<lparr>user_tbl := t\<rparr>) j = user_answers s j"
  by (simp add: user_answers_def)

lemma user_answers_append:
  "user_answers (s\<lparr>answer_tbl := answer_tbl s @ [(k, a)]\<rparr>) j =
     user_answers s j @ (if question_id a = j then [(k, a)] else [])"
  by (simp add: user_answers_def tbl_select_def)

text \<open>Under the invariant, a rowid no user has yet has no answers: an answer for it
  would be an orphan.\<close>

lemma wf_user_answers_absent:
  "wf_db s \<Longrightarrow> tbl_get (user_tbl s) k = None \<Longrightarrow> user_answers s k = []"
  by (auto simp: wf_db_def user_answers_def tbl_select_def list_all_iff filter_empty_conv)

subsection \<open>The invariant\<close>

lemma wf_empty_db [simp]: "wf_db empty_db"
  by (simp add: wf_db_def empty_db_def)

lemma wf_session_add_user [wf_intros]:
  assumes "wf_db s" and "session_add_user v s = Inr (k, u, s')"
  shows "wf_db s'"
proof -
  from assms(2) have s': "s' = s\<lparr>user_tbl := snd (tbl_insert u (user_tbl s))\<rparr>"
    and ins: "tbl_insert u (user_tbl s) = (k, user_tbl s')"
    by (auto simp: session_add_user_Inr tbl_insert_def Let_def)
  have "tbl_get (user_tbl s') = (tbl_get (user_tbl s))(k \<mapsto> u)"
    using ins by (rule tbl_get_insert)
  with assms(1) ins show ?thesis
    by (auto simp: wf_db_def list_all_iff s' intro: tbl_ok_insert)
qed

lemma wf_session_add_answer [wf_intros]:
  assumes "wf_db s" and "tbl_get (user_tbl s) q \<noteq> None"
    and "session_add_answer v q s = Inr (k, a, s')"
  shows "wf_db s'"
proof -
  from assms(3) have s': "s' = s\<lparr>answer_tbl := answer_tbl s @ [(k, a)]\<rparr>"
    and ins: "tbl_insert a (answer_tbl s) = (k, answer_tbl s')" and q: "question_id a = q"
    by (auto simp: session_add_answer_Inr tbl_insert_def Let_def)
  from assms(1) ins have "tbl_ok (answer_tbl s')" by (auto simp: wf_db_def intro: tbl_ok_insert)
  with assms(1,2) q show ?thesis
    by (auto simp: wf_db_def s')
qed

lemma wf_session_delete_user [wf_intros]:
  assumes "wf_db s" shows "wf_db (session_delete_user k s)"
  using assms
  by (auto simp: wf_db_def session_delete_user_def list_all_iff
      intro: tbl_ok_delete tbl_ok_delete_where)

lemma wf_session_delete_answer [wf_intros]:
  assumes "wf_db s" shows "wf_db (session_delete_answer k s)"
  using assms
  by (auto simp: wf_db_def session_delete_answer_def list_all_iff intro: tbl_ok_delete)

lemma wf_session_set_comment [wf_intros]:
  assumes "wf_db s" and "session_set_comment k u v s = Inr (u', s')"
  shows "wf_db s'"
  using assms
  by (auto simp: wf_db_def session_set_comment_Inr list_all_iff intro: tbl_ok_set)

lemma wf_session_set_answer [wf_intros]:
  assumes "wf_db s" and "session_set_answer k a v s = Inr (a', s')"
    and "tbl_get (answer_tbl s) k = Some a"
  shows "wf_db s'"
proof -
  from assms(2) obtain c where a': "a' = a\<lparr>answer := c\<rparr>"
    and s': "s' = s\<lparr>answer_tbl := tbl_set k a' (answer_tbl s)\<rparr>"
    by (auto simp: session_set_answer_Inr)
  have "(k, a) \<in> set (answer_tbl s)" using assms(3) by (rule tbl_get_Some_in)
  then have "tbl_get (user_tbl s) (question_id a') \<noteq> None"
    using assms(1) a' by (auto simp: wf_db_def list_all_iff)
  with assms(1) show ?thesis
    by (auto simp: wf_db_def list_all_iff s' intro: tbl_ok_set dest!: in_set_tbl_set)
qed

end
