(* ===== verification/Schema.thy ===== *)
theory Schema
  imports Store
begin

text \<open>
  The marshmallow schemas of \<^verbatim>\<open>src/main.py\<close>: \<open>AnswerSchema\<close> dumps an answer as
  \<open>{id, answer, question_id}\<close>, \<open>UserSchema\<close> dumps a question as
  \<open>{id, comment, answers}\<close> with its answers nested (\<open>fields.Nested(AnswerSchema,
  many=True)\<close>), loaded through the relationship \<open>User.answers\<close> at dump time. A dump
  is a JSON value; the text \<open>jsonify\<close> writes for it is modelled in \<open>JsonText\<close>.
\<close>

definition dump_answer :: "rowid \<Rightarrow> Answer \<Rightarrow> jvalue" where
  "dump_answer k a =
     JObj [(''id'', JInt (int k)), (''answer'', JStr (answer a)),
           (''question_id'', JInt (int (question_id a)))]"

definition dump_user :: "db \<Rightarrow> rowid \<Rightarrow> User \<Rightarrow> jvalue" where
  "dump_user s k u =
     JObj [(''id'', JInt (int k)), (''comment'', JStr (comment u)),
           (''answers'', JList (map (\<lambda>(k', a). dump_answer k' a) (user_answers s k)))]"

text \<open>\<open>users_schema.dump(User.query.all())\<close>: every question, in table order.\<close>

definition dump_users :: "db \<Rightarrow> jvalue" where
  "dump_users s = JList (map (\<lambda>(k, u). dump_user s k u) (user_tbl s))"

text \<open>\<open>answers_schema = AnswerSchema(many=True)\<close>: a list of answers, each dumped by
  \<open>AnswerSchema\<close>. No route uses this instance; \<open>UserSchema\<close>'s nested field dumps the
  answers of a question the same way (\<open>dump_user_answers\<close>).\<close>

definition dump_answers :: "(rowid \<times> Answer) list \<Rightarrow> jvalue" where
  "dump_answers as = JList (map (\<lambda>(k, a). dump_answer k a) as)"

subsection \<open>Schema types\<close>

text \<open>The field types a schema declares, as types of JSON values: \<open>fields.Int\<close> is an
  integer, \<open>fields.Str\<close> a string, \<open>fields.Nested(..., many=True)\<close> a list of the nested
  schema's objects; an object lists its fields in the order of the dump.\<close>

datatype jtype = TInt | TStr | TList jtype | TObj "(string \<times> jtype) list"

function (sequential) has_type :: "jvalue \<Rightarrow> jtype \<Rightarrow> bool" where
  "has_type (JInt i) TInt = True"
| "has_type (JStr x) TStr = True"
| "has_type (JList vs) (TList t) = (\<forall>v\<in>set vs. has_type v t)"
| "has_type (JObj kvs) (TObj fts) =
     (map fst kvs = map fst fts \<and> (\<forall>(kv, ft)\<in>set (zip kvs fts). has_type (snd kv) (snd ft)))"
| "has_type _ _ = False"
  by pat_completeness auto
termination
  by (relation "measure (\<lambda>(v, t). size v)")
     (auto dest!: set_zip_leftD intro!: le_imp_less_Suc intro: size_list_estimation')

definition answer_ty :: jtype where
  "answer_ty = TObj [(''id'', TInt), (''answer'', TStr), (''question_id'', TInt)]"

definition user_ty :: jtype where
  "user_ty = TObj [(''id'', TInt), (''comment'', TStr), (''answers'', TList answer_ty)]"

subsection \<open>Lemmas\<close>

lemma dump_user_id:
  "py_getitem (dump_user s k u) ''id'' = Inr (JInt (int k))"
  by (simp add: dump_user_def dict_lookup_def)

lemma dump_user_answers:
  "dump_user s k u = JObj [(''id'', JInt (int k)), (''comment'', JStr (comment u)),
                          (''answers'', dump_answers (user_answers s k))]"
  by (simp add: dump_user_def dump_answers_def)

lemma dump_answer_type: "has_type (dump_answer k a) answer_ty"
  by (simp add: dump_answer_def answer_ty_def)

lemma dump_user_type: "has_type (dump_user s k u) user_ty"
  by (auto simp: dump_user_def user_ty_def dump_answer_type)

lemma dump_users_type: "has_type (dump_users s) (TList user_ty)"
  by (auto simp: dump_users_def dump_user_type)

lemma dump_user_no_answers:
  "user_answers s k = [] \<Longrightarrow>
     dump_user s k u = JObj [(''id'', JInt (int k)), (''comment'', JStr (comment u)), (''answers'', JList [])]"
  by (simp add: dump_user_def)

end
