(* ===== verification/Handlers.thy ===== *)
theory Handlers
  imports Schema
begin

text \<open>
  The seven route functions of \<^verbatim>\<open>src/main.py\<close> (lines 57-119), each a function of the
  path argument, the decoded JSON body and the database. A handler either returns a
  response and the database after its commit, or raises one of the exceptions of
  \<open>exc\<close>; the statements run in the order of the source, so a missing id is reported
  before the body is read, and the body before the database is written.
\<close>

datatype response = Response nat jvalue

type_synonym outcome = "exc + (response \<times> db)"

text \<open>\<open>jsonify({'error': msg}), 404\<close>\<close>

definition not_found :: "string \<Rightarrow> response" where
  "not_found msg = Response 404 (JObj [(''error'', JStr msg)])"

text \<open>\<open>jsonify({'message': msg, 'id': id})\<close>\<close>

definition deleted :: "string \<Rightarrow> nat \<Rightarrow> response" where
  "deleted msg k = Response 200 (JObj [(''message'', JStr msg), (''id'', JInt (int k))])"

text \<open>The types of the two bodies built with \<open>jsonify\<close> from a dict literal.\<close>

definition error_ty :: jtype where
  "error_ty = TObj [(''error'', TStr)]"
definition message_ty :: jtype where
  "message_ty = TObj [(''message'', TStr), (''id'', TInt)]"

text \<open>\<open>ma = Marshmallow(app)\<close> gives every schema the method \<open>jsonify(obj)\<close>, which is
  \<open>jsonify(self.dump(obj))\<close>: a 200 response with the dump as body; \<open>user_schema\<close> and
  \<open>answer_schema\<close> are the single-object instances the views call it on.\<close>

definition schema_jsonify :: "jvalue \<Rightarrow> response" where
  "schema_jsonify j = Response 200 j"

definition user_schema_jsonify :: "db \<Rightarrow> rowid \<Rightarrow> User \<Rightarrow> response" where
  "user_schema_jsonify s k u = schema_jsonify (dump_user s k u)"

definition answer_schema_jsonify :: "rowid \<Rightarrow> Answer \<Rightarrow> response" where
  "answer_schema_jsonify k a = schema_jsonify (dump_answer k a)"

declare schema_jsonify_def [simp] user_schema_jsonify_def [simp] answer_schema_jsonify_def [simp]

definition add_comment :: "jvalue option \<Rightarrow> db \<Rightarrow> outcome" where
  "add_comment body s =
     ok_bind (get_json body) (\<lambda>data.
     ok_bind (py_getitem data ''comment'') (\<lambda>v.
     ok_bind (session_add_user v s) (\<lambda>(k, u, s').
     Inr (user_schema_jsonify s' k u, s'))))"

definition home :: "db \<Rightarrow> outcome" where
  "home s = Inr (Response 200 (dump_users s), s)"

definition delete_comment :: "nat \<Rightarrow> db \<Rightarrow> outcome" where
  "delete_comment k s =
     ok_bind (query_get_user s k) (\<lambda>q. case q of
       None \<Rightarrow> Inr (not_found ''Question not found'', s)
     | Some _ \<Rightarrow> Inr (deleted ''Question deleted successfully'' k, session_delete_user k s))"

definition update_comment :: "nat \<Rightarrow> jvalue option \<Rightarrow> db \<Rightarrow> outcome" where
  "update_comment k body s =
     ok_bind (query_get_user s k) (\<lambda>q. case q of
       None \<Rightarrow> Inr (not_found ''Question not found'', s)
     | Some u \<Rightarrow>
         ok_bind (get_json body) (\<lambda>data.
         ok_bind (py_contains ''comment'' data) (\<lambda>has.
         ok_bind (if has then ok_bind (py_getitem data ''comment'') (\<lambda>v. session_set_comment k u v s)
                  else Inr (u, s)) (\<lambda>(u', s').
         Inr (user_schema_jsonify s' k u', s')))))"

definition add_answer :: "nat \<Rightarrow> jvalue option \<Rightarrow> db \<Rightarrow> outcome" where
  "add_answer q body s =
     ok_bind (query_get_user s q) (\<lambda>u. case u of
       None \<Rightarrow> Inr (not_found ''Question not found'', s)
     | Some _ \<Rightarrow>
         ok_bind (get_json body) (\<lambda>data.
         ok_bind (py_getitem data ''answer'') (\<lambda>v.
         ok_bind (session_add_answer v q s) (\<lambda>(k, a, s').
         Inr (answer_schema_jsonify k a, s')))))"

definition delete_answer :: "nat \<Rightarrow> db \<Rightarrow> outcome" where
  "delete_answer k s =
     ok_bind (query_get_answer s k) (\<lambda>a. case a of
       None \<Rightarrow> Inr (not_found ''Answer not found'', s)
     | Some _ \<Rightarrow> Inr (deleted ''Answer deleted successfully'' k, session_delete_answer k s))"

definition update_answer :: "nat \<Rightarrow> jvalue option \<Rightarrow> db \<Rightarrow> outcome" where
  "update_answer k body s =
     ok_bind (query_get_answer s k) (\<lambda>a. case a of
       None \<Rightarrow> Inr (not_found ''Answer not found'', s)
     | Some a \<Rightarrow>
         ok_bind (get_json body) (\<lambda>data.
         ok_bind (py_contains ''answer'' data) (\<lambda>has.
         ok_bind (if has then ok_bind (py_getitem data ''answer'') (\<lambda>v. session_set_answer k a v s)
                  else Inr (a, s)) (\<lambda>(a', s').
         Inr (answer_schema_jsonify k a', s')))))"

lemmas handler_defs =
  add_comment_def home_def delete_comment_def update_comment_def
  add_answer_def delete_answer_def update_answer_def

subsection \<open>The successful outcomes of each handler\<close>

text \<open>For each handler, the ways it can return normally: one disjunct per branch of
  the source. The invariant and the functional properties are read off these.\<close>

lemma add_comment_Inr:
  "add_comment body s = Inr (r, s') \<longleftrightarrow>
     (\<exists>data v k u. body = Some data \<and> py_getitem data ''comment'' = Inr v \<and>
        session_add_user v s = Inr (k, u, s') \<and> r = Response 200 (dump_user s' k u))"
  by (auto simp: add_comment_def ok_bind_eq_Inr)

lemma delete_comment_Inr:
  "delete_comment k s = Inr (r, s') \<longleftrightarrow>
     (query_get_user s k = Inr None \<and> r = not_found ''Question not found'' \<and> s' = s) \<or>
     (\<exists>u. query_get_user s k = Inr (Some u) \<and>
        r = deleted ''Question deleted successfully'' k \<and> s' = session_delete_user k s)"
  by (auto simp: delete_comment_def ok_bind_eq_Inr split: option.splits)

lemma update_comment_Inr:
  "update_comment k body s = Inr (r, s') \<longleftrightarrow>
     (query_get_user s k = Inr None \<and> r = not_found ''Question not found'' \<and> s' = s) \<or>
     (\<exists>u data u'. query_get_user s k = Inr (Some u) \<and> body = Some data \<and>
        r = Response 200 (dump_user s' k u') \<and>
        ((py_contains ''comment'' data = Inr False \<and> u' = u \<and> s' = s) \<or>
         (\<exists>v. py_contains ''comment'' data = Inr True \<and> py_getitem data ''comment'' = Inr v \<and>
              session_set_comment k u v s = Inr (u', s'))))"
  by (auto simp: update_comment_def ok_bind_eq_Inr split: option.splits if_splits)

lemma add_comment_bind_text:
  "bind_text v = bind_text w \<Longrightarrow>
   add_comment (Some (JObj [(''comment'', v)])) s = add_comment (Some (JObj [(''comment'', w)])) s"
  by (simp add: add_comment_def session_add_user_def dict_lookup_def)

lemma add_answer_Inr:
  "add_answer q body s = Inr (r, s') \<longleftrightarrow>
     (query_get_user s q = Inr None \<and> r = not_found ''Question not found'' \<and> s' = s) \<or>
     (\<exists>u data v k a. query_get_user s q = Inr (Some u) \<and> body = Some data \<and>
        py_getitem data ''answer'' = Inr v \<and> session_add_answer v q s = Inr (k, a, s') \<and>
        r = Response 200 (dump_answer k a))"
  by (auto simp: add_answer_def ok_bind_eq_Inr split: option.splits)

lemma delete_answer_Inr:
  "delete_answer k s = Inr (r, s') \<longleftrightarrow>
     (query_get_answer s k = Inr None \<and> r = not_found ''Answer not found'' \<and> s' = s) \<or>
     (\<exists>a. query_get_answer s k = Inr (Some a) \<and>
        r = deleted ''Answer deleted successfully'' k \<and> s' = session_delete_answer k s)"
  by (auto simp: delete_answer_def ok_bind_eq_Inr split: option.splits)

lemma update_answer_Inr:
  "update_answer k body s = Inr (r, s') \<longleftrightarrow>
     (query_get_answer s k = Inr None \<and> r = not_found ''Answer not found'' \<and> s' = s) \<or>
     (\<exists>a data a'. query_get_answer s k = Inr (Some a) \<and> body = Some data \<and>
        r = Response 200 (dump_answer k a') \<and>
        ((py_contains ''answer'' data = Inr False \<and> a' = a \<and> s' = s) \<or>
         (\<exists>v. py_contains ''answer'' data = Inr True \<and> py_getitem data ''answer'' = Inr v \<and>
              session_set_answer k a v s = Inr (a', s'))))"
  by (auto simp: update_answer_def ok_bind_eq_Inr split: option.splits if_splits)

subsection \<open>The invariant is kept by every handler\<close>

lemma wf_add_comment: "wf_db s \<Longrightarrow> add_comment body s = Inr (r, s') \<Longrightarrow> wf_db s'"
  by (auto simp: add_comment_Inr intro: wf_intros)

lemma wf_delete_comment: "wf_db s \<Longrightarrow> delete_comment k s = Inr (r, s') \<Longrightarrow> wf_db s'"
  by (auto simp: delete_comment_Inr intro: wf_intros)

lemma wf_update_comment: "wf_db s \<Longrightarrow> update_comment k body s = Inr (r, s') \<Longrightarrow> wf_db s'"
  by (auto simp: update_comment_Inr intro: wf_intros)

lemma wf_add_answer: "wf_db s \<Longrightarrow> add_answer q body s = Inr (r, s') \<Longrightarrow> wf_db s'"
  by (auto simp: add_answer_Inr query_get_user_eq_Inr intro: wf_intros)

lemma wf_delete_answer: "wf_db s \<Longrightarrow> delete_answer k s = Inr (r, s') \<Longrightarrow> wf_db s'"
  by (auto simp: delete_answer_Inr intro: wf_intros)

lemma wf_update_answer: "wf_db s \<Longrightarrow> update_answer k body s = Inr (r, s') \<Longrightarrow> wf_db s'"
  by (auto simp: update_answer_Inr query_get_answer_eq_Inr intro: wf_intros)

subsection \<open>The body types of the responses\<close>

lemma not_found_type: "Response c j = not_found m \<Longrightarrow> c = 404 \<and> has_type j error_ty"
  by (auto simp: not_found_def error_ty_def)

lemma deleted_type: "Response c j = deleted m k \<Longrightarrow> c = 200 \<and> has_type j message_ty"
  by (auto simp: deleted_def message_ty_def)


lemma add_comment_type: "add_comment body s = Inr (Response c j, s') \<Longrightarrow> c = 200 \<and> has_type j user_ty"
  by (auto simp: add_comment_Inr dump_user_type)

lemma delete_comment_type: "delete_comment k s = Inr (Response c j, s') \<Longrightarrow>
    (c = 200 \<and> has_type j message_ty) \<or> (c = 404 \<and> has_type j error_ty)"
  by (auto simp: delete_comment_Inr dest: not_found_type deleted_type)

lemma update_comment_type: "update_comment k body s = Inr (Response c j, s') \<Longrightarrow>
    (c = 200 \<and> has_type j user_ty) \<or> (c = 404 \<and> has_type j error_ty)"
  by (auto simp: update_comment_Inr dump_user_type dest: not_found_type)

lemma add_answer_type: "add_answer q body s = Inr (Response c j, s') \<Longrightarrow>
    (c = 200 \<and> has_type j answer_ty) \<or> (c = 404 \<and> has_type j error_ty)"
  by (auto simp: add_answer_Inr dump_answer_type dest: not_found_type)

lemma delete_answer_type: "delete_answer k s = Inr (Response c j, s') \<Longrightarrow>
    (c = 200 \<and> has_type j message_ty) \<or> (c = 404 \<and> has_type j error_ty)"
  by (auto simp: delete_answer_Inr dest: not_found_type deleted_type)

lemma update_answer_type: "update_answer k body s = Inr (Response c j, s') \<Longrightarrow>
    (c = 200 \<and> has_type j answer_ty) \<or> (c = 404 \<and> has_type j error_ty)"
  by (auto simp: update_answer_Inr dump_answer_type dest: not_found_type)

subsection \<open>Behaviour of the handlers\<close>

text \<open>C2. Deleting a question that exists removes it together with every answer
  whose \<open>question_id\<close> is its id (the cascade of \<open>User.answers\<close>), leaves the
  answers of every other question as they were, and confirms the deletion with its id.\<close>

theorem delete_comment_cascade:
  assumes "delete_comment k s = Inr (r, s')" and "tbl_get (user_tbl s) k \<noteq> None"
  shows "tbl_get (user_tbl s') k = None \<and> user_answers s' k = [] \<and>
         (\<forall>j. j \<noteq> k \<longrightarrow> user_answers s' j = user_answers s j) \<and>
         r = deleted ''Question deleted successfully'' k"
proof -
  from assms have "s' = session_delete_user k s" and "r = deleted ''Question deleted successfully'' k"
    by (auto simp: delete_comment_Inr query_get_user_eq_Inr)
  then show ?thesis by simp
qed

text \<open>C3. A question id that is not in the table (and that SQLite can bind)
  makes \<open>/delete\<close>, \<open>/update\<close> and \<open>/add_answer\<close> answer 404 with
  \<open>Question not found\<close> and change nothing, whatever the request body: the lookup
  precedes the reading of the body, and no answer is created for a missing question.\<close>

theorem missing_question_not_found:
  assumes "tbl_get (user_tbl s) k = None" and "int k < 2 ^ 63"
  shows "delete_comment k s = Inr (not_found ''Question not found'', s) \<and>
         update_comment k body s = Inr (not_found ''Question not found'', s) \<and>
         add_answer k body s = Inr (not_found ''Question not found'', s)"
  using assms by (simp add: delete_comment_def update_comment_def add_answer_def)

text \<open>C10. An answer id that is not in the table makes \<open>/delete_answer\<close>
  and \<open>/update_answer\<close> answer 404 with \<open>Answer not found\<close> and change nothing.\<close>

theorem missing_answer_not_found:
  assumes "tbl_get (answer_tbl s) k = None" and "int k < 2 ^ 63"
  shows "delete_answer k s = Inr (not_found ''Answer not found'', s) \<and>
         update_answer k body s = Inr (not_found ''Answer not found'', s)"
  using assms by (simp add: delete_answer_def update_answer_def)

text \<open>C4. \<open>/update/<id>\<close> changes at most the comment of question \<open>id\<close>:
  the answers, the set and order of question ids and every other question are kept.\<close>

theorem update_comment_frame:
  assumes "update_comment k body s = Inr (r, s')"
  shows "answer_tbl s' = answer_tbl s \<and> map fst (user_tbl s') = map fst (user_tbl s) \<and>
         (\<forall>j. j \<noteq> k \<longrightarrow> tbl_get (user_tbl s') j = tbl_get (user_tbl s) j)"
  using assms by (auto simp: update_comment_Inr db_simps)

text \<open>C14. \<open>/update/<id>\<close> with a JSON object that has no \<open>comment\<close>
  key changes nothing and still answers 200 with the question.\<close>

theorem update_comment_without_field:
  assumes "tbl_get (user_tbl s) k = Some u" and "int k < 2 ^ 63"
    and "''comment'' \<notin> set (map fst kvs)"
  shows "update_comment k (Some (JObj kvs)) s = Inr (Response 200 (dump_user s k u), s)"
  using assms by (simp add: update_comment_def)

text \<open>C7. After a question is deleted, every answer it had is gone:
  \<open>/update_answer\<close> and \<open>/delete_answer\<close> on its id answer 404.\<close>

theorem deleted_question_answers_gone:
  assumes "wf_db s" and "delete_comment k s = Inr (r, s')"
    and "(aid, a) \<in> set (answer_tbl s)" and "question_id a = k" and "int aid < 2 ^ 63"
  shows "update_answer aid body s' = Inr (not_found ''Answer not found'', s') \<and>
         delete_answer aid s' = Inr (not_found ''Answer not found'', s')"
proof -
  from assms(1,3,4) have "tbl_get (user_tbl s) k \<noteq> None"
    by (auto simp: wf_db_def list_all_iff)
  with assms(2) have s': "s' = session_delete_user k s"
    by (auto simp: delete_comment_Inr query_get_user_eq_Inr)
  have "tbl_get (answer_tbl s') aid = None"
  proof (rule ccontr)
    assume "tbl_get (answer_tbl s') aid \<noteq> None"
    then obtain b where "(aid, b) \<in> set (answer_tbl s)" and "question_id b \<noteq> k"
      by (auto simp: s' session_delete_user_def dest!: tbl_get_Some_in)
    with assms(1,3,4) show False
      by (auto simp: wf_db_def dest: tbl_ok_unique_key)
  qed
  with assms(5) show ?thesis by (simp add: missing_answer_not_found)
qed

text \<open>C11. \<open>/add\<close> appends one question to the table, with an id larger
  than every id in it, and leaves the answers untouched.\<close>

theorem add_comment_fresh_id:
  assumes "add_comment body s = Inr (r, s')"
  shows "\<exists>k u. user_tbl s' = user_tbl s @ [(k, u)] \<and> (\<forall>j \<in> set (map fst (user_tbl s)). j < k) \<and>
           answer_tbl s' = answer_tbl s"
  using assms by (auto simp: add_comment_Inr db_simps new_rowid_gt)

text \<open>C12. \<open>/add_answer/<question_id>\<close> with \<open>{"answer": t}\<close> for an
  existing question appends the answer with the next free id and returns it.\<close>

theorem add_answer_appends:
  assumes "tbl_get (user_tbl s) q = Some u" and "int q < 2 ^ 63"
  shows "add_answer q (Some (JObj [(''answer'', JStr t)])) s =
           Inr (Response 200 (dump_answer (new_rowid (answer_tbl s)) \<lparr>answer = t, question_id = q\<rparr>),
                s\<lparr>answer_tbl := answer_tbl s @ [(new_rowid (answer_tbl s), \<lparr>answer = t, question_id = q\<rparr>)]\<rparr>)"
  using assms
  by (simp add: add_answer_def session_add_answer_def tbl_insert_def dict_lookup_def Let_def)

text \<open>C13. \<open>/delete_answer/<id>\<close> removes that answer only: the questions
  and every other answer are kept.\<close>

theorem delete_answer_frame:
  assumes "delete_answer k s = Inr (r, s')"
  shows "user_tbl s' = user_tbl s \<and> tbl_get (answer_tbl s') k = None \<and>
         (\<forall>j. j \<noteq> k \<longrightarrow> tbl_get (answer_tbl s') j = tbl_get (answer_tbl s) j)"
  using assms
  by (auto simp: delete_answer_Inr query_get_answer_eq_Inr session_delete_answer_def)


text \<open>C19. \<open>/update/<id>\<close> with a body that is a JSON string: Python's
  \<open>'comment' in data\<close> is then a substring test, so a string containing
  \<open>comment\<close> passes it and \<open>data['comment']\<close> raises \<open>TypeError\<close> (a 500); any
  other string leaves the question unchanged and answers 200.\<close>

theorem update_comment_string_body:
  assumes "tbl_get (user_tbl s) k = Some u" and "int k < 2 ^ 63"
  shows "update_comment k (Some (JStr t)) s =
           (if sublist ''comment'' t then Inl TypeError else Inr (Response 200 (dump_user s k u), s))"
  using assms by (simp add: update_comment_def)

text \<open>C20. \<open>/update_answer/<id>\<close> with \<open>{"answer": t}\<close> on an existing
  answer replaces its text in place, keeps its id and its question, and returns it.\<close>

theorem update_answer_sets_text:
  assumes "tbl_get (answer_tbl s) k = Some a" and "int k < 2 ^ 63"
  shows "update_answer k (Some (JObj [(''answer'', JStr t)])) s =
           Inr (Response 200 (dump_answer k (a\<lparr>answer := t\<rparr>)),
                s\<lparr>answer_tbl := tbl_set k (a\<lparr>answer := t\<rparr>) (answer_tbl s)\<rparr>)"
  using assms by (simp add: update_answer_def session_set_answer_def dict_lookup_def Let_def)

subsection \<open>Witnesses\<close>

text \<open>Each theorem above with a hypothesis, applied at a concrete database where the
  hypotheses hold.\<close>

theorem delete_comment_cascade_witness:
  "let s = \<lparr>user_tbl = [(1, \<lparr>comment = ''q''\<rparr>), (2, \<lparr>comment = ''r''\<rparr>)],
            answer_tbl = [(1, \<lparr>answer = ''a'', question_id = 1\<rparr>), (2, \<lparr>answer = ''b'', question_id = 2\<rparr>)]\<rparr>;
       s' = session_delete_user 1 s
   in delete_comment 1 s = Inr (deleted ''Question deleted successfully'' 1, s') \<and>
      tbl_get (user_tbl s) 1 \<noteq> None \<and>
      tbl_get (user_tbl s') 1 = None \<and> user_answers s' 1 = [] \<and> user_answers s' 2 = user_answers s 2"
proof -
  let ?s = "\<lparr>user_tbl = [(1, \<lparr>comment = ''q''\<rparr>), (2, \<lparr>comment = ''r''\<rparr>)],
            answer_tbl = [(1, \<lparr>answer = ''a'', question_id = 1\<rparr>), (2, \<lparr>answer = ''b'', question_id = 2::nat\<rparr>)]\<rparr>"
  have h1: "delete_comment 1 ?s = Inr (deleted ''Question deleted successfully'' 1, session_delete_user 1 ?s)"
    by (simp add: delete_comment_def tbl_get_def)
  have h2: "tbl_get (user_tbl ?s) 1 \<noteq> None" by (simp add: tbl_get_def)
  show ?thesis using h1 h2 delete_comment_cascade [OF h1 h2] by (simp add: Let_def)
qed

theorem missing_question_not_found_witness:
  "let s = \<lparr>user_tbl = [(1, \<lparr>comment = ''q''\<rparr>)], answer_tbl = []\<rparr>
   in tbl_get (user_tbl s) 2 = None \<and> int 2 < 2 ^ 63 \<and>
      add_answer 2 (Some (JObj [(''answer'', JStr ''a'')])) s = Inr (not_found ''Question not found'', s)"
proof -
  let ?s = "\<lparr>user_tbl = [(1, \<lparr>comment = ''q''\<rparr>)], answer_tbl = []\<rparr>"
  have h1: "tbl_get (user_tbl ?s) 2 = None" by (simp add: tbl_get_def)
  have h2: "int 2 < 2 ^ 63" by simp
  show ?thesis using h1 h2 missing_question_not_found [OF h1 h2] by (simp add: Let_def)
qed

theorem missing_answer_not_found_witness:
  "let s = \<lparr>user_tbl = [(1, \<lparr>comment = ''q''\<rparr>)], answer_tbl = []\<rparr>
   in tbl_get (answer_tbl s) 1 = None \<and> int 1 < 2 ^ 63 \<and>
      update_answer 1 None s = Inr (not_found ''Answer not found'', s)"
proof -
  let ?s = "\<lparr>user_tbl = [(1, \<lparr>comment = ''q''\<rparr>)], answer_tbl = []\<rparr>"
  have h1: "tbl_get (answer_tbl ?s) 1 = None" by (simp add: tbl_get_def)
  have h2: "int 1 < 2 ^ 63" by simp
  show ?thesis using h1 h2 missing_answer_not_found [OF h1 h2] by (simp add: Let_def)
qed

theorem update_comment_frame_witness:
  "let s = \<lparr>user_tbl = [(1, \<lparr>comment = ''q''\<rparr>), (2, \<lparr>comment = ''r''\<rparr>)],
            answer_tbl = [(1, \<lparr>answer = ''a'', question_id = 1\<rparr>)]\<rparr>;
       s' = s\<lparr>user_tbl := [(1, \<lparr>comment = ''q2''\<rparr>), (2, \<lparr>comment = ''r''\<rparr>)]\<rparr>
   in update_comment 1 (Some (JObj [(''comment'', JStr ''q2'')])) s =
        Inr (Response 200 (dump_user s' 1 \<lparr>comment = ''q2''\<rparr>), s') \<and>
      answer_tbl s' = answer_tbl s \<and> tbl_get (user_tbl s') 2 = tbl_get (user_tbl s) 2"
proof -
  let ?s = "\<lparr>user_tbl = [(1, \<lparr>comment = ''q''\<rparr>), (2, \<lparr>comment = ''r''\<rparr>)],
            answer_tbl = [(1, \<lparr>answer = ''a'', question_id = 1::nat\<rparr>)]\<rparr>"
  let ?s' = "?s\<lparr>user_tbl := [(1, \<lparr>comment = ''q2''\<rparr>), (2, \<lparr>comment = ''r''\<rparr>)]\<rparr>"
  have h: "update_comment 1 (Some (JObj [(''comment'', JStr ''q2'')])) ?s =
        Inr (Response 200 (dump_user ?s' 1 \<lparr>comment = ''q2''\<rparr>), ?s')"
    by (simp add: update_comment_def tbl_get_def dict_lookup_def session_set_comment_def tbl_set_def Let_def)
  show ?thesis using h update_comment_frame [OF h] by (simp add: Let_def)
qed

theorem update_comment_without_field_witness:
  "let s = \<lparr>user_tbl = [(1, \<lparr>comment = ''q''\<rparr>)], answer_tbl = []\<rparr>
   in tbl_get (user_tbl s) 1 = Some \<lparr>comment = ''q''\<rparr> \<and> int 1 < 2 ^ 63 \<and>
      ''comment'' \<notin> set (map fst [(''text'', JStr ''x'')]) \<and>
      update_comment 1 (Some (JObj [(''text'', JStr ''x'')])) s =
        Inr (Response 200 (dump_user s 1 \<lparr>comment = ''q''\<rparr>), s)"
proof -
  let ?s = "\<lparr>user_tbl = [(1, \<lparr>comment = ''q''\<rparr>)], answer_tbl = []\<rparr>"
  have h1: "tbl_get (user_tbl ?s) 1 = Some \<lparr>comment = ''q''\<rparr>" by (simp add: tbl_get_def)
  have h2: "int 1 < 2 ^ 63" by simp
  have h3: "''comment'' \<notin> set (map fst [(''text'', JStr ''x'')])" by simp
  show ?thesis using h1 h2 h3 update_comment_without_field [OF h1 h2 h3] by (simp add: Let_def)
qed

theorem deleted_question_answers_gone_witness:
  "let s = \<lparr>user_tbl = [(1, \<lparr>comment = ''q''\<rparr>)], answer_tbl = [(1, \<lparr>answer = ''a'', question_id = 1\<rparr>)]\<rparr>;
       s' = session_delete_user 1 s
   in wf_db s \<and> delete_comment 1 s = Inr (deleted ''Question deleted successfully'' 1, s') \<and>
      update_answer 1 None s' = Inr (not_found ''Answer not found'', s') \<and>
      delete_answer 1 s' = Inr (not_found ''Answer not found'', s')"
proof -
  let ?s = "\<lparr>user_tbl = [(1, \<lparr>comment = ''q''\<rparr>)], answer_tbl = [(1, \<lparr>answer = ''a'', question_id = 1::nat\<rparr>)]\<rparr>"
  have h1: "wf_db ?s" by (simp add: wf_db_def tbl_ok_def tbl_get_def)
  have h2: "delete_comment 1 ?s = Inr (deleted ''Question deleted successfully'' 1, session_delete_user 1 ?s)"
    by (simp add: delete_comment_def tbl_get_def)
  have h3: "(1, \<lparr>answer = ''a'', question_id = 1::nat\<rparr>) \<in> set (answer_tbl ?s)" by simp
  have h4: "question_id \<lparr>answer = ''a'', question_id = 1::nat\<rparr> = 1" by simp
  have h5: "int 1 < 2 ^ 63" by simp
  show ?thesis using h1 h2 deleted_question_answers_gone [OF h1 h2 h3 h4 h5, of None] by (simp add: Let_def)
qed

theorem add_comment_fresh_id_witness:
  "let s = \<lparr>user_tbl = [(3, \<lparr>comment = ''q''\<rparr>)], answer_tbl = []\<rparr>;
       s' = s\<lparr>user_tbl := [(3, \<lparr>comment = ''q''\<rparr>), (4, \<lparr>comment = ''p''\<rparr>)]\<rparr>
   in add_comment (Some (JObj [(''comment'', JStr ''p'')])) s =
        Inr (Response 200 (dump_user s' 4 \<lparr>comment = ''p''\<rparr>), s') \<and>
      (\<exists>k u. user_tbl s' = user_tbl s @ [(k, u)] \<and> (\<forall>j \<in> set (map fst (user_tbl s)). j < k))"
proof -
  let ?s = "\<lparr>user_tbl = [(3::nat, \<lparr>comment = ''q''\<rparr>)], answer_tbl = []\<rparr>"
  let ?s' = "?s\<lparr>user_tbl := [(3, \<lparr>comment = ''q''\<rparr>), (4, \<lparr>comment = ''p''\<rparr>)]\<rparr>"
  have h: "add_comment (Some (JObj [(''comment'', JStr ''p'')])) ?s =
        Inr (Response 200 (dump_user ?s' 4 \<lparr>comment = ''p''\<rparr>), ?s')"
    by (simp add: add_comment_def dict_lookup_def session_add_user_def tbl_insert_def new_rowid_def
        max_rowid_def Let_def)
  show ?thesis using h add_comment_fresh_id [OF h] by (simp add: Let_def)
qed

theorem add_answer_appends_witness:
  "let s = \<lparr>user_tbl = [(1, \<lparr>comment = ''q''\<rparr>)], answer_tbl = [(5, \<lparr>answer = ''a'', question_id = 1\<rparr>)]\<rparr>
   in tbl_get (user_tbl s) 1 = Some \<lparr>comment = ''q''\<rparr> \<and> int 1 < 2 ^ 63 \<and>
      add_answer 1 (Some (JObj [(''answer'', JStr ''b'')])) s =
        Inr (Response 200 (dump_answer 6 \<lparr>answer = ''b'', question_id = 1\<rparr>),
             s\<lparr>answer_tbl := answer_tbl s @ [(6, \<lparr>answer = ''b'', question_id = 1\<rparr>)]\<rparr>)"
proof -
  let ?s = "\<lparr>user_tbl = [(1::nat, \<lparr>comment = ''q''\<rparr>)], answer_tbl = [(5, \<lparr>answer = ''a'', question_id = 1::nat\<rparr>)]\<rparr>"
  have h1: "tbl_get (user_tbl ?s) 1 = Some \<lparr>comment = ''q''\<rparr>" by (simp add: tbl_get_def)
  have h2: "int 1 < 2 ^ 63" by simp
  have "new_rowid (answer_tbl ?s) = 6" by (simp add: new_rowid_def)
  then show ?thesis using h1 h2 add_answer_appends [OF h1 h2, of "''b''"] by (simp add: Let_def)
qed

theorem delete_answer_frame_witness:
  "let s = \<lparr>user_tbl = [(1, \<lparr>comment = ''q''\<rparr>)],
            answer_tbl = [(1, \<lparr>answer = ''a'', question_id = 1\<rparr>), (2, \<lparr>answer = ''b'', question_id = 1\<rparr>)]\<rparr>;
       s' = session_delete_answer 1 s
   in delete_answer 1 s = Inr (deleted ''Answer deleted successfully'' 1, s') \<and>
      user_tbl s' = user_tbl s \<and> tbl_get (answer_tbl s') 1 = None \<and>
      tbl_get (answer_tbl s') 2 = tbl_get (answer_tbl s) 2"
proof -
  let ?s = "\<lparr>user_tbl = [(1::nat, \<lparr>comment = ''q''\<rparr>)],
            answer_tbl = [(1, \<lparr>answer = ''a'', question_id = 1::nat\<rparr>), (2, \<lparr>answer = ''b'', question_id = 1\<rparr>)]\<rparr>"
  have h: "delete_answer 1 ?s = Inr (deleted ''Answer deleted successfully'' 1, session_delete_answer 1 ?s)"
    by (simp add: delete_answer_def tbl_get_def)
  show ?thesis using h delete_answer_frame [OF h] by (simp add: Let_def)
qed

theorem update_comment_string_body_witness:
  "let s = \<lparr>user_tbl = [(1, \<lparr>comment = ''q''\<rparr>)], answer_tbl = []\<rparr>
   in tbl_get (user_tbl s) 1 = Some \<lparr>comment = ''q''\<rparr> \<and> int 1 < 2 ^ 63 \<and>
      update_comment 1 (Some (JStr ''no comment'')) s = Inl TypeError"
proof -
  let ?s = "\<lparr>user_tbl = [(1::nat, \<lparr>comment = ''q''\<rparr>)], answer_tbl = []\<rparr>"
  have h1: "tbl_get (user_tbl ?s) 1 = Some \<lparr>comment = ''q''\<rparr>" by (simp add: tbl_get_def)
  have h2: "int 1 < 2 ^ 63" by simp
  have sub: "sublist ''comment'' ''no comment''"
    using sublist_appendI [where ps = "''no ''" and xs = "''comment''" and ss = "[]"] by simp
  show ?thesis using h1 h2 sub update_comment_string_body [OF h1 h2, of "''no comment''"]
    by (simp add: Let_def)
qed

theorem update_answer_sets_text_witness:
  "let s = \<lparr>user_tbl = [(1, \<lparr>comment = ''q''\<rparr>)], answer_tbl = [(4, \<lparr>answer = ''a'', question_id = 1\<rparr>)]\<rparr>
   in tbl_get (answer_tbl s) 4 = Some \<lparr>answer = ''a'', question_id = 1\<rparr> \<and> int 4 < 2 ^ 63 \<and>
      update_answer 4 (Some (JObj [(''answer'', JStr ''b'')])) s =
        Inr (Response 200 (JObj [(''id'', JInt 4), (''answer'', JStr ''b''), (''question_id'', JInt 1)]),
             s\<lparr>answer_tbl := [(4, \<lparr>answer = ''b'', question_id = 1\<rparr>)]\<rparr>)"
proof -
  let ?s = "\<lparr>user_tbl = [(1::nat, \<lparr>comment = ''q''\<rparr>)], answer_tbl = [(4::nat, \<lparr>answer = ''a'', question_id = 1::nat\<rparr>)]\<rparr>"
  have h1: "tbl_get (answer_tbl ?s) 4 = Some \<lparr>answer = ''a'', question_id = 1\<rparr>" by (simp add: tbl_get_def)
  have h2: "int 4 < 2 ^ 63" by simp
  show ?thesis using h1 h2 update_answer_sets_text [OF h1 h2, of "''b''"]
    by (simp add: Let_def dump_answer_def tbl_set_def)
qed

end
