(* ===== verification/PyInt.thy ===== *)
theory PyInt
  imports Prelude
begin

text \<open>
  Python's \<open>int()\<close> applied to a \<open>str\<close>, after CPython's \<open>PyLong_FromUnicodeObject\<close>:
  surrounding whitespace, one sign, single underscores between digits, and the limit of
  4300 digits of Python 3.11 and later (which \<open>json.loads\<close> also meets when it converts
  the digits of a JSON integer). Characters are code points below 256; the decimal
  digits among them are the ASCII ones, and the whitespace is that of
  \<open>Py_UNICODE_ISSPACE\<close>: ASCII 9--13, the separators 28--31 and 32, and the non-ASCII
  spaces U+0085 and U+00A0.
\<close>

definition int_space :: "char \<Rightarrow> bool" where
  "int_space c \<longleftrightarrow>
     (let n = (of_char c :: nat) in (9 \<le> n \<and> n \<le> 13) \<or> (28 \<le> n \<and> n \<le> 32) \<or> n = 133 \<or> n = 160)"

definition max_str_digits :: nat where
  "max_str_digits = 4300"

text \<open>The digit loop: the value so far, the number of digits so far, and the rest of
  the text after the last digit; an underscore must stand between two digits.\<close>

fun int_digits :: "nat \<Rightarrow> nat \<Rightarrow> string \<Rightarrow> (nat \<times> nat \<times> string) option" where
  "int_digits acc n [] = Some (acc, n, [])"
| "int_digits acc n (c # s) =
     (if is_digit c then int_digits (10 * acc + digit_value c) (Suc n) s
      else if c = CHR ''_'' then
        (case s of
           d # s' \<Rightarrow> if is_digit d then int_digits (10 * acc + digit_value d) (Suc n) s' else None
         | [] \<Rightarrow> None)
      else Some (acc, n, c # s))"

definition int_sign :: "string \<Rightarrow> int \<times> string" where
  "int_sign t =
     (if t \<noteq> [] \<and> hd t = CHR ''-'' then (-1, tl t)
      else if t \<noteq> [] \<and> hd t = CHR ''+'' then (1, tl t)
      else (1, t))"

text \<open>\<open>int(v)\<close> for a \<open>str\<close> \<open>v\<close>; \<open>None\<close> is the \<open>ValueError\<close>.\<close>

definition py_int_str :: "string \<Rightarrow> int option" where
  "py_int_str v =
     (let (sg, u) = int_sign (dropWhile int_space v) in
      case u of
        [] \<Rightarrow> None
      | c # w \<Rightarrow>
          if \<not> is_digit c then None
          else (case int_digits (digit_value c) 1 w of
                  None \<Rightarrow> None
                | Some (m, n, r) \<Rightarrow>
                    if max_str_digits < n \<or> \<not> list_all int_space r then None
                    else Some (sg * int m)))"

subsection \<open>Lemmas on \<open>int()\<close>\<close>

lemma nat_text_small: "int k < 2 ^ 63 \<Longrightarrow> length (nat_text k) \<le> max_str_digits"
  using length_nat_text [of k 18] by (simp add: max_str_digits_def)

lemma nat_text_large: "max_str_digits < length (nat_text k) \<Longrightarrow> 2 ^ 63 \<le> int k"
  using nat_text_small [of k] by linarith

lemma int_space_char_class:
  "int_space c \<Longrightarrow> \<not> is_digit c \<and> c \<noteq> CHR ''_'' \<and> c \<noteq> CHR ''-'' \<and> c \<noteq> CHR ''+''"
  by (auto simp: int_space_def is_digit_def Let_def)

lemma is_digit_char_class:
  "is_digit c \<Longrightarrow> c \<noteq> CHR ''_'' \<and> c \<noteq> CHR ''-'' \<and> c \<noteq> CHR ''+''"
  by (auto simp: is_digit_def)

lemma int_sign_set:
  "int_sign t = (sg, u) \<Longrightarrow> set t \<subseteq> set u \<union> {CHR ''+'', CHR ''-''}"
  by (cases t) (auto simp: int_sign_def split: if_splits)

lemma dropWhile_int_space:
  "list_all int_space ws \<Longrightarrow> t = [] \<or> \<not> int_space (hd t) \<Longrightarrow> dropWhile int_space (ws @ t) = t"
proof (induction ws)
  case Nil
  then show ?case by (cases t) auto
qed auto

lemma int_digits_text:
  "list_all is_digit ds \<Longrightarrow> list_all int_space ws \<Longrightarrow>
     int_digits acc n (ds @ ws) = Some (digits_value acc ds, n + length ds, ws)"
proof (induction ds arbitrary: acc n)
  case Nil
  then show ?case by (cases ws) (auto dest: int_space_char_class)
qed auto

lemma int_digits_chars:
  "int_digits acc n s = Some (m, k, r) \<Longrightarrow> \<forall>c\<in>set s. is_digit c \<or> c = CHR ''_'' \<or> c \<in> set r"
  by (induction acc n s rule: int_digits.induct) (auto split: if_splits list.splits)

text \<open>The general reading of a digit string between whitespace, with or without a minus.\<close>

lemma py_int_str_digits:
  assumes "list_all int_space ws1" "list_all int_space ws2" "ds \<noteq> []" "list_all is_digit ds"
    and "length ds \<le> max_str_digits"
  shows "py_int_str (ws1 @ ds @ ws2) = Some (int (digits_value 0 ds))"
    and "py_int_str (ws1 @ CHR ''-'' # ds @ ws2) = Some (- int (digits_value 0 ds))"
proof -
  obtain c w where ds: "ds = c # w" using assms(3) by (cases ds) auto
  have c: "is_digit c" "\<not> int_space c" "c \<noteq> CHR ''-''" "c \<noteq> CHR ''+''"
    using assms(4) ds by (auto dest: int_space_char_class is_digit_char_class)
  have w: "list_all is_digit w" using assms(4) ds by simp
  have run: "int_digits (digit_value c) 1 (w @ ws2) = Some (digits_value (digit_value c) w, Suc (length w), ws2)"
    using int_digits_text [OF w assms(2)] by simp
  have len: "\<not> max_str_digits < Suc (length w)" using assms(5) ds by simp
  show "py_int_str (ws1 @ ds @ ws2) = Some (int (digits_value 0 ds))"
    using assms(1,2) c run len ds
    by (simp add: py_int_str_def int_sign_def dropWhile_int_space)
  have m: "\<not> int_space (CHR ''-'')" by (simp add: int_space_def)
  show "py_int_str (ws1 @ CHR ''-'' # ds @ ws2) = Some (- int (digits_value 0 ds))"
    using assms(1,2) c run len ds m dropWhile_int_space [OF assms(1), of "CHR ''-'' # ds @ ws2"]
    by (simp add: py_int_str_def int_sign_def)
qed

lemma py_int_str_chars:
  assumes "py_int_str v = Some i"
  shows "\<forall>c\<in>set v. is_digit c \<or> int_space c \<or> c \<in> {CHR ''+'', CHR ''-'', CHR ''_''}"
proof -
  obtain sg u where su: "int_sign (dropWhile int_space v) = (sg, u)" by fastforce
  obtain c w where u: "u = c # w" and cd: "is_digit c"
    using assms su by (auto simp: py_int_str_def split: list.splits if_splits)
  obtain m k r where run: "int_digits (digit_value c) 1 w = Some (m, k, r)" and r: "list_all int_space r"
    using assms su u cd by (auto simp: py_int_str_def split: option.splits if_splits)
  have "set (dropWhile int_space v) \<subseteq> set u \<union> {CHR ''+'', CHR ''-''}"
    using int_sign_set [OF su] .
  moreover have "\<forall>x\<in>set u. is_digit x \<or> x = CHR ''_'' \<or> x \<in> set r"
    using int_digits_chars [OF run] u cd by auto
  ultimately have u_chars: "\<forall>x\<in>set (dropWhile int_space v).
      is_digit x \<or> int_space x \<or> x \<in> {CHR ''+'', CHR ''-'', CHR ''_''}"
    using r by (auto simp: list_all_iff)
  show ?thesis
  proof
    fix x assume "x \<in> set v"
    then have "x \<in> set (takeWhile int_space v) \<or> x \<in> set (dropWhile int_space v)"
      by (metis Un_iff set_append takeWhile_dropWhile_id)
    then show "is_digit x \<or> int_space x \<or> x \<in> {CHR ''+'', CHR ''-'', CHR ''_''}"
      using u_chars by (auto dest: set_takeWhileD)
  qed
qed

end
