(* ===== verification/App.thy ===== *)
theory App
  imports Handlers PyInt
begin

text \<open>
  The Flask application of \<^verbatim>\<open>src/main.py\<close> as a whole: the URL map built by the seven
  \<open>@app.route\<close> decorators, the matching of a request's method and path against it
  (Werkzeug's router with the \<open><int:...>\<close> converter, Flask's automatic \<open>HEAD\<close> for
  \<open>GET\<close> rules and automatic \<open>OPTIONS\<close>), the call of the matched handler, and the
  translation of an exception escaping a handler into an error page, with the request's
  session rolled back. Requests are served one after the other, each in its own
  transaction; \<open>reachable\<close> is the set of databases some sequence of requests
  produces from the freshly created one.
\<close>

datatype http_method = GET | HEAD | POST | PUT | PATCH | DELETE | OPTIONS

datatype segment = Lit string | IntArg

datatype endpoint =
    EAddComment | EHome | EDeleteComment | EUpdateComment
  | EAddAnswer | EDeleteAnswer | EUpdateAnswer

record rule =
  rule_path :: "segment list"
  rule_methods :: "http_method list"
  rule_endpoint :: endpoint

text \<open>The URL map, one rule per decorator, in the order of the source.\<close>

definition url_map :: "rule list" where
  "url_map =
     [\<lparr>rule_path = [Lit ''add''], rule_methods = [POST], rule_endpoint = EAddComment\<rparr>,
      \<lparr>rule_path = [Lit ''home''], rule_methods = [GET], rule_endpoint = EHome\<rparr>,
      \<lparr>rule_path = [Lit ''delete'', IntArg], rule_methods = [DELETE], rule_endpoint = EDeleteComment\<rparr>,
      \<lparr>rule_path = [Lit ''update'', IntArg], rule_methods = [PATCH], rule_endpoint = EUpdateComment\<rparr>,
      \<lparr>rule_path = [Lit ''add_answer'', IntArg], rule_methods = [POST], rule_endpoint = EAddAnswer\<rparr>,
      \<lparr>rule_path = [Lit ''delete_answer'', IntArg], rule_methods = [DELETE], rule_endpoint = EDeleteAnswer\<rparr>,
      \<lparr>rule_path = [Lit ''update_answer'', IntArg], rule_methods = [PATCH], rule_endpoint = EUpdateAnswer\<rparr>]"

text \<open>A matched route: the endpoint with its converted path argument.\<close>

datatype route =
    AddComment | Home | DeleteComment nat | UpdateComment nat
  | AddAnswer nat | DeleteAnswer nat | UpdateAnswer nat

fun endpoint_route :: "endpoint \<Rightarrow> nat list \<Rightarrow> route option" where
  "endpoint_route EAddComment [] = Some AddComment"
| "endpoint_route EHome [] = Some Home"
| "endpoint_route EDeleteComment [k] = Some (DeleteComment k)"
| "endpoint_route EUpdateComment [k] = Some (UpdateComment k)"
| "endpoint_route EAddAnswer [k] = Some (AddAnswer k)"
| "endpoint_route EDeleteAnswer [k] = Some (DeleteAnswer k)"
| "endpoint_route EUpdateAnswer [k] = Some (UpdateAnswer k)"
| "endpoint_route _ _ = None"

text \<open>Python's \<open>str.split('/')\<close>.\<close>

fun split_on :: "char \<Rightarrow> string \<Rightarrow> string list" where
  "split_on c [] = [[]]"
| "split_on c (x # xs) =
     (if x = c then [] # split_on c xs else (let ws = split_on c xs in (x # hd ws) # tl ws))"

definition path_segments :: "string \<Rightarrow> string list option" where
  "path_segments p = (case p of x # xs \<Rightarrow> if x = CHR ''/'' then Some (split_on CHR ''/'' xs) else None
                               | [] \<Rightarrow> None)"

text \<open>A rule matches the whole path; \<open><int:id>\<close> takes one segment that the
  converter's regular expression \<open>\\d+\<close> accepts (among the characters of the model, a
  non-empty string of ASCII digits). The digits are converted once the rule is chosen.\<close>

fun match_segments :: "segment list \<Rightarrow> string list \<Rightarrow> string list option" where
  "match_segments [] [] = Some []"
| "match_segments (Lit l # ps) (w # ws) = (if l = w then match_segments ps ws else None)"
| "match_segments (IntArg # ps) (w # ws) =
     (if w \<noteq> [] \<and> list_all is_digit w then map_option (Cons w) (match_segments ps ws) else None)"
| "match_segments _ _ = None"

definition matching_rules :: "string \<Rightarrow> (rule \<times> string list) list" where
  "matching_rules p =
     (case path_segments p of
        None \<Rightarrow> []
      | Some ws \<Rightarrow> List.map_filter (\<lambda>r. map_option (Pair r) (match_segments (rule_path r) ws)) url_map)"

text \<open>The methods of a rule as Werkzeug sees them: those of the decorator, \<open>HEAD\<close> with
  \<open>GET\<close>, and \<open>OPTIONS\<close>, which Flask adds to every rule it answers itself
  (\<open>provide_automatic_options\<close>).\<close>

definition method_allowed :: "http_method \<Rightarrow> rule \<Rightarrow> bool" where
  "method_allowed m r \<longleftrightarrow>
     m \<in> set (rule_methods r) \<or> (m = HEAD \<and> GET \<in> set (rule_methods r)) \<or> m = OPTIONS"

definition lookup_rule :: "http_method \<Rightarrow> string \<Rightarrow> (rule \<times> string list) option" where
  "lookup_rule m p = find (\<lambda>(r, _). method_allowed m r) (matching_rules p)"

text \<open>\<open>MapAdapter.match\<close> replaces the leading slashes of the path by one
  (\<open>"/" + path_info.lstrip("/")\<close>). When no rule matches, the matcher tries again with
  \<open>re.sub("/{2,}?", "/", path)\<close>: the lazy pattern replaces each pair of slashes by one,
  so that three slashes become two.\<close>

definition strip_slashes :: "string \<Rightarrow> string" where
  "strip_slashes p = (if p = [] then [] else CHR ''/'' # dropWhile (\<lambda>c. c = CHR ''/'') p)"

fun merge_slashes :: "string \<Rightarrow> string" where
  "merge_slashes (a # b # r) =
     (if a = CHR ''/'' \<and> b = CHR ''/'' then CHR ''/'' # merge_slashes r else a # merge_slashes (b # r))"
| "merge_slashes r = r"

text \<open>\<open>IntegerConverter.to_python\<close>: \<open>int()\<close> of the matched digits, which raises
  \<open>ValueError\<close> beyond 4300 digits (leading zeros count).\<close>

definition convert_args :: "string list \<Rightarrow> nat list option" where
  "convert_args ws =
     (if list_all (\<lambda>w. length w \<le> max_str_digits) ws then Some (map (digits_value 0) ws) else None)"

text \<open>The outcome of routing: a view to call, no rule (404), a rule for another method
  (405), Flask's automatic \<open>OPTIONS\<close> answer, the 308 redirect of \<open>merge_slashes\<close> to the
  merged path, or the \<open>ValueError\<close> of the converter, which escapes Flask's routing
  (500).\<close>

datatype resolution =
    Matched route | NoMatch | MethodNotAllowed | AutoOptions | RedirectTo string | ConverterError

definition resolve :: "http_method \<Rightarrow> string \<Rightarrow> resolution" where
  "resolve m p =
     (let q = strip_slashes p in
      case lookup_rule m q of
        Some (r, ws) \<Rightarrow>
          (case convert_args ws of
             None \<Rightarrow> ConverterError
           | Some args \<Rightarrow>
               (case endpoint_route (rule_endpoint r) args of
                  None \<Rightarrow> NoMatch
                | Some rt \<Rightarrow> if m = OPTIONS then AutoOptions else Matched rt))
      | None \<Rightarrow>
          (let q' = merge_slashes q in
           if lookup_rule m q' \<noteq> None then RedirectTo q'
           else if matching_rules q = [] \<and> matching_rules q' = [] then NoMatch
           else MethodNotAllowed))"

text \<open>The view function of a route.\<close>

fun handle :: "route \<Rightarrow> jvalue option \<Rightarrow> db \<Rightarrow> outcome" where
  "handle AddComment body s = add_comment body s"
| "handle Home body s = home s"
| "handle (DeleteComment k) body s = delete_comment k s"
| "handle (UpdateComment k) body s = update_comment k body s"
| "handle (AddAnswer q) body s = add_answer q body s"
| "handle (DeleteAnswer k) body s = delete_answer k s"
| "handle (UpdateAnswer k) body s = update_answer k body s"

datatype http_response = JsonResponse nat jvalue | EmptyResponse nat | ErrorPage nat | Redirect string

text \<open>An exception leaves the database as it was before the request: Flask-SQLAlchemy
  removes the session, rolling back what was not committed.\<close>

fun finish :: "outcome \<Rightarrow> db \<Rightarrow> http_response \<times> db" where
  "finish (Inl BadRequest) s = (ErrorPage 400, s)"
| "finish (Inl e) s = (ErrorPage 500, s)"
| "finish (Inr (Response c j, s')) s = (JsonResponse c j, s')"

record request =
  req_method :: http_method
  req_path :: string
  req_body :: "jvalue option"

definition app :: "db \<Rightarrow> request \<Rightarrow> http_response \<times> db" where
  "app s rq =
     (case resolve (req_method rq) (req_path rq) of
        NoMatch \<Rightarrow> (ErrorPage 404, s)
      | MethodNotAllowed \<Rightarrow> (ErrorPage 405, s)
      | AutoOptions \<Rightarrow> (EmptyResponse 200, s)
      | RedirectTo q \<Rightarrow> (Redirect q, s)
      | ConverterError \<Rightarrow> (ErrorPage 500, s)
      | Matched rt \<Rightarrow> finish (handle rt (req_body rq) s) s)"

text \<open>A sequence of requests served one after another.\<close>

fun serve :: "db \<Rightarrow> request list \<Rightarrow> http_response list \<times> db" where
  "serve s [] = ([], s)"
| "serve s (rq # rqs) =
     (let (r, s') = app s rq; (rs, s'') = serve s' rqs in (r # rs, s''))"

inductive reachable :: "db \<Rightarrow> bool" where
  start: "reachable empty_db"
| step: "reachable s \<Longrightarrow> app s rq = (r, s') \<Longrightarrow> reachable s'"

text \<open>The path of a route, as \<open>url_for\<close> builds it, and the method its rule accepts.\<close>

fun route_path :: "route \<Rightarrow> string" where
  "route_path AddComment = ''/add''"
| "route_path Home = ''/home''"
| "route_path (DeleteComment k) = ''/delete/'' @ nat_text k"
| "route_path (UpdateComment k) = ''/update/'' @ nat_text k"
| "route_path (AddAnswer k) = ''/add_answer/'' @ nat_text k"
| "route_path (DeleteAnswer k) = ''/delete_answer/'' @ nat_text k"
| "route_path (UpdateAnswer k) = ''/update_answer/'' @ nat_text k"

fun route_method :: "route \<Rightarrow> http_method" where
  "route_method AddComment = POST"
| "route_method Home = GET"
| "route_method (DeleteComment k) = DELETE"
| "route_method (UpdateComment k) = PATCH"
| "route_method (AddAnswer k) = POST"
| "route_method (DeleteAnswer k) = DELETE"
| "route_method (UpdateAnswer k) = PATCH"

text \<open>The path arguments of a route, and whether the converter reads each of them
  within the digit limit of \<open>int()\<close>.\<close>

fun route_args :: "route \<Rightarrow> nat list" where
  "route_args AddComment = []"
| "route_args Home = []"
| "route_args (DeleteComment k) = [k]"
| "route_args (UpdateComment k) = [k]"
| "route_args (AddAnswer k) = [k]"
| "route_args (DeleteAnswer k) = [k]"
| "route_args (UpdateAnswer k) = [k]"

definition route_args_ok :: "route \<Rightarrow> bool" where
  "route_args_ok rt \<longleftrightarrow> list_all (\<lambda>k. length (nat_text k) \<le> max_str_digits) (route_args rt)"

text \<open>The response contract of the specification (sections 4.3 and 6): for each route and
  status code, the type of the JSON body; \<open>None\<close> for a status the route never answers
  with a body of its own.\<close>

fun response_ty :: "route \<Rightarrow> nat \<Rightarrow> jtype option" where
  "response_ty AddComment c = (if c = 200 then Some user_ty else None)"
| "response_ty Home c = (if c = 200 then Some (TList user_ty) else None)"
| "response_ty (DeleteComment k) c =
     (if c = 200 then Some message_ty else if c = 404 then Some error_ty else None)"
| "response_ty (UpdateComment k) c =
     (if c = 200 then Some user_ty else if c = 404 then Some error_ty else None)"
| "response_ty (AddAnswer k) c =
     (if c = 200 then Some answer_ty else if c = 404 then Some error_ty else None)"
| "response_ty (DeleteAnswer k) c =
     (if c = 200 then Some message_ty else if c = 404 then Some error_ty else None)"
| "response_ty (UpdateAnswer k) c =
     (if c = 200 then Some answer_ty else if c = 404 then Some error_ty else None)"

subsection \<open>Routing\<close>

lemma split_on_no_sep: "c \<notin> set w \<Longrightarrow> split_on c w = [w]"
  by (induction w) auto

lemma route_path_segments:
  "path_segments (route_path rt) =
     Some (case rt of AddComment \<Rightarrow> [''add''] | Home \<Rightarrow> [''home'']
       | DeleteComment k \<Rightarrow> [''delete'', nat_text k] | UpdateComment k \<Rightarrow> [''update'', nat_text k]
       | AddAnswer k \<Rightarrow> [''add_answer'', nat_text k] | DeleteAnswer k \<Rightarrow> [''delete_answer'', nat_text k]
       | UpdateAnswer k \<Rightarrow> [''update_answer'', nat_text k])"
  by (cases rt) (simp_all add: path_segments_def split_on_no_sep nat_text_nondigit)

lemma merge_slashes_no_slash: "CHR ''/'' \<notin> set w \<Longrightarrow> merge_slashes w = w"
  by (induction w rule: merge_slashes.induct) auto

lemma merge_slashes_slash: "CHR ''/'' \<notin> set w \<Longrightarrow> merge_slashes (CHR ''/'' # w) = CHR ''/'' # w"
  by (cases w) (auto simp: merge_slashes_no_slash)

lemma route_path_slashes [simp]:
  "strip_slashes (route_path rt) = route_path rt" "merge_slashes (route_path rt) = route_path rt"
  by (cases rt; simp add: strip_slashes_def merge_slashes_slash nat_text_nondigit)+

lemma convert_args_nat_text:
  "convert_args [nat_text k] = (if length (nat_text k) \<le> max_str_digits then Some [k] else None)"
  by (simp add: convert_args_def digits_value_nat_text)

lemma resolve_route_path_cases:
  "resolve (route_method rt) (route_path rt) = (if route_args_ok rt then Matched rt else ConverterError)"
  unfolding resolve_def Let_def route_path_slashes lookup_rule_def matching_rules_def route_path_segments
  by (cases rt) (simp_all add: url_map_def map_filter_def method_allowed_def convert_args_nat_text
      convert_args_def route_args_ok_def nat_text_digits digits_value_nat_text)

lemma resolve_route_path: "route_args_ok rt \<Longrightarrow> resolve (route_method rt) (route_path rt) = Matched rt"
  by (simp add: resolve_route_path_cases)

lemma resolve_options_route: "route_args_ok rt \<Longrightarrow> resolve OPTIONS (route_path rt) = AutoOptions"
  unfolding resolve_def Let_def route_path_slashes lookup_rule_def matching_rules_def route_path_segments
  by (cases rt) (simp_all add: url_map_def map_filter_def method_allowed_def convert_args_nat_text
      convert_args_def route_args_ok_def nat_text_digits)

lemma resolve_add: "resolve POST ''/add'' = Matched AddComment"
  using resolve_route_path [of AddComment] by (simp add: route_args_ok_def)

text \<open>Paths with repeated slashes: leading ones are dropped; inside the path, a pair
  merged into one matches as a redirect (308) for the rule's method and a 405 for
  another, but the lazy pattern \<open>/{2,}?\<close> merges \<open>///\<close> into \<open>//\<close> only, which no
  rule matches (404).\<close>

lemma resolve_leading_slashes: "resolve GET ''///home'' = Matched Home"
  by code_simp

lemma resolve_merged_redirect: "resolve DELETE ''/delete//1'' = RedirectTo ''/delete/1''"
  by code_simp

lemma resolve_merged_wrong_method: "resolve GET ''/delete//1'' = MethodNotAllowed"
  by code_simp

lemma resolve_lazy_merge: "resolve DELETE ''/delete///1'' = NoMatch"
  by code_simp

lemma handle_large_id:
  "2 ^ 63 \<le> int k \<Longrightarrow> rt \<in> {DeleteComment k, UpdateComment k, AddAnswer k, DeleteAnswer k, UpdateAnswer k} \<Longrightarrow>
   handle rt b s = Inl BindingError"
  by (auto simp: handler_defs query_get_user_def query_get_answer_def sqlite_int_ok_def)

lemma route_args_not_ok:
  "\<not> route_args_ok rt \<Longrightarrow>
   \<exists>k. 2 ^ 63 \<le> int k \<and> rt \<in> {DeleteComment k, UpdateComment k, AddAnswer k, DeleteAnswer k, UpdateAnswer k}"
  by (cases rt) (auto simp: route_args_ok_def not_le dest: nat_text_large)

lemma route_args_ok_small:
  "(\<And>k. k \<in> set (route_args rt) \<Longrightarrow> int k < 2 ^ 63) \<Longrightarrow> route_args_ok rt"
  by (cases rt) (simp_all add: route_args_ok_def nat_text_small)

text \<open>The equations that evaluate a request on a concrete database by \<open>simp\<close>.\<close>

lemmas app_eval =
  app_def resolve_def lookup_rule_def strip_slashes_def convert_args_def max_str_digits_def matching_rules_def
  path_segments_def url_map_def method_allowed_def
  map_filter_def is_digit_def digit_value_def handler_defs dict_lookup_def
  not_found_def deleted_def dump_users_def dump_user_def dump_answer_def user_answers_def
  tbl_select_def session_add_user_def session_add_answer_def session_set_comment_def
  session_set_answer_def tbl_insert_def new_rowid_def tbl_get_def tbl_set_def tbl_delete_def
  Let_def

subsection \<open>The invariant over every reachable database\<close>

lemma wf_handle: "wf_db s \<Longrightarrow> handle rt body s = Inr (r, s') \<Longrightarrow> wf_db s'"
  by (cases rt) (auto simp: home_def intro: wf_add_comment wf_delete_comment wf_update_comment
      wf_add_answer wf_delete_answer wf_update_answer)

lemma finish_server_error: "e \<noteq> BadRequest \<Longrightarrow> finish (Inl e) s = (ErrorPage 500, s)"
  by (cases e) simp_all

lemma finish_cases:
  "finish out s = (r, s') \<Longrightarrow>
     (\<exists>e. out = Inl e \<and> s' = s \<and> r = ErrorPage (if e = BadRequest then 400 else 500)) \<or>
     (\<exists>c j. out = Inr (Response c j, s') \<and> r = JsonResponse c j)"
  by (cases "(out, s)" rule: finish.cases) auto

lemma app_cases:
  "app s rq = (r, s') \<Longrightarrow>
     s' = s \<or> (\<exists>rt c j. resolve (req_method rq) (req_path rq) = Matched rt \<and>
                 handle rt (req_body rq) s = Inr (Response c j, s') \<and> r = JsonResponse c j)"
  by (auto simp: app_def split: resolution.splits dest!: finish_cases)

lemma wf_app: "wf_db s \<Longrightarrow> app s rq = (r, s') \<Longrightarrow> wf_db s'"
  by (auto dest!: app_cases intro: wf_handle)

lemma handle_typed:
  "handle rt body s = Inr (Response c j, s') \<Longrightarrow>
     (case response_ty rt c of None \<Rightarrow> False | Some t \<Rightarrow> has_type j t)"
  by (cases rt)
     (auto simp: home_def dump_users_type dest: add_comment_type delete_comment_type
        update_comment_type add_answer_type delete_answer_type update_answer_type)

lemma reachable_app: "reachable s \<Longrightarrow> snd (app s rq) = s' \<Longrightarrow> reachable s'"
  by (metis prod.collapse reachable.step)

text \<open>C1. Every database the application can reach from the freshly created one,
  by any sequence of requests, satisfies the invariant \<open>wf_db\<close>: ids are unique and
  ordered in both tables, and every answer belongs to a question that exists.\<close>

theorem reachable_wf_db: "reachable s \<Longrightarrow> wf_db s"
proof (induction rule: reachable.induct)
  case start
  show ?case by simp
next
  case (step s rq r s')
  then show ?case by (blast intro: wf_app)
qed

subsection \<open>Dispatch and errors\<close>

text \<open>C9. Requesting the URL of a route (as \<open>url_for\<close> builds it) with the
  method of its decorator runs exactly that route's view function, for every route and
  every path argument.\<close>

theorem url_for_dispatch:
  "app s \<lparr>req_method = route_method rt, req_path = route_path rt, req_body = b\<rparr> =
     finish (handle rt b s) s"
proof (cases "route_args_ok rt")
  case False
  then obtain k where "2 ^ 63 \<le> int k"
      "rt \<in> {DeleteComment k, UpdateComment k, AddAnswer k, DeleteAnswer k, UpdateAnswer k}"
    using route_args_not_ok by blast
  then show ?thesis
    using False handle_large_id by (simp add: app_def resolve_route_path_cases)
qed (simp add: app_def resolve_route_path)

text \<open>C21. On the URL of a route, the router accepts exactly the method of the route's
  decorator (and \<open>HEAD\<close> for \<open>/home\<close>), answers \<open>OPTIONS\<close> itself, and refuses
  every other method with 405; for an accepted method, a path id of more than 4300
  digits makes the converter's \<open>int()\<close> raise before any view runs.\<close>

theorem resolve_route_methods:
  "resolve m (route_path rt) =
     (if m = route_method rt \<or> (m = HEAD \<and> rt = Home) \<or> m = OPTIONS then
        (if \<not> route_args_ok rt then ConverterError else if m = OPTIONS then AutoOptions else Matched rt)
      else MethodNotAllowed)"
  unfolding resolve_def Let_def route_path_slashes lookup_rule_def matching_rules_def route_path_segments
  by (cases rt; cases m) (simp_all add: url_map_def map_filter_def method_allowed_def convert_args_nat_text
      convert_args_def route_args_ok_def nat_text_digits digits_value_nat_text)

text \<open>C16. A path id beyond the 64-bit range of SQLite integers passes Werkzeug's
  \<open><int:...>\<close> converter but cannot be bound by \<open>sqlite3\<close>: every route that
  looks an id up answers 500, not the 404 of a missing id.\<close>

theorem large_id_server_error:
  assumes "2 ^ 63 \<le> int k"
    and "rt \<in> {DeleteComment k, UpdateComment k, AddAnswer k, DeleteAnswer k, UpdateAnswer k}"
  shows "app s \<lparr>req_method = route_method rt, req_path = route_path rt, req_body = b\<rparr> =
           (ErrorPage 500, s)"
  using handle_large_id [OF assms] by (simp add: app_def resolve_route_path_cases)

text \<open>C15. \<open>POST /add\<close> with a JSON object that lacks the key
  \<open>comment\<close> raises \<open>KeyError\<close> in \<open>data['comment']\<close>: the answer is a 500 server
  error and nothing is stored, where the specification asks for a malformed-request
  (client) error.\<close>

theorem add_comment_missing_field:
  assumes "''comment'' \<notin> set (map fst kvs)"
  shows "app s \<lparr>req_method = POST, req_path = ''/add'', req_body = Some (JObj kvs)\<rparr> =
           (ErrorPage 500, s)"
proof -
  have "dict_lookup kvs ''comment'' = None"
    using assms by (simp add: dict_lookup_None_iff)
  then show ?thesis by (simp add: app_def resolve_add add_comment_def)
qed


text \<open>C26. Every JSON response of the application has the body type the response
  contract gives for the route the path resolves to and the status code: a question
  as \<open>{id, comment, answers}\<close> with every answer as \<open>{id, answer, question_id}\<close>, the
  list of questions, the deletion message, or the 404 error object.\<close>

theorem app_response_typed:
  assumes "app s rq = (JsonResponse c j, s')"
  shows "\<exists>rt. resolve (req_method rq) (req_path rq) = Matched rt \<and>
           (case response_ty rt c of None \<Rightarrow> False | Some t \<Rightarrow> has_type j t)"
proof (cases "resolve (req_method rq) (req_path rq)")
  case (Matched rt)
  then have "finish (handle rt (req_body rq) s) s = (JsonResponse c j, s')"
    using assms by (simp add: app_def)
  then have "handle rt (req_body rq) s = Inr (Response c j, s')"
    by (auto dest!: finish_cases)
  with Matched show ?thesis by (blast dest: handle_typed)
qed (use assms in \<open>simp_all add: app_def\<close>)


subsection \<open>Witnesses\<close>

text \<open>Each theorem above with a hypothesis, applied at a concrete database where the
  hypotheses hold.\<close>

theorem reachable_wf_db_witness:
  "let s1 = \<lparr>user_tbl = [(1, \<lparr>comment = ''q''\<rparr>)], answer_tbl = []\<rparr>;
       s2 = \<lparr>user_tbl = [(1, \<lparr>comment = ''q''\<rparr>)], answer_tbl = [(1, \<lparr>answer = ''a'', question_id = 1\<rparr>)]\<rparr>
   in reachable s2 \<and> wf_db s2"
proof -
  let ?s1 = "\<lparr>user_tbl = [(1::nat, \<lparr>comment = ''q''\<rparr>)], answer_tbl = []\<rparr>"
  let ?s2 = "\<lparr>user_tbl = [(1::nat, \<lparr>comment = ''q''\<rparr>)], answer_tbl = [(1::nat, \<lparr>answer = ''a'', question_id = 1::nat\<rparr>)]\<rparr>"
  have "snd (app empty_db \<lparr>req_method = POST, req_path = ''/add'',
                           req_body = Some (JObj [(''comment'', JStr ''q'')])\<rparr>) = ?s1"
    by (simp add: app_eval empty_db_def)
  then have r1: "reachable ?s1" by (rule reachable_app [OF reachable.start])
  have "snd (app ?s1 \<lparr>req_method = POST, req_path = ''/add_answer/1'',
                           req_body = Some (JObj [(''answer'', JStr ''a'')])\<rparr>) = ?s2"
    by (simp add: app_eval)
  then have r2: "reachable ?s2" by (rule reachable_app [OF r1])
  show ?thesis using r2 reachable_wf_db [OF r2] by (simp add: Let_def)
qed

theorem large_id_server_error_witness:
  "2 ^ 63 \<le> int (2 ^ 63) \<and>
   app empty_db \<lparr>req_method = DELETE, req_path = route_path (DeleteComment (2 ^ 63)), req_body = None\<rparr> =
     (ErrorPage 500, empty_db)"
proof -
  have h1: "2 ^ 63 \<le> int (2 ^ 63)" by simp
  have h2: "DeleteComment (2 ^ 63) \<in> {DeleteComment (2 ^ 63), UpdateComment (2 ^ 63), AddAnswer (2 ^ 63),
              DeleteAnswer (2 ^ 63), UpdateAnswer (2 ^ 63)}" by simp
  show ?thesis using h1 large_id_server_error [OF h1 h2, of empty_db None] by simp
qed

theorem add_comment_missing_field_witness:
  "''comment'' \<notin> set (map fst [(''text'', JStr ''hi'')]) \<and>
   app empty_db \<lparr>req_method = POST, req_path = ''/add'', req_body = Some (JObj [(''text'', JStr ''hi'')])\<rparr> =
     (ErrorPage 500, empty_db)"
proof -
  have h: "''comment'' \<notin> set (map fst [(''text'', JStr ''hi'')])" by simp
  show ?thesis using h add_comment_missing_field [OF h, of empty_db] by simp
qed

theorem app_response_typed_witness:
  "app empty_db \<lparr>req_method = DELETE, req_path = ''/delete/1'', req_body = None\<rparr> =
     (JsonResponse 404 (JObj [(''error'', JStr ''Question not found'')]), empty_db) \<and>
   (\<exists>rt. resolve (req_method \<lparr>req_method = DELETE, req_path = ''/delete/1'', req_body = None\<rparr>)
        (req_path \<lparr>req_method = DELETE, req_path = ''/delete/1'', req_body = None\<rparr>) = Matched rt \<and>
      (case response_ty rt 404 of None \<Rightarrow> False
       | Some t \<Rightarrow> has_type (JObj [(''error'', JStr ''Question not found'')]) t))"
proof -
  have h: "app empty_db \<lparr>req_method = DELETE, req_path = ''/delete/1'', req_body = None\<rparr> =
     (JsonResponse 404 (JObj [(''error'', JStr ''Question not found'')]), empty_db)"
    by (simp add: app_eval empty_db_def query_get_user_def sqlite_int_ok_def)
  show ?thesis by (rule conjI [OF h app_response_typed [OF h]])
qed

end
