(* ===== verification/Board.thy ===== *)
theory Board
  imports App
begin

text \<open>
  The abstract contract of the specification (sections 3 and 9): a board maps each
  question id to its comment and the ordered list of the answers it owns, each answer an
  id and a text. Deleting a question deletes the answers it owns, because they are part
  of it; an answer id is unique over the whole board. \<open>abs_db\<close> reads a board off the
  two tables, and the theorems show that every operation of the ORM layer, and every
  committed step of a handler, is a step of the abstract board (a functional refinement,
  \<open>abs_db (op s) = b_op (abs_db s)\<close>, under the invariant \<open>wf_db\<close>). The board holds
  answers only under existing questions, so the refinement also states that the
  abstraction is complete after every request: each stored answer row is on the board.
\<close>

record question =
  q_comment :: string
  q_answers :: "(rowid \<times> string) list"

type_synonym board = "rowid \<rightharpoonup> question"

definition abs_db :: "db \<Rightarrow> board" where
  "abs_db s k =
     map_option (\<lambda>u. \<lparr>q_comment = comment u,
                       q_answers = map (\<lambda>(aid, a). (aid, answer a)) (user_answers s k)\<rparr>)
       (tbl_get (user_tbl s) k)"

definition b_add_question :: "rowid \<Rightarrow> string \<Rightarrow> board \<Rightarrow> board" where
  "b_add_question k c B = B(k \<mapsto> \<lparr>q_comment = c, q_answers = []\<rparr>)"

definition b_update_question :: "rowid \<Rightarrow> string \<Rightarrow> board \<Rightarrow> board" where
  "b_update_question k c B = B(k := map_option (\<lambda>x. x\<lparr>q_comment := c\<rparr>) (B k))"

definition b_delete_question :: "rowid \<Rightarrow> board \<Rightarrow> board" where
  "b_delete_question k B = B(k := None)"

definition b_add_answer :: "rowid \<Rightarrow> rowid \<Rightarrow> string \<Rightarrow> board \<Rightarrow> board" where
  "b_add_answer q k t B = B(q := map_option (\<lambda>x. x\<lparr>q_answers := q_answers x @ [(k, t)]\<rparr>) (B q))"

definition b_delete_answer :: "rowid \<Rightarrow> board \<Rightarrow> board" where
  "b_delete_answer k B =
     (\<lambda>q. map_option (\<lambda>x. x\<lparr>q_answers := filter (\<lambda>(k', _). k' \<noteq> k) (q_answers x)\<rparr>) (B q))"

definition b_update_answer :: "rowid \<Rightarrow> string \<Rightarrow> board \<Rightarrow> board" where
  "b_update_answer k t B =
     (\<lambda>q. map_option (\<lambda>x. x\<lparr>q_answers :=
        map (\<lambda>(k', t'). if k' = k then (k', t) else (k', t')) (q_answers x)\<rparr>) (B q))"

definition answer_ids :: "board \<Rightarrow> rowid set" where
  "answer_ids B = {k. \<exists>q x. B q = Some x \<and> k \<in> set (map fst (q_answers x))}"

text \<open>The abstract steps, one rule per route, and the step that changes nothing.\<close>

inductive board_step :: "route \<Rightarrow> board \<Rightarrow> board \<Rightarrow> bool" where
  stay: "board_step rt B B"
| add_question: "B k = None \<Longrightarrow> board_step AddComment B (b_add_question k c B)"
| update_question: "B k \<noteq> None \<Longrightarrow> board_step (UpdateComment k) B (b_update_question k c B)"
| delete_question: "B k \<noteq> None \<Longrightarrow> board_step (DeleteComment k) B (b_delete_question k B)"
| add_answer: "B q \<noteq> None \<Longrightarrow> k \<notin> answer_ids B \<Longrightarrow>
    board_step (AddAnswer q) B (b_add_answer q k t B)"
| delete_answer: "k \<in> answer_ids B \<Longrightarrow> board_step (DeleteAnswer k) B (b_delete_answer k B)"
| update_answer: "k \<in> answer_ids B \<Longrightarrow> board_step (UpdateAnswer k) B (b_update_answer k t B)"

subsection \<open>The ORM operations refine the abstract operations\<close>

lemma answer_ids_abs_db: "answer_ids (abs_db s) \<subseteq> set (map fst (answer_tbl s))"
  by (force simp: answer_ids_def abs_db_def user_answers_def)

lemma abs_db_delete_user: "abs_db (session_delete_user k s) = b_delete_question k (abs_db s)"
  by (auto simp: abs_db_def b_delete_question_def fun_eq_iff)

lemma abs_db_add_user:
  assumes "wf_db s" and "session_add_user v s = Inr (k, u, s')"
  shows "abs_db s k = None \<and> abs_db s' = b_add_question k (comment u) (abs_db s)"
proof -
  from assms(2) have k: "k = new_rowid (user_tbl s)"
    and s': "s' = s\<lparr>user_tbl := user_tbl s @ [(k, u)]\<rparr>"
    by (auto simp: db_simps)
  have ins: "tbl_insert u (user_tbl s) = (k, user_tbl s')"
    by (simp add: k s' tbl_insert_def Let_def)
  have "user_answers s k = []"
    using k by (simp add: wf_user_answers_absent [OF assms(1)])
  with ins k s' show ?thesis
    by (auto simp: abs_db_def b_add_question_def fun_eq_iff)
qed

lemma abs_db_add_answer:
  assumes "session_add_answer v q s = Inr (k, a, s')"
  shows "k \<notin> answer_ids (abs_db s) \<and> abs_db s' = b_add_answer q k (answer a) (abs_db s)"
proof -
  from assms have k: "k = new_rowid (answer_tbl s)" and qa: "question_id a = q"
    and s': "s' = s\<lparr>answer_tbl := answer_tbl s @ [(k, a)]\<rparr>"
    by (auto simp: db_simps)
  have "k \<notin> set (map fst (answer_tbl s))"
    using k new_rowid_gt by blast
  then have "k \<notin> answer_ids (abs_db s)"
    using answer_ids_abs_db by blast
  moreover have "abs_db s' = b_add_answer q k (answer a) (abs_db s)"
    by (auto simp: abs_db_def b_add_answer_def s' qa user_answers_append fun_eq_iff
        option.map_comp comp_def)
  ultimately show ?thesis ..
qed

lemma abs_db_set_comment:
  assumes "session_set_comment k u v s = Inr (u', s')"
  shows "abs_db s' = b_update_question k (comment u') (abs_db s)"
  using assms
  by (auto simp: db_simps abs_db_def b_update_question_def fun_eq_iff
      option.map_comp comp_def)

lemma abs_db_delete_answer: "abs_db (session_delete_answer k s) = b_delete_answer k (abs_db s)"
  by (auto simp: abs_db_def b_delete_answer_def fun_eq_iff tbl_delete_def filter_map
      option.map_comp comp_def case_prod_unfold)

lemma wf_answer_owned:
  assumes "wf_db s" and "(k, a) \<in> set (answer_tbl s)"
  shows "\<exists>x. abs_db s (question_id a) = Some x \<and> (k, answer a) \<in> set (q_answers x)"
proof -
  from assms obtain u where "tbl_get (user_tbl s) (question_id a) = Some u"
    by (auto simp: wf_db_def list_all_iff)
  with assms(2) show ?thesis
    by (force simp: abs_db_def user_answers_def)
qed

lemma wf_answer_in_abs:
  "wf_db s \<Longrightarrow> tbl_get (answer_tbl s) k = Some a \<Longrightarrow> k \<in> answer_ids (abs_db s)"
  by (force simp: answer_ids_def dest: tbl_get_Some_in wf_answer_owned)

lemma abs_db_set_answer:
  assumes "wf_db s" and "tbl_get (answer_tbl s) k = Some a"
    and "session_set_answer k a v s = Inr (a', s')"
  shows "abs_db s' = b_update_answer k (answer a') (abs_db s)"
proof -
  from assms(3) obtain c where a': "a' = a\<lparr>answer := c\<rparr>"
    and s': "s' = s\<lparr>answer_tbl := tbl_set k a' (answer_tbl s)\<rparr>"
    by (auto simp: db_simps)
  have "(k, a) \<in> set (answer_tbl s)" using assms(2) by (rule tbl_get_Some_in)
  then have same: "\<forall>r. (k, r) \<in> set (answer_tbl s) \<longrightarrow> question_id r = question_id a'"
    using assms(1) a' by (auto simp: wf_db_def dest: tbl_ok_unique_key)
  have "user_answers s' j = tbl_set k a' (user_answers s j)" for j
    using same by (simp add: s' user_answers_def tbl_select_set)
  then show ?thesis
    by (simp add: s' abs_db_def b_update_answer_def fun_eq_iff map_tbl_set option.map_comp comp_def)
qed

text \<open>On a well-formed database the board accounts for every stored answer: no row of
  the answer table is hidden from the abstraction.\<close>

lemma wf_answer_ids: "wf_db s \<Longrightarrow> answer_ids (abs_db s) = set (map fst (answer_tbl s))"
  using answer_ids_abs_db [of s]
  by (force simp: wf_db_def intro: wf_answer_in_abs in_tbl_get)

subsection \<open>Every committed request is a step of the abstract board\<close>

lemma abs_db_Some_iff: "abs_db s k = None \<longleftrightarrow> tbl_get (user_tbl s) k = None"
  by (simp add: abs_db_def)

lemma handle_refines_board:
  assumes wf: "wf_db s" and h: "handle rt body s = Inr (r, s')"
  shows "board_step rt (abs_db s) (abs_db s')"
proof (cases rt)
  case AddComment
  with h obtain v k u where "session_add_user v s = Inr (k, u, s')"
    by (auto simp: add_comment_Inr)
  with wf have "abs_db s k = None" and "abs_db s' = b_add_question k (comment u) (abs_db s)"
    by (simp_all add: abs_db_add_user)
  with AddComment show ?thesis by (simp add: board_step.add_question)
next
  case Home
  with h show ?thesis by (simp add: home_def board_step.stay)
next
  case (DeleteComment k)
  with h have "s' = s \<or> (tbl_get (user_tbl s) k \<noteq> None \<and> s' = session_delete_user k s)"
    by (auto simp: delete_comment_Inr query_get_user_eq_Inr)
  then show ?thesis
  proof
    assume "tbl_get (user_tbl s) k \<noteq> None \<and> s' = session_delete_user k s"
    then have "abs_db s k \<noteq> None" and "abs_db s' = b_delete_question k (abs_db s)"
      by (simp_all add: abs_db_Some_iff abs_db_delete_user)
    with DeleteComment show ?thesis by (simp add: board_step.delete_question)
  qed (simp add: board_step.stay)
next
  case (UpdateComment k)
  with h have "s' = s \<or> (\<exists>u v u'. tbl_get (user_tbl s) k = Some u \<and>
                 session_set_comment k u v s = Inr (u', s'))"
    by (auto simp: update_comment_Inr query_get_user_eq_Inr)
  with UpdateComment show ?thesis
    by (auto dest!: abs_db_set_comment intro!: board_step.intros simp: abs_db_def [of s k])
next
  case (AddAnswer q)
  with h have "s' = s \<or> (\<exists>v k a. tbl_get (user_tbl s) q \<noteq> None \<and>
                 session_add_answer v q s = Inr (k, a, s'))"
    by (auto simp: add_answer_Inr query_get_user_eq_Inr)
  with AddAnswer show ?thesis
    by (auto dest!: abs_db_add_answer intro!: board_step.intros simp: abs_db_def [of s q])
next
  case (DeleteAnswer k)
  with h have "s' = s \<or> (tbl_get (answer_tbl s) k \<noteq> None \<and> s' = session_delete_answer k s)"
    by (auto simp: delete_answer_Inr query_get_answer_eq_Inr)
  with wf DeleteAnswer show ?thesis
    by (auto simp: abs_db_delete_answer intro!: board_step.intros wf_answer_in_abs)
next
  case (UpdateAnswer k)
  with h have "s' = s \<or> (\<exists>a v a'. tbl_get (answer_tbl s) k = Some a \<and>
                 session_set_answer k a v s = Inr (a', s'))"
    by (auto simp: update_answer_Inr query_get_answer_eq_Inr)
  with wf UpdateAnswer show ?thesis
    by (auto simp: abs_db_set_answer intro!: board_step.intros wf_answer_in_abs)
qed

text \<open>C18. Every request changes the data as one step of the abstract board of the
  specification: the route it is dispatched to performs the abstract operation of that
  route (add or update a question, delete a question with the answers it owns, add,
  update or delete an answer), or the request changes nothing; and the abstraction loses
  nothing, since after the request every stored answer is an answer of the board (a
  question deleted without its answers would leave rows outside it).\<close>

theorem app_refines_board:
  assumes "wf_db s" and "app s rq = (r, s')"
  shows "(s' = s \<or> (\<exists>rt. resolve (req_method rq) (req_path rq) = Matched rt \<and>
                                 board_step rt (abs_db s) (abs_db s')))
         \<and> answer_ids (abs_db s') = set (map fst (answer_tbl s'))"
proof
  show "s' = s \<or> (\<exists>rt. resolve (req_method rq) (req_path rq) = Matched rt \<and>
                          board_step rt (abs_db s) (abs_db s'))"
    using assms(2) by (auto dest!: app_cases intro: handle_refines_board [OF assms(1)])
  show "answer_ids (abs_db s') = set (map fst (answer_tbl s'))"
    using wf_app [OF assms] by (rule wf_answer_ids)
qed

subsection \<open>Witnesses\<close>

theorem app_refines_board_witness:
  "let s = \<lparr>user_tbl = [(1, \<lparr>comment = ''q''\<rparr>)], answer_tbl = [(1, \<lparr>answer = ''a'', question_id = 1\<rparr>)]\<rparr>;
       rq = \<lparr>req_method = DELETE, req_path = ''/delete/1'', req_body = None\<rparr>;
       s' = session_delete_user 1 s
   in wf_db s \<and>
      app s rq = (JsonResponse 200 (JObj [(''message'', JStr ''Question deleted successfully''), (''id'', JInt 1)]), s') \<and>
      (s' = s \<or> (\<exists>rt. resolve (req_method rq) (req_path rq) = Matched rt \<and>
                          board_step rt (abs_db s) (abs_db s'))) \<and>
      answer_ids (abs_db s') = set (map fst (answer_tbl s'))"
proof -
  let ?s = "\<lparr>user_tbl = [(1::nat, \<lparr>comment = ''q''\<rparr>)], answer_tbl = [(1::nat, \<lparr>answer = ''a'', question_id = 1::nat\<rparr>)]\<rparr>"
  let ?rq = "\<lparr>req_method = DELETE, req_path = ''/delete/1'', req_body = None\<rparr>"
  have h1: "wf_db ?s" by (simp add: wf_db_def tbl_ok_def tbl_get_def)
  have h2: "app ?s ?rq = (JsonResponse 200 (JObj [(''message'', JStr ''Question deleted successfully''), (''id'', JInt 1)]),
                          session_delete_user 1 ?s)"
    by (simp add: app_eval)
  show ?thesis using h1 h2 app_refines_board [OF h1 h2] by (simp add: Let_def)
qed

end
