(* ===== verification/Bootstrap.thy ===== *)
theory Bootstrap
  imports App PyInt "HOL-Library.Word"
begin

text \<open>
  Process bootstrap of \<^verbatim>\<open>src/main.py\<close>: the database configuration (lines 11--14),
  the \<open>__main__\<close> block (lines 122--126) that creates the tables, reads the port from the
  environment variable \<open>PORT\<close> with Python's \<open>int()\<close>, and starts the server on all
  interfaces; Python's \<open>int()\<close> is the one of \<open>PyInt\<close>. Werkzeug resolves the address with
  \<open>socket.getaddrinfo\<close> before binding, and glibc reads the port into a C \<open>int\<close> and
  then 16 bits: those truncations are words (\<open>32 word\<close>, \<open>16 word\<close>).
\<close>

subsection \<open>Configuration\<close>

text \<open>\<open>os.path.join\<close> on POSIX (\<open>posixpath.join\<close>) with two components.\<close>

definition posix_join :: "string \<Rightarrow> string \<Rightarrow> string" where
  "posix_join a b =
     (if b \<noteq> [] \<and> hd b = CHR ''/'' then b
      else if a = [] \<or> last a = CHR ''/'' then a @ b
      else a @ ''/'' @ b)"

definition db_path :: string where
  "db_path = posix_join ''/tmp'' ''db.sqlite''"

definition database_uri :: string where
  "database_uri = ''sqlite:///'' @ db_path"

record config =
  sqlalchemy_database_uri :: string
  sqlalchemy_track_modifications :: bool

definition app_config :: config where
  "app_config = \<lparr>sqlalchemy_database_uri = database_uri, sqlalchemy_track_modifications = False\<rparr>"

text \<open>The database file an SQLAlchemy \<open>sqlite://\<close> URL names: the text after the third
  slash (an empty host), so that four slashes name an absolute path.\<close>

definition sqlite_database :: "string \<Rightarrow> string option" where
  "sqlite_database u =
     (if take 10 u = ''sqlite:///'' then Some (drop 10 u) else None)"

subsection \<open>The \<open>__main__\<close> block\<close>

datatype boot_exc = ValueError | OverflowError

text \<open>\<open>db.create_all()\<close>: the tables of an existing database file are kept; a missing
  file is created with empty tables.\<close>

definition create_all :: "db option \<Rightarrow> db" where
  "create_all f = (case f of None \<Rightarrow> empty_db | Some s \<Rightarrow> s)"

text \<open>\<open>int(os.environ.get("PORT", 5000))\<close>.\<close>

definition env_port :: "(string \<rightharpoonup> string) \<Rightarrow> boot_exc + int" where
  "env_port env =
     (case env ''PORT'' of
        None \<Rightarrow> Inr 5000
      | Some v \<Rightarrow> (case py_int_str v of None \<Rightarrow> Inl ValueError | Some p \<Rightarrow> Inr p))"

record server =
  srv_host :: string
  srv_port :: int
  srv_db :: db

text \<open>\<open>socket.getaddrinfo(host, port)\<close>, which Werkzeug's \<open>get_sockaddr\<close> calls before
  binding: CPython converts the port with \<open>PyLong_AsLong\<close> (\<open>OverflowError\<close> outside the
  64-bit C \<open>long\<close>) and passes its decimal text as the service; glibc reads the text
  with \<open>strtoul\<close> into a C \<open>int\<close>, that is, the port modulo \<open>2^32\<close> as a signed 32-bit
  word. A negative one is looked up as a service name, which fails (\<open>socket.gaierror\<close>,
  here \<open>None\<close>); otherwise \<open>htons\<close> keeps its low 16 bits.\<close>

definition c_long_ok :: "int \<Rightarrow> bool" where
  "c_long_ok p \<longleftrightarrow> - (2 ^ 63) \<le> p \<and> p < 2 ^ 63"

definition getaddrinfo_port :: "int \<Rightarrow> boot_exc + int option" where
  "getaddrinfo_port p =
     (if \<not> c_long_ok p then Inl OverflowError
      else (let n = (word_of_int p :: 32 word) in
            if sint n < 0 then Inr None else Inr (Some (uint (ucast n :: 16 word)))))"

text \<open>Werkzeug's \<open>get_sockaddr\<close>: the address \<open>getaddrinfo\<close> resolves, or the host and
  port unchanged when it raises \<open>gaierror\<close>.\<close>

definition get_sockaddr :: "string \<Rightarrow> int \<Rightarrow> boot_exc + (string \<times> int)" where
  "get_sockaddr h p =
     ok_bind (getaddrinfo_port p) (\<lambda>r. Inr (h, case r of None \<Rightarrow> p | Some q \<Rightarrow> q))"

text \<open>\<open>socket.bind\<close>: \<open>OverflowError\<close> for a port outside 0--65535 (port 0 asks the
  system for a free one).\<close>

definition socket_bind :: "string \<times> int \<Rightarrow> db \<Rightarrow> boot_exc + server" where
  "socket_bind a s =
     (if 0 \<le> snd a \<and> snd a \<le> 65535 then Inr \<lparr>srv_host = fst a, srv_port = snd a, srv_db = s\<rparr>
      else Inl OverflowError)"

text \<open>\<open>app.run(host, port)\<close>: Werkzeug's \<open>BaseWSGIServer\<close> resolves the address and
  binds a socket to it.\<close>

definition app_run :: "string \<Rightarrow> int \<Rightarrow> db \<Rightarrow> boot_exc + server" where
  "app_run h p s = ok_bind (get_sockaddr h p) (\<lambda>a. socket_bind a s)"

text \<open>The \<open>__main__\<close> block: the outcome of the process start and the database file it
  leaves, whose tables \<open>db.create_all()\<close> creates before the port is read.\<close>

definition main :: "(string \<rightharpoonup> string) \<Rightarrow> db option \<Rightarrow> (boot_exc + server) \<times> db" where
  "main env f =
     (let s = create_all f in (ok_bind (env_port env) (\<lambda>p. app_run ''0.0.0.0'' p s), s))"

subsection \<open>Lemmas\<close>

lemma sint_word_of_int_neg: "sint (word_of_int p :: 32 word) < 0 \<longleftrightarrow> 2 ^ 31 \<le> p mod 2 ^ 32"
  using odd_div_half [of "p mod 2 ^ 32" "2 ^ 31"]
  by (simp add: sint_uint uint_word_of_int_eq signed_take_bit_eq_if_negative bit_iff_odd
      take_bit_eq_mod)

lemma uint_ucast_word_of_int: "uint (ucast (word_of_int p :: 32 word) :: 16 word) = p mod 65536"
  by (simp add: unsigned_ucast_eq uint_word_of_int_eq) (simp add: take_bit_eq_mod)

text \<open>The port the server binds, in integer arithmetic.\<close>

lemma app_run_port:
  "app_run h p s =
     (if c_long_ok p \<and> p mod 2 ^ 32 < 2 ^ 31
      then Inr \<lparr>srv_host = h, srv_port = p mod 65536, srv_db = s\<rparr> else Inl OverflowError)"
proof -
  have "\<not> (0 \<le> p \<and> p \<le> 65535)" if "2 ^ 31 \<le> p mod 2 ^ 32"
    using that by auto
  then show ?thesis
    by (auto simp: app_run_def get_sockaddr_def getaddrinfo_port_def socket_bind_def ok_bind_def
        sint_word_of_int_neg uint_ucast_word_of_int not_less Let_def)
qed

lemma py_int_str_int_text:
  assumes "length (nat_text (nat \<bar>i\<bar>)) \<le> max_str_digits"
  shows "py_int_str (int_text i) = Some i"
  using py_int_str_digits [of "[]" "[]", OF _ _ nat_text_not_Nil nat_text_digits assms]
  by (cases "i < 0") (simp_all add: int_text_def digits_value_nat_text)

subsection \<open>Properties of the bootstrap\<close>

text \<open>C22: with \<open>PORT\<close> unset the process listens on all interfaces at port 5000 and
  serves the tables of the database file (empty ones when the file is new); that file is
  the absolute path \<open>/tmp/db.sqlite\<close>.\<close>

theorem main_default_port:
  assumes "env ''PORT'' = None"
  shows "main env f = (Inr \<lparr>srv_host = ''0.0.0.0'', srv_port = 5000, srv_db = create_all f\<rparr>, create_all f)
    \<and> sqlite_database (sqlalchemy_database_uri app_config) = Some ''/tmp/db.sqlite''"
  using assms
  by (simp add: main_def env_port_def app_run_port c_long_ok_def app_config_def database_uri_def
      db_path_def posix_join_def sqlite_database_def Let_def)

text \<open>C23: a \<open>PORT\<close> holding the text of an integer \<open>p\<close> is not range-checked: the
  server starts on port \<open>p mod 65536\<close> whenever \<open>p\<close> fits a 64-bit C \<open>long\<close> and
  \<open>p mod 2^32\<close> is below \<open>2^31\<close> (so \<open>PORT=70000\<close> listens on 4464 and \<open>PORT=65536\<close> on a
  free port), and fails with \<open>OverflowError\<close> otherwise; the tables are created in
  either case.\<close>

theorem main_port_range:
  assumes "env ''PORT'' = Some (int_text p)"
    and "length (nat_text (nat \<bar>p\<bar>)) \<le> max_str_digits"
  shows "main env f =
    (if - (2 ^ 63) \<le> p \<and> p < 2 ^ 63 \<and> p mod 2 ^ 32 < 2 ^ 31
     then Inr \<lparr>srv_host = ''0.0.0.0'', srv_port = p mod 65536, srv_db = create_all f\<rparr>
     else Inl OverflowError, create_all f)"
  using assms py_int_str_int_text [OF assms(2)]
  by (simp add: main_def env_port_def app_run_port c_long_ok_def Let_def)

text \<open>C24: a \<open>PORT\<close> of more than 4300 digits stops the process with \<open>ValueError\<close>, even
  when its value is small (leading zeros count), after the tables are created.\<close>

theorem main_port_digit_limit:
  assumes "env ''PORT'' = Some v" "list_all is_digit v" "max_str_digits < length v"
  shows "main env f = (Inl ValueError, create_all f)"
proof -
  obtain c w where v: "v = c # w" "is_digit c" "list_all is_digit w"
    using assms(2,3) by (cases v) auto
  have "\<not> int_space c" "c \<noteq> CHR ''-''" "c \<noteq> CHR ''+''"
    using v(2) int_space_char_class is_digit_char_class by blast+
  then have "py_int_str v = None"
    using v assms(3) int_digits_text [OF v(3), of "[]"]
    by (simp add: py_int_str_def int_sign_def)
  then show ?thesis using assms(1) by (simp add: main_def env_port_def Let_def)
qed

text \<open>C25: a \<open>PORT\<close> holding a character that is not a digit, whitespace, a sign or an
  underscore stops the process with \<open>ValueError\<close>, after the tables are created.\<close>

theorem main_port_bad_char:
  assumes "env ''PORT'' = Some v" "c \<in> set v" "\<not> is_digit c" "\<not> int_space c"
    and "c \<notin> {CHR ''+'', CHR ''-'', CHR ''_''}"
  shows "main env f = (Inl ValueError, create_all f)"
proof -
  have "py_int_str v = None"
    using assms(2-5) by (cases "py_int_str v") (auto dest: py_int_str_chars)
  then show ?thesis using assms(1) by (simp add: main_def env_port_def Let_def)
qed

subsection \<open>Witnesses\<close>

theorem main_default_port_witness:
  "Map.empty ''PORT'' = (None :: string option) \<and>
   main Map.empty None = (Inr \<lparr>srv_host = ''0.0.0.0'', srv_port = 5000, srv_db = empty_db\<rparr>, empty_db)"
  using main_default_port [of Map.empty None] by (simp add: create_all_def)

theorem main_port_range_witness:
  "[''PORT'' \<mapsto> int_text 70000] ''PORT'' = Some (int_text 70000) \<and>
   length (nat_text (nat \<bar>70000\<bar>)) \<le> max_str_digits \<and>
   main [''PORT'' \<mapsto> int_text 70000] None =
     (Inr \<lparr>srv_host = ''0.0.0.0'', srv_port = 4464, srv_db = empty_db\<rparr>, empty_db)"
  using main_port_range [of "[''PORT'' \<mapsto> int_text 70000]" 70000 None]
  by (simp add: max_str_digits_def nat_text.simps digit_char_def create_all_def)

theorem main_port_digit_limit_witness:
  "[''PORT'' \<mapsto> replicate 4301 CHR ''0''] ''PORT'' = Some (replicate 4301 CHR ''0'') \<and>
   list_all is_digit (replicate 4301 CHR ''0'') \<and> max_str_digits < length (replicate 4301 CHR ''0'') \<and>
   main [''PORT'' \<mapsto> replicate 4301 CHR ''0''] None = (Inl ValueError, empty_db)"
  using main_port_digit_limit [of "[''PORT'' \<mapsto> replicate 4301 CHR ''0'']" "replicate 4301 CHR ''0''" None]
  by (simp add: is_digit_def max_str_digits_def list_all_iff create_all_def)

theorem main_port_bad_char_witness:
  "[''PORT'' \<mapsto> ''80x''] ''PORT'' = Some ''80x'' \<and> CHR ''x'' \<in> set ''80x'' \<and>
   \<not> is_digit CHR ''x'' \<and> \<not> int_space CHR ''x'' \<and> CHR ''x'' \<notin> {CHR ''+'', CHR ''-'', CHR ''_''} \<and>
   main [''PORT'' \<mapsto> ''80x''] None = (Inl ValueError, empty_db)"
  using main_port_bad_char [of "[''PORT'' \<mapsto> ''80x'']" "''80x''" "CHR ''x''" None]
  by (simp add: is_digit_def int_space_def create_all_def)

end
