(* ===== verification/Lifecycle.thy ===== *)
theory Lifecycle
  imports App
begin

text \<open>
  Runs of the application over sequences of requests that a client builds: the drain
  (one \<open>DELETE /delete/<id>\<close> per question, whose cascade takes the answers along)
  brings every store back to empty, and the rebuild (adds of questions and answers
  with placeholders for the gaps in the ids, then deletes of the placeholders) reaches
  every well-formed store from the empty one. The lemmas describe single requests on
  an existing id and runs of adds and deletes.
\<close>

definition delete_request :: "rowid \<Rightarrow> request" where
  "delete_request k = \<lparr>req_method = DELETE, req_path = route_path (DeleteComment k), req_body = None\<rparr>"

text \<open>The client's requests: one \<open>DELETE\<close> for each question, in table order.\<close>

definition drain_requests :: "db \<Rightarrow> request list" where
  "drain_requests s = map (\<lambda>(k, u). delete_request k) (user_tbl s)"

definition deleted_json :: "rowid \<Rightarrow> http_response" where
  "deleted_json k =
     JsonResponse 200 (JObj [(''message'', JStr ''Question deleted successfully''), (''id'', JInt (int k))])"

definition add_request :: "string \<Rightarrow> request" where
  "add_request c = \<lparr>req_method = POST, req_path = ''/add'', req_body = Some (JObj [(''comment'', JStr c)])\<rparr>"

definition answer_request :: "rowid \<Rightarrow> string \<Rightarrow> request" where
  "answer_request q a =
     \<lparr>req_method = POST, req_path = route_path (AddAnswer q), req_body = Some (JObj [(''answer'', JStr a)])\<rparr>"

definition delete_answer_request :: "rowid \<Rightarrow> request" where
  "delete_answer_request k = \<lparr>req_method = DELETE, req_path = route_path (DeleteAnswer k), req_body = None\<rparr>"

text \<open>A client that rebuilds a given store from the empty one: it adds the questions
  with ids 1 to the largest id (placeholders where the store has a gap), then the
  answers likewise (placeholders attached to the question of the first answer), and
  deletes the placeholder answers and then the placeholder questions.\<close>

definition fill_user :: "db \<Rightarrow> rowid \<Rightarrow> User" where
  "fill_user s k = (case tbl_get (user_tbl s) k of Some u \<Rightarrow> u | None \<Rightarrow> \<lparr>comment = ''''\<rparr>)"

definition fill_answer :: "db \<Rightarrow> rowid \<Rightarrow> Answer" where
  "fill_answer s k =
     (case tbl_get (answer_tbl s) k of
        Some a \<Rightarrow> a
      | None \<Rightarrow> \<lparr>answer = '''', question_id = question_id (snd (hd (answer_tbl s)))\<rparr>)"

definition rebuild_requests :: "db \<Rightarrow> request list" where
  "rebuild_requests s =
     (let q = max_rowid (user_tbl s); a = max_rowid (answer_tbl s) in
      map (\<lambda>k. add_request (comment (fill_user s k))) [1..<Suc q] @
      map (\<lambda>k. answer_request (question_id (fill_answer s k)) (answer (fill_answer s k))) [1..<Suc a] @
      map delete_answer_request (filter (\<lambda>k. k \<notin> set (map fst (answer_tbl s))) [1..<Suc a]) @
      map delete_request (filter (\<lambda>k. k \<notin> set (map fst (user_tbl s))) [1..<Suc q]))"

subsection \<open>Lemmas\<close>

lemma tbl_ok_rebuild:
  assumes "tbl_ok t" "max_rowid t \<le> N"
  shows "map (\<lambda>k. (k, the (map_of t k))) (filter (\<lambda>k. k \<in> set (map fst t)) [1..<Suc N]) = t"
proof -
  have d: "distinct (map fst t)" and so: "sorted (map fst t)" and z: "0 \<notin> set (map fst t)"
    using assms(1) by (auto simp: tbl_ok_def strict_sorted_iff)
  have "filter (\<lambda>k. k \<in> set (map fst t)) [1..<Suc N] = map fst t"
  proof (rule sorted_distinct_set_unique)
    show "set (filter (\<lambda>k. k \<in> set (map fst t)) [1..<Suc N]) = set (map fst t)"
      using z le_max_rowid [where t = t] assms(2) by (force simp: Suc_le_eq)
    show "sorted (filter (\<lambda>k. k \<in> set (map fst t)) [1..<Suc N])"
      by (rule sorted_wrt_filter) (rule sorted_upt)
  qed (use d so in simp_all)
  moreover have "map (\<lambda>k. (k, the (map_of t k))) (map fst t) = t"
  proof -
    have "\<And>x. x \<in> set t \<Longrightarrow> ((\<lambda>k. (k, the (map_of t k))) \<circ> fst) x = x"
      using map_of_is_SomeI [OF d] by fastforce
    then show ?thesis by (simp add: map_idI)
  qed
  ultimately show ?thesis by simp
qed

lemma max_rowid_less: "\<forall>k\<in>set (map fst t). k < b \<Longrightarrow> 0 < b \<Longrightarrow> max_rowid t < b"
  by (induction t) auto

lemma serve_Cons_snd: "snd (serve s (rq # rqs)) = snd (serve (snd (app s rq)) rqs)"
  by (simp add: split_def Let_def)

lemma serve_append_snd: "snd (serve s (xs @ ys)) = snd (serve (snd (serve s xs)) ys)"
  by (induction xs arbitrary: s) (simp_all add: serve_Cons_snd del: serve.simps(2))

lemma reachable_serve: "reachable s \<Longrightarrow> reachable (snd (serve s rqs))"
  by (induction rqs arbitrary: s) (auto simp: serve_Cons_snd intro: reachable_app simp del: serve.simps(2))

lemma filter_pairs_map:
  "filter (\<lambda>(k, _). P k) (map (\<lambda>k. (k, f k)) ks) = map (\<lambda>k. (k, f k)) (filter P ks)"
  by (induction ks) auto

text \<open>Filling the ids 1 to \<open>N\<close> and deleting the placeholders gives back the table.\<close>

lemma rebuild_table:
  assumes "tbl_ok t" "max_rowid t \<le> N" "\<And>k. k \<in> set (map fst t) \<Longrightarrow> fill k = the (map_of t k)"
  shows "filter (\<lambda>(k, _). k \<notin> set (filter (\<lambda>k. k \<notin> set (map fst t)) [1..<Suc N]))
           (map (\<lambda>k. (k, fill k)) [1..<Suc N]) = t"
proof -
  let ?ks = "filter (\<lambda>k. k \<in> set (map fst t)) [1..<Suc N]"
  have "filter (\<lambda>k. k \<notin> set (filter (\<lambda>k. k \<notin> set (map fst t)) [1..<Suc N])) [1..<Suc N] = ?ks"
    by (rule filter_cong) (auto simp del: upt_Suc)
  then have "filter (\<lambda>(k, _). k \<notin> set (filter (\<lambda>k. k \<notin> set (map fst t)) [1..<Suc N]))
           (map (\<lambda>k. (k, fill k)) [1..<Suc N]) = map (\<lambda>k. (k, fill k)) ?ks"
    by (simp only: filter_pairs_map)
  also have "\<dots> = map (\<lambda>k. (k, the (map_of t k))) ?ks"
    by (rule map_cong) (simp_all add: assms(3) del: upt_Suc)
  also have "\<dots> = t" by (rule tbl_ok_rebuild [OF assms(1,2)])
  finally show ?thesis .
qed

lemma keys_fill [simp]: "map fst (map (\<lambda>k. (k, f k)) ks) = ks"
  by (induction ks) auto

lemma map_of_key: "k \<in> set (map fst t) \<Longrightarrow> map_of t k \<noteq> None"
  by (simp add: map_of_eq_None_iff)

lemma fill_user_key: "k \<in> set (map fst (user_tbl s)) \<Longrightarrow> fill_user s k = the (map_of (user_tbl s) k)"
  using map_of_key [of k "user_tbl s"] by (auto simp: fill_user_def tbl_get_def split: option.split)

lemma fill_answer_key: "k \<in> set (map fst (answer_tbl s)) \<Longrightarrow> fill_answer s k = the (map_of (answer_tbl s) k)"
  using map_of_key [of k "answer_tbl s"] by (auto simp: fill_answer_def tbl_get_def split: option.split)

text \<open>The question of every answer the client adds exists by then: it is a question of
  the store, whose id the first phase has created.\<close>

lemma fill_answer_owner:
  assumes "wf_db s" "k \<in> set [1..<Suc (max_rowid (answer_tbl s))]"
  shows "question_id (fill_answer s k) \<in> set (map fst (user_tbl s))"
proof -
  have owned: "\<And>j a. (j, a) \<in> set (answer_tbl s) \<Longrightarrow> question_id a \<in> set (map fst (user_tbl s))"
    using assms(1) by (fastforce simp: wf_db_def list_all_iff tbl_get_def map_of_eq_None_iff)
  show ?thesis
  proof (cases "tbl_get (answer_tbl s) k")
    case None
    have "answer_tbl s \<noteq> []" using assms(2) by auto
    then have "hd (answer_tbl s) \<in> set (answer_tbl s)" by simp
    with None show ?thesis
      using owned [of "fst (hd (answer_tbl s))" "snd (hd (answer_tbl s))"] by (simp add: fill_answer_def)
  next
    case (Some a)
    then have "(k, a) \<in> set (answer_tbl s)" by (simp add: tbl_get_def map_of_SomeD)
    with Some show ?thesis using owned [of k a] by (simp add: fill_answer_def)
  qed
qed

subsubsection \<open>Single requests\<close>

lemma app_add_request:
  "snd (app s (add_request c)) = s\<lparr>user_tbl := user_tbl s @ [(new_rowid (user_tbl s), \<lparr>comment = c\<rparr>)]\<rparr>"
  by (simp add: app_def add_request_def resolve_add add_comment_def session_add_user_def
      tbl_insert_def dict_lookup_def Let_def)

lemma app_answer_request:
  assumes "q \<in> set (map fst (user_tbl s))" "int q < 2 ^ 63"
  shows "snd (app s (answer_request q a)) =
           s\<lparr>answer_tbl := answer_tbl s @ [(new_rowid (answer_tbl s), \<lparr>answer = a, question_id = q\<rparr>)]\<rparr>"
proof -
  have "resolve POST (route_path (AddAnswer q)) = Matched (AddAnswer q)"
    using resolve_route_path [of "AddAnswer q"] nat_text_small [OF assms(2)]
    by (simp add: route_args_ok_def)
  moreover obtain u where "tbl_get (user_tbl s) q = Some u"
    using assms(1) by (cases "tbl_get (user_tbl s) q") (auto simp: tbl_get_def map_of_eq_None_iff)
  ultimately show ?thesis
    using assms(2)
    by (simp add: app_def answer_request_def add_answer_def session_add_answer_def tbl_insert_def
        dict_lookup_def query_get_user_def sqlite_int_ok_def Let_def)
qed

lemma app_delete_request:
  assumes "k \<in> set (map fst (user_tbl s))" "int k < 2 ^ 63"
  shows "app s (delete_request k) = (deleted_json k, session_delete_user k s)"
proof -
  have "resolve DELETE (route_path (DeleteComment k)) = Matched (DeleteComment k)"
    using resolve_route_path [of "DeleteComment k"] nat_text_small [OF assms(2)]
    by (simp add: route_args_ok_def)
  moreover obtain u where "tbl_get (user_tbl s) k = Some u"
    using assms(1) by (cases "tbl_get (user_tbl s) k") (auto simp: tbl_get_def map_of_eq_None_iff)
  ultimately show ?thesis
    using assms(2)
    by (simp add: app_def delete_request_def delete_comment_def deleted_def deleted_json_def
        query_get_user_def sqlite_int_ok_def)
qed

lemma app_delete_answer_request:
  assumes "k \<in> set (map fst (answer_tbl s))" "int k < 2 ^ 63"
  shows "snd (app s (delete_answer_request k)) = session_delete_answer k s"
proof -
  have "resolve DELETE (route_path (DeleteAnswer k)) = Matched (DeleteAnswer k)"
    using resolve_route_path [of "DeleteAnswer k"] nat_text_small [OF assms(2)]
    by (simp add: route_args_ok_def)
  moreover obtain a where "tbl_get (answer_tbl s) k = Some a"
    using assms(1) by (cases "tbl_get (answer_tbl s) k") (auto simp: tbl_get_def map_of_eq_None_iff)
  ultimately show ?thesis
    using assms(2)
    by (simp add: app_def delete_answer_request_def delete_answer_def deleted_def query_get_answer_def
        sqlite_int_ok_def)
qed

subsubsection \<open>Runs of requests\<close>

text \<open>Adding questions for the ids after the largest one, in order: each gets the id
  the client expects.\<close>

lemma serve_add_questions:
  "max_rowid (user_tbl s) = m \<Longrightarrow>
   snd (serve s (map (\<lambda>k. add_request (comment (f k))) [Suc m..<Suc m + n])) =
     s\<lparr>user_tbl := user_tbl s @ map (\<lambda>k. (k, f k)) [Suc m..<Suc m + n]\<rparr>"
proof (induction n arbitrary: s m)
  case (Suc n)
  let ?s1 = "s\<lparr>user_tbl := user_tbl s @ [(Suc m, f (Suc m))]\<rparr>"
  have s1: "snd (app s (add_request (comment (f (Suc m))))) = ?s1"
    using Suc.prems by (simp add: app_add_request new_rowid_def)
  have "max_rowid (user_tbl ?s1) = Suc m" using Suc.prems by simp
  from Suc.IH [OF this] s1 show ?case
    by (simp add: upt_conv_Cons serve_Cons_snd del: upt_Suc serve.simps(2))
qed simp

lemma serve_add_answers:
  "max_rowid (answer_tbl s) = m \<Longrightarrow>
   \<forall>k\<in>set [Suc m..<Suc m + n]. question_id (g k) \<in> set (map fst (user_tbl s)) \<and> int (question_id (g k)) < 2 ^ 63 \<Longrightarrow>
   snd (serve s (map (\<lambda>k. answer_request (question_id (g k)) (answer (g k))) [Suc m..<Suc m + n])) =
     s\<lparr>answer_tbl := answer_tbl s @ map (\<lambda>k. (k, g k)) [Suc m..<Suc m + n]\<rparr>"
proof (induction n arbitrary: s m)
  case (Suc n)
  let ?s1 = "s\<lparr>answer_tbl := answer_tbl s @ [(Suc m, g (Suc m))]\<rparr>"
  have "Suc m \<in> set [Suc m..<Suc m + Suc n]" by (simp del: upt_Suc)
  then have "question_id (g (Suc m)) \<in> set (map fst (user_tbl s)) \<and> int (question_id (g (Suc m))) < 2 ^ 63"
    using Suc.prems(2) by blast
  then have q: "question_id (g (Suc m)) \<in> set (map fst (user_tbl s))" "int (question_id (g (Suc m))) < 2 ^ 63"
    by simp_all
  have rec: "\<lparr>answer = answer (g (Suc m)), question_id = question_id (g (Suc m))\<rparr> = g (Suc m)"
    by simp
  have s1: "snd (app s (answer_request (question_id (g (Suc m))) (answer (g (Suc m))))) = ?s1"
    using Suc.prems(1) app_answer_request [OF q, of "answer (g (Suc m))"] rec by (simp add: new_rowid_def)
  have "max_rowid (answer_tbl ?s1) = Suc m" using Suc.prems(1) by simp
  from Suc.IH [OF this] Suc.prems(2) s1 show ?case
    by (simp add: upt_conv_Cons serve_Cons_snd del: upt_Suc serve.simps(2))
qed simp

text \<open>Deleting distinct questions that exist: each answers 200, and the store loses
  them with their answers.\<close>

lemma serve_delete_questions:
  "distinct ks \<Longrightarrow> set ks \<subseteq> set (map fst (user_tbl s)) \<Longrightarrow> \<forall>k\<in>set ks. int k < 2 ^ 63 \<Longrightarrow>
   serve s (map delete_request ks) =
     (map deleted_json ks,
      s\<lparr>user_tbl := filter (\<lambda>(k, _). k \<notin> set ks) (user_tbl s),
        answer_tbl := filter (\<lambda>(_, a). question_id a \<notin> set ks) (answer_tbl s)\<rparr>)"
proof (induction ks arbitrary: s)
  case (Cons k ks)
  have step: "app s (delete_request k) = (deleted_json k, session_delete_user k s)"
    using Cons.prems by (simp add: app_delete_request)
  have "set ks \<subseteq> set (map fst (user_tbl (session_delete_user k s)))"
    using Cons.prems(1,2) by (force simp: tbl_delete_def)
  with Cons.IH [of "session_delete_user k s"] Cons.prems step show ?case
    by (simp add: tbl_delete_def tbl_delete_where_def case_prod_unfold conj_commute)
qed simp

lemma serve_delete_answers:
  "distinct ks \<Longrightarrow> set ks \<subseteq> set (map fst (answer_tbl s)) \<Longrightarrow> \<forall>k\<in>set ks. int k < 2 ^ 63 \<Longrightarrow>
   snd (serve s (map delete_answer_request ks)) =
     s\<lparr>answer_tbl := filter (\<lambda>(k, _). k \<notin> set ks) (answer_tbl s)\<rparr>"
proof (induction ks arbitrary: s)
  case (Cons k ks)
  have step: "snd (app s (delete_answer_request k)) = session_delete_answer k s"
    using Cons.prems by (simp add: app_delete_answer_request)
  have "set ks \<subseteq> set (map fst (answer_tbl (session_delete_answer k s)))"
    using Cons.prems(1,2) by (force simp: tbl_delete_def)
  with Cons.IH [of "session_delete_answer k s"] Cons.prems step show ?case
    by (simp add: serve_Cons_snd tbl_delete_def session_delete_answer_def case_prod_unfold conj_commute
        del: serve.simps(2))
qed simp

subsection \<open>Every store can be emptied\<close>

text \<open>C27. From every well-formed store whose ids SQLite can bind, the client's deletion
  of each question in turn succeeds at every step (200 with the deletion message) and
  ends in the empty store: no answer survives its question.\<close>

theorem drain_empties_store:
  assumes "wf_db s" "\<forall>k\<in>set (map fst (user_tbl s)). int k < 2 ^ 63"
  shows "serve s (drain_requests s) = (map (\<lambda>(k, u). deleted_json k) (user_tbl s), empty_db)"
proof -
  have owned: "\<forall>(_, a)\<in>set (answer_tbl s). question_id a \<in> set (map fst (user_tbl s))"
    using assms(1) by (auto simp: wf_db_def list_all_iff tbl_get_def map_of_eq_None_iff)
  have "filter (\<lambda>(_, a). question_id a \<notin> set (map fst (user_tbl s))) (answer_tbl s) = []"
    using owned by (auto simp: filter_empty_conv)
  moreover have "distinct (map fst (user_tbl s))"
    using assms(1) by (simp add: wf_db_def tbl_ok_def strict_sorted_iff)
  moreover have "filter (\<lambda>(k, _). k \<notin> set (map fst (user_tbl s))) (user_tbl s) = []"
    by (auto simp: filter_empty_conv intro: rev_image_eqI)
  ultimately show ?thesis
    using serve_delete_questions [of "map fst (user_tbl s)" s] assms(2)
    by (cases s) (simp add: drain_requests_def empty_db_def case_prod_unfold comp_def)
qed

subsection \<open>Every well-formed store is reachable\<close>

text \<open>C30. Conversely to C1, the invariant describes exactly the stores the application
  can reach: every well-formed store whose ids SQLite can bind is rebuilt from the empty
  store by the requests of \<^const>\<open>rebuild_requests\<close>, so it is reachable.\<close>

theorem wf_db_reachable:
  assumes wf: "wf_db s"
    and bu: "\<forall>k\<in>set (map fst (user_tbl s)). int k < 2 ^ 63"
    and ba: "\<forall>k\<in>set (map fst (answer_tbl s)). int k < 2 ^ 63"
  shows "snd (serve empty_db (rebuild_requests s)) = s \<and> reachable s"
proof -
  define q where "q = max_rowid (user_tbl s)"
  define a where "a = max_rowid (answer_tbl s)"
  define dA where "dA = filter (\<lambda>k. k \<notin> set (map fst (answer_tbl s))) [1..<Suc a]"
  define dQ where "dQ = filter (\<lambda>k. k \<notin> set (map fst (user_tbl s))) [1..<Suc q]"
  let ?U = "map (\<lambda>k. (k, fill_user s k)) [1..<Suc q]"
  let ?A = "map (\<lambda>k. (k, fill_answer s k)) [1..<Suc a]"
  have oku: "tbl_ok (user_tbl s)" and oka: "tbl_ok (answer_tbl s)"
    using wf by (simp_all add: wf_db_def)
  have owned: "\<forall>(_, x)\<in>set (answer_tbl s). question_id x \<in> set (map fst (user_tbl s))"
    using wf by (auto simp: wf_db_def list_all_iff tbl_get_def map_of_eq_None_iff)
  have q_small: "q < 2 ^ 63" and a_small: "a < 2 ^ 63"
    using max_rowid_less [of "user_tbl s" "2 ^ 63"] max_rowid_less [of "answer_tbl s" "2 ^ 63"] bu ba
    by (simp_all add: q_def a_def)
  have user_in_U: "set (map fst (user_tbl s)) \<subseteq> set [1..<Suc q]"
    using oku le_max_rowid [of _ "user_tbl s"] by (force simp: q_def tbl_ok_def Suc_le_eq)
  txt \<open>Phase 1: the questions 1 to \<open>q\<close>.\<close>
  have p1: "snd (serve empty_db (map (\<lambda>k. add_request (comment (fill_user s k))) [1..<Suc q])) =
            \<lparr>user_tbl = ?U, answer_tbl = []\<rparr>"
    using serve_add_questions [of empty_db 0 "fill_user s" q] by (simp add: empty_db_def)
  txt \<open>Phase 2: the answers 1 to \<open>a\<close>, each to a question created in phase 1.\<close>
  have owners: "\<forall>k\<in>set [Suc 0..<Suc 0 + a]. question_id (fill_answer s k) \<in> set (map fst ?U) \<and>
                  int (question_id (fill_answer s k)) < 2 ^ 63"
  proof
    fix k assume "k \<in> set [Suc 0..<Suc 0 + a]"
    then have "question_id (fill_answer s k) \<in> set (map fst (user_tbl s))"
      using fill_answer_owner [OF wf, of k] by (simp add: a_def del: upt_Suc)
    then have "question_id (fill_answer s k) \<in> set [1..<Suc q]"
      and "int (question_id (fill_answer s k)) < 2 ^ 63"
      using user_in_U bu by blast+
    then show "question_id (fill_answer s k) \<in> set (map fst ?U) \<and>
                 int (question_id (fill_answer s k)) < 2 ^ 63"
      by (simp only: keys_fill simp_thms)
  qed
  have p2: "snd (serve \<lparr>user_tbl = ?U, answer_tbl = []\<rparr>
              (map (\<lambda>k. answer_request (question_id (fill_answer s k)) (answer (fill_answer s k))) [1..<Suc a])) =
            \<lparr>user_tbl = ?U, answer_tbl = ?A\<rparr>"
    using serve_add_answers [of "\<lparr>user_tbl = ?U, answer_tbl = []\<rparr>" 0 a "fill_answer s"] owners
    by (simp del: upt_Suc)
  txt \<open>Phase 3: the placeholder answers go.\<close>
  have p3: "snd (serve \<lparr>user_tbl = ?U, answer_tbl = ?A\<rparr> (map delete_answer_request dA)) =
            \<lparr>user_tbl = ?U, answer_tbl = answer_tbl s\<rparr>"
  proof -
    have "distinct dA" "set dA \<subseteq> set (map fst ?A)" "\<forall>k\<in>set dA. int k < 2 ^ 63"
      using a_small by (auto simp: dA_def simp del: upt_Suc)
    then show ?thesis
      using serve_delete_answers [of dA "\<lparr>user_tbl = ?U, answer_tbl = ?A\<rparr>"]
        rebuild_table [OF oka _ fill_answer_key, of a] by (simp add: dA_def a_def)
  qed
  txt \<open>Phase 4: the placeholder questions go; they own no answer.\<close>
  have p4: "snd (serve \<lparr>user_tbl = ?U, answer_tbl = answer_tbl s\<rparr> (map delete_request dQ)) = s"
  proof -
    have "distinct dQ" "set dQ \<subseteq> set (map fst ?U)" "\<forall>k\<in>set dQ. int k < 2 ^ 63"
      using q_small by (auto simp: dQ_def simp del: upt_Suc)
    moreover have "filter (\<lambda>(_, x). question_id x \<notin> set dQ) (answer_tbl s) = answer_tbl s"
      using owned by (auto simp: dQ_def filter_id_conv)
    ultimately show ?thesis
      using serve_delete_questions [of dQ "\<lparr>user_tbl = ?U, answer_tbl = answer_tbl s\<rparr>"]
        rebuild_table [OF oku _ fill_user_key, of q]
      by (cases s) (simp add: dQ_def q_def)
  qed
  have run: "snd (serve empty_db (rebuild_requests s)) = s"
    using p1 p2 p3 p4
    by (simp add: rebuild_requests_def Let_def serve_append_snd q_def a_def dA_def dQ_def
        del: serve.simps(2))
  then show ?thesis using reachable_serve [OF reachable.start, of "rebuild_requests s"] by simp
qed

subsection \<open>Witnesses\<close>

theorem drain_empties_store_witness:
  "let s = \<lparr>user_tbl = [(1, \<lparr>comment = ''q''\<rparr>), (3, \<lparr>comment = ''r''\<rparr>)],
            answer_tbl = [(2, \<lparr>answer = ''a'', question_id = 3\<rparr>)]\<rparr>
   in wf_db s \<and> serve s (drain_requests s) = ([deleted_json 1, deleted_json 3], empty_db)"
proof -
  let ?s = "\<lparr>user_tbl = [(1::nat, \<lparr>comment = ''q''\<rparr>), (3, \<lparr>comment = ''r''\<rparr>)],
            answer_tbl = [(2::nat, \<lparr>answer = ''a'', question_id = 3::nat\<rparr>)]\<rparr>"
  have h1: "wf_db ?s" by (simp add: wf_db_def tbl_ok_def tbl_get_def)
  have h2: "\<forall>k\<in>set (map fst (user_tbl ?s)). int k < 2 ^ 63" by simp
  show ?thesis using h1 h2 drain_empties_store [OF h1 h2] by (simp add: Let_def)
qed

theorem wf_db_reachable_witness:
  "let s = \<lparr>user_tbl = [(2, \<lparr>comment = ''q''\<rparr>)], answer_tbl = [(3, \<lparr>answer = ''a'', question_id = 2\<rparr>)]\<rparr>
   in wf_db s \<and> snd (serve empty_db (rebuild_requests s)) = s \<and> reachable s"
proof -
  let ?s = "\<lparr>user_tbl = [(2::nat, \<lparr>comment = ''q''\<rparr>)],
             answer_tbl = [(3::nat, \<lparr>answer = ''a'', question_id = 2::nat\<rparr>)]\<rparr>"
  have h1: "wf_db ?s" by (simp add: wf_db_def tbl_ok_def tbl_get_def)
  have h2: "\<forall>k\<in>set (map fst (user_tbl ?s)). int k < 2 ^ 63" by simp
  have h3: "\<forall>k\<in>set (map fst (answer_tbl ?s)). int k < 2 ^ 63" by simp
  show ?thesis using h1 wf_db_reachable [OF h1 h2 h3] by (simp add: Let_def)
qed

end
