(* ===== verification/JsonText.thy ===== *)
theory JsonText
  imports App PyInt
begin

text \<open>
  The JSON text on the wire. \<open>request.get_json()\<close> decodes the body with Python's
  \<open>json.loads\<close>, and every view answers through \<open>jsonify\<close>, which writes its value with
  \<open>json.dumps\<close> compactly (separators \<open>,\<close> and \<open>:\<close>), with sorted keys and
  \<open>ensure_ascii\<close>, followed by a newline. The decoder is CPython's scanner (the C
  module \<open>_json\<close>) as a recursive-descent scanner over the code points of the body.
  Three things of JSON are outside the values of \<open>jvalue\<close>: numbers with a fraction
  or an exponent and the constants \<open>NaN\<close>, \<open>Infinity\<close>, \<open>-Infinity\<close> (Python floats),
  \<open>\uXXXX\<close> escapes of code points from U+0100, and nesting deeper than
  \<open>max_depth\<close>, where CPython's recursion limit may end the decoding with
  \<open>RecursionError\<close>. The scanner still reads such a text to its end, so that its
  syntax errors are found, and marks its result as outside the model.
\<close>

subsection \<open>Decoding: \<open>json.loads\<close>\<close>

definition json_ws :: "char \<Rightarrow> bool" where
  "json_ws c \<longleftrightarrow> (let n = (of_char c :: nat) in n = 32 \<or> n = 9 \<or> n = 10 \<or> n = 13)"

definition skip_ws :: "string \<Rightarrow> string" where
  "skip_ws s = dropWhile json_ws s"

definition hex_value :: "char \<Rightarrow> nat option" where
  "hex_value c =
     (let n = (of_char c :: nat) in
      if 48 \<le> n \<and> n \<le> 57 then Some (n - 48)
      else if 97 \<le> n \<and> n \<le> 102 then Some (n - 87)
      else if 65 \<le> n \<and> n \<le> 70 then Some (n - 55)
      else None)"

fun hex_digits :: "nat \<Rightarrow> string \<Rightarrow> nat option" where
  "hex_digits acc [] = Some acc"
| "hex_digits acc (c # cs) = (case hex_value c of None \<Rightarrow> None | Some d \<Rightarrow> hex_digits (16 * acc + d) cs)"

text \<open>The four hex digits of a \<open>\uXXXX\<close> escape.\<close>

definition hex4 :: "string \<Rightarrow> nat option" where
  "hex4 s = (if 4 \<le> length s then hex_digits 0 (take 4 s) else None)"

text \<open>The one-character escapes \<open>\" \\ \/ \b \f \n \r \t\<close>.\<close>

definition json_escape :: "char \<Rightarrow> char option" where
  "json_escape e =
     (let n = (of_char e :: nat) in
      if n = 34 \<or> n = 92 \<or> n = 47 then Some e
      else if e = CHR ''b'' then Some CHR 0x08
      else if e = CHR ''f'' then Some CHR 0x0C
      else if e = CHR ''n'' then Some (CHR 0x0A)
      else if e = CHR ''r'' then Some CHR 0x0D
      else if e = CHR ''t'' then Some CHR 0x09
      else None)"

text \<open>\<open>scanstring\<close> after the opening quote, with \<open>strict=True\<close>: the text of the string,
  whether it holds a code point from U+0100, and the rest after the closing quote;
  \<open>None\<close> is the \<open>JSONDecodeError\<close> (no closing quote, a bad escape, a control
  character).\<close>

fun scan_str :: "string \<Rightarrow> (string \<times> bool \<times> string) option" where
  "scan_str [] = None"
| "scan_str (c # r) =
     (if (of_char c :: nat) = 34 then Some ([], False, r)
      else if (of_char c :: nat) = 92 then
        (case r of
           [] \<Rightarrow> None
         | e # r' \<Rightarrow>
             if e = CHR ''u'' then
               (case hex4 r' of
                  None \<Rightarrow> None
                | Some n \<Rightarrow> map_option (\<lambda>(x, fl, t). (char_of n # x, fl \<or> 256 \<le> n, t)) (scan_str (drop 4 r')))
             else
               (case json_escape e of
                  None \<Rightarrow> None
                | Some ch \<Rightarrow> map_option (\<lambda>(x, fl, t). (ch # x, fl, t)) (scan_str r')))
      else if (of_char c :: nat) < 32 then None
      else map_option (\<lambda>(x, fl, t). (c # x, fl, t)) (scan_str r))"

text \<open>\<open>_match_number_unicode\<close>: an optional minus, \<open>0\<close> or a digit string not starting
  with \<open>0\<close>, an optional fraction, an optional exponent (read only when digits follow,
  otherwise the number ends before it). An integer becomes a Python int, limited to
  4300 digits like \<open>int()\<close>; a fraction or exponent makes a float.\<close>

definition scan_int_part :: "string \<Rightarrow> (string \<times> string) option" where
  "scan_int_part t =
     (case t of
        [] \<Rightarrow> None
      | c # t' \<Rightarrow>
          if c = CHR ''0'' then Some (''0'', t')
          else if is_digit c then Some (c # takeWhile is_digit t', dropWhile is_digit t')
          else None)"

definition scan_frac :: "string \<Rightarrow> bool \<times> string" where
  "scan_frac r =
     (case r of
        c # d # r' \<Rightarrow> if c = CHR ''.'' \<and> is_digit d then (True, dropWhile is_digit r') else (False, r)
      | _ \<Rightarrow> (False, r))"

definition scan_exp :: "string \<Rightarrow> bool \<times> string" where
  "scan_exp r =
     (case r of
        [] \<Rightarrow> (False, r)
      | c # r' \<Rightarrow>
          if c = CHR ''e'' \<or> c = CHR ''E'' then
            (let r2 = (if r' \<noteq> [] \<and> (hd r' = CHR ''+'' \<or> hd r' = CHR ''-'') then tl r' else r') in
             if r2 \<noteq> [] \<and> is_digit (hd r2) then (True, dropWhile is_digit r2) else (False, r))
          else (False, r))"

definition scan_number :: "string \<Rightarrow> (jvalue \<times> bool \<times> string) option" where
  "scan_number s =
     (let (neg, t) = (if s \<noteq> [] \<and> hd s = CHR ''-'' then (True, tl s) else (False, s)) in
      case scan_int_part t of
        None \<Rightarrow> None
      | Some (ip, r) \<Rightarrow>
          (let (f1, r1) = scan_frac r; (f2, r2) = scan_exp r1 in
           if f1 \<or> f2 then Some (JNull, True, r2)
           else if max_str_digits < length ip then None
           else Some (JInt ((if neg then -1 else 1) * int (digits_value 0 ip)), False, r2)))"

text \<open>The named constants, then a number.\<close>

definition scan_const :: "string \<Rightarrow> (jvalue \<times> bool \<times> string) option" where
  "scan_const s =
     (if take 4 s = ''null'' then Some (JNull, False, drop 4 s)
      else if take 4 s = ''true'' then Some (JBool True, False, drop 4 s)
      else if take 5 s = ''false'' then Some (JBool False, False, drop 5 s)
      else if take 3 s = ''NaN'' then Some (JNull, True, drop 3 s)
      else if take 8 s = ''Infinity'' then Some (JNull, True, drop 8 s)
      else if take 9 s = ''-Infinity'' then Some (JNull, True, drop 9 s)
      else scan_number s)"

text \<open>Nesting depth up to which the decoding certainly stays within CPython's recursion
  limit.\<close>

definition max_depth :: nat where
  "max_depth = 200"

text \<open>What the scanner is reading: a value, the elements of an array after the first
  (with those read so far), or the members of an object.\<close>

datatype jmode = JValue | JElems "jvalue list" | JMembers "(string \<times> jvalue) list"

text \<open>\<open>scan_once\<close> and its callers \<open>_parse_array\<close> and \<open>_parse_object\<close> at nesting
  depth \<open>d\<close>: \<open>Some None\<close> is the \<open>JSONDecodeError\<close>, \<open>Some (Some (v, fl, r))\<close> a value
  with the rest \<open>r\<close> of the text (\<open>fl\<close> marks a value outside the model), and \<open>None\<close>
  the absence of a result, which the termination theorem rules out.\<close>

partial_function (option) scan :: "nat \<Rightarrow> jmode \<Rightarrow> string \<Rightarrow> (jvalue \<times> bool \<times> string) option option" where
  "scan d m s =
     (case m of
        JValue \<Rightarrow>
          (case s of
             [] \<Rightarrow> Some None
           | c # r \<Rightarrow>
               if (of_char c :: nat) = 34 then Some (map_option (\<lambda>(x, fl, t). (JStr x, fl, t)) (scan_str r))
               else if c = CHR ''{'' \<or> c = CHR ''['' then
                 (let r1 = skip_ws r; obj = (c = CHR ''{'') in
                  if r1 \<noteq> [] \<and> hd r1 = (if obj then CHR ''}'' else CHR '']'')
                  then Some (Some (if obj then JObj [] else JList [], max_depth \<le> d, tl r1))
                  else Option.bind (scan (Suc d) (if obj then JMembers [] else JElems []) r1)
                         (\<lambda>res. Some (map_option (\<lambda>(v, fl, t). (v, fl \<or> max_depth \<le> d, t)) res)))
               else Some (scan_const s))
      | JElems acc \<Rightarrow>
          Option.bind (scan d JValue s) (\<lambda>res.
            case res of
              None \<Rightarrow> Some None
            | Some (v, fl, r) \<Rightarrow>
                (let r1 = skip_ws r in
                 if r1 \<noteq> [] \<and> hd r1 = CHR '']'' then Some (Some (JList (acc @ [v]), fl, tl r1))
                 else if r1 \<noteq> [] \<and> hd r1 = CHR '','' then
                   Option.bind (scan d (JElems (acc @ [v])) (skip_ws (tl r1)))
                     (\<lambda>res'. Some (map_option (\<lambda>(w, fl', t). (w, fl \<or> fl', t)) res'))
                 else Some None))
      | JMembers acc \<Rightarrow>
          (if s \<noteq> [] \<and> (of_char (hd s) :: nat) = 34 then
             (case scan_str (tl s) of
                None \<Rightarrow> Some None
              | Some (k, fk, r) \<Rightarrow>
                  (let r1 = skip_ws r in
                   if r1 \<noteq> [] \<and> hd r1 = CHR '':'' then
                     Option.bind (scan d JValue (skip_ws (tl r1))) (\<lambda>res.
                       case res of
                         None \<Rightarrow> Some None
                       | Some (v, fl, r2) \<Rightarrow>
                           (let r3 = skip_ws r2 in
                            if r3 \<noteq> [] \<and> hd r3 = CHR ''}'' then Some (Some (JObj (acc @ [(k, v)]), fk \<or> fl, tl r3))
                            else if r3 \<noteq> [] \<and> hd r3 = CHR '','' then
                              Option.bind (scan d (JMembers (acc @ [(k, v)])) (skip_ws (tl r3)))
                                (\<lambda>res'. Some (map_option (\<lambda>(w, fl', t). (w, fk \<or> fl \<or> fl', t)) res'))
                            else Some None))
                   else Some None))
           else Some None))"

declare scan.simps [code]

datatype loads_result = Loaded jvalue | Malformed | Unmodelled

text \<open>\<open>json.loads(body)\<close>: whitespace, one value, whitespace, and nothing else.\<close>

definition json_loads :: "string \<Rightarrow> loads_result option" where
  "json_loads t =
     Option.bind (scan 0 JValue (skip_ws t)) (\<lambda>res. Some
       (case res of
          None \<Rightarrow> Malformed
        | Some (v, fl, r) \<Rightarrow> if skip_ws r \<noteq> [] then Malformed else if fl then Unmodelled else Loaded v))"

subsection \<open>Encoding: \<open>jsonify\<close>\<close>

definition hex_char :: "nat \<Rightarrow> char" where
  "hex_char n = (if n < 10 then char_of (48 + n) else char_of (87 + n))"

text \<open>\<open>encode_basestring_ascii\<close> on one character.\<close>

definition esc_char :: "char \<Rightarrow> string" where
  "esc_char c =
     (let n = (of_char c :: nat) in
      if n = 34 \<or> n = 92 then [CHR 0x5C, c]
      else if n = 8 then [CHR 0x5C, CHR ''b''] else if n = 12 then [CHR 0x5C, CHR ''f'']
      else if n = 10 then [CHR 0x5C, CHR ''n''] else if n = 13 then [CHR 0x5C, CHR ''r'']
      else if n = 9 then [CHR 0x5C, CHR ''t'']
      else if 32 \<le> n \<and> n \<le> 126 then [c]
      else [CHR 0x5C, CHR ''u'', CHR ''0'', CHR ''0'', hex_char (n div 16), hex_char (n mod 16)])"

definition dumps_str :: "string \<Rightarrow> string" where
  "dumps_str x = CHR 0x22 # concat (map esc_char x) @ [CHR 0x22]"

text \<open>\<open>','.join(items)\<close>.\<close>

fun join_comma :: "string list \<Rightarrow> string" where
  "join_comma [] = []"
| "join_comma [x] = x"
| "join_comma (x # y # xs) = x @ '','' @ join_comma (y # xs)"

fun dumps :: "jvalue \<Rightarrow> string" where
  "dumps JNull = ''null''"
| "dumps (JBool b) = (if b then ''true'' else ''false'')"
| "dumps (JInt i) = int_text i"
| "dumps (JStr x) = dumps_str x"
| "dumps (JList vs) = ''['' @ join_comma (map dumps vs) @ '']''"
| "dumps (JObj kvs) =
     ''{'' @ join_comma (map (\<lambda>(k, v). dumps_str k @ '':'' @ dumps v) (py_dict kvs)) @ ''}''"

text \<open>The body \<open>jsonify\<close> sends: the text and a newline.\<close>

definition jsonify_text :: "jvalue \<Rightarrow> string" where
  "jsonify_text v = dumps v @ [CHR 0x0A]"

text \<open>The value \<open>json.loads\<close> gives back for the text of \<open>v\<close>: the members of each object
  are those of the dict \<open>json.dumps\<close> wrote, in sorted order.\<close>

fun json_norm :: "jvalue \<Rightarrow> jvalue" where
  "json_norm (JList vs) = JList (map json_norm vs)"
| "json_norm (JObj kvs) = JObj (map (\<lambda>(k, v). (k, json_norm v)) (py_dict kvs))"
| "json_norm v = v"

text \<open>A value whose text the decoder reads within the model when it starts at nesting
  depth \<open>d\<close>: every container opened below \<^const>\<open>max_depth\<close>, every integer of at most
  4300 digits.\<close>

fun json_fits :: "nat \<Rightarrow> jvalue \<Rightarrow> bool" where
  "json_fits d (JInt i) = (length (nat_text (nat \<bar>i\<bar>)) \<le> max_str_digits)"
| "json_fits d (JList vs) = (d < max_depth \<and> list_all (json_fits (Suc d)) vs)"
| "json_fits d (JObj kvs) = (d < max_depth \<and> list_all (\<lambda>(k, v). json_fits (Suc d) v) (py_dict kvs))"
| "json_fits d _ = True"


text \<open>The text-level application: a request whose body is the text the client sent
  with \<open>Content-Type: application/json\<close>. Only the views of \<open>/add\<close>, \<open>/update\<close>,
  \<open>/add_answer\<close> and \<open>/update_answer\<close> call \<open>request.get_json()\<close>.\<close>

record text_request =
  treq_method :: http_method
  treq_path :: string
  treq_body :: string

fun reads_body :: "route \<Rightarrow> bool" where
  "reads_body AddComment = True"
| "reads_body (UpdateComment k) = True"
| "reads_body (AddAnswer k) = True"
| "reads_body (UpdateAnswer k) = True"
| "reads_body _ = False"

text \<open>A body that does not decode is \<open>None\<close> for the view, which \<^const>\<open>get_json\<close> turns into
  the 400 of Flask's \<open>on_json_loading_failed\<close>; a body outside the model gives no result
  when a view would read it.\<close>

definition app_text :: "db \<Rightarrow> text_request \<Rightarrow> (http_response \<times> db) option" where
  "app_text s rq =
     (let r = \<lparr>req_method = treq_method rq, req_path = treq_path rq, req_body = None\<rparr> in
      case json_loads (treq_body rq) of
        None \<Rightarrow> None
      | Some (Loaded v) \<Rightarrow> Some (app s (r\<lparr>req_body := Some v\<rparr>))
      | Some Malformed \<Rightarrow> Some (app s r)
      | Some Unmodelled \<Rightarrow>
          (case resolve (treq_method rq) (treq_path rq) of
             Matched rt \<Rightarrow> if reads_body rt then None else Some (app s r)
           | _ \<Rightarrow> Some (app s r)))"

text \<open>The body text of a response: \<open>jsonify\<close>'s text for a JSON response, nothing for
  the automatic \<open>OPTIONS\<close> answer; Werkzeug's HTML error and redirect pages are not
  modelled.\<close>

fun response_text :: "http_response \<Rightarrow> string option" where
  "response_text (JsonResponse c j) = Some (jsonify_text j)"
| "response_text (EmptyResponse c) = Some []"
| "response_text (ErrorPage c) = None"
| "response_text (Redirect q) = None"

subsection \<open>Proof devices\<close>

fun jmode_rank :: "jmode \<Rightarrow> nat" where
  "jmode_rank JValue = 0"
| "jmode_rank _ = 1"

definition rest_shorter :: "string \<Rightarrow> ('v \<times> bool \<times> string) option \<Rightarrow> bool" where
  "rest_shorter s r \<longleftrightarrow> (case r of None \<Rightarrow> True | Some (v, fl, t) \<Rightarrow> length t < length s)"

definition json_stop :: "string \<Rightarrow> bool" where
  "json_stop r \<longleftrightarrow> r = [] \<or> hd r \<in> {CHR '','', CHR '']'', CHR ''}'', CHR 0x0A}"

subsection \<open>Lemmas\<close>

lemma length_skip_ws: "length (skip_ws s) \<le> length s"
  by (simp add: skip_ws_def length_dropWhile_le)

lemma length_skip_tl_skip: "length (skip_ws (tl (skip_ws r))) \<le> length r"
  using length_skip_ws [of "tl (skip_ws r)"] length_skip_ws [of r] by (simp only: length_tl)

lemma scan_str_shorter: "rest_shorter s (scan_str s)"
proof (induction s rule: scan_str.induct)
  case (2 c r)
  consider (q) "(of_char c :: nat) = 34" | (nil) "(of_char c :: nat) = 92" "r = []"
    | (u) e r' where "(of_char c :: nat) = 92" "r = e # r'" "e = CHR ''u''"
    | (esc) e r' where "(of_char c :: nat) = 92" "r = e # r'" "e \<noteq> CHR ''u''"
    | (ctl) "(of_char c :: nat) \<noteq> 34" "(of_char c :: nat) \<noteq> 92" "(of_char c :: nat) < 32"
    | (plain) "(of_char c :: nat) \<noteq> 34" "(of_char c :: nat) \<noteq> 92" "\<not> (of_char c :: nat) < 32"
    by (cases r) auto
  then show ?case
  proof cases
    case q
    then show ?thesis by (simp add: rest_shorter_def)
  next
    case nil
    then show ?thesis by (simp add: rest_shorter_def)
  next
    case u
    show ?thesis
    proof (cases "hex4 r'")
      case (Some n)
      have "rest_shorter (drop 4 r') (scan_str (drop 4 r'))" using 2(1) u Some by simp
      then show ?thesis using u Some by (auto simp: rest_shorter_def split: option.split)
    qed (use u in \<open>simp add: rest_shorter_def\<close>)
  next
    case esc
    show ?thesis
    proof (cases "json_escape e")
      case (Some ch)
      have "rest_shorter r' (scan_str r')" using 2(2) esc Some by simp
      then show ?thesis using esc Some by (auto simp: rest_shorter_def split: option.split)
    qed (use esc in \<open>simp add: rest_shorter_def\<close>)
  next
    case ctl
    then show ?thesis by (simp add: rest_shorter_def)
  next
    case plain
    have "rest_shorter r (scan_str r)" using 2(3) plain by simp
    then show ?thesis using plain by (auto simp: rest_shorter_def split: option.split)
  qed
qed (simp add: rest_shorter_def)

lemma length_dropWhile_tl: "length (dropWhile P (tl xs)) \<le> length xs"
  using length_dropWhile_le [of P "tl xs"] by simp

lemma scan_int_part_shorter: "scan_int_part t = Some (ip, r) \<Longrightarrow> length r < length t"
  by (auto simp: scan_int_part_def length_dropWhile_le le_imp_less_Suc split: list.splits if_splits)

lemma scan_frac_shorter: "length (snd (scan_frac r)) \<le> length r"
  by (auto simp: scan_frac_def length_dropWhile_le le_SucI split: list.splits)

lemma scan_exp_shorter: "length (snd (scan_exp r)) \<le> length r"
  by (auto simp: scan_exp_def Let_def length_dropWhile_le length_dropWhile_tl le_SucI split: list.splits)

lemma scan_number_shorter: "rest_shorter s (scan_number s)"
proof -
  have *: "length (snd (scan_exp (snd (scan_frac r)))) < length s"
    if "scan_int_part t = Some (ip, r)" "length t \<le> length s" for t ip r
    using that(2) scan_int_part_shorter [OF that(1)] scan_frac_shorter [of r]
      scan_exp_shorter [of "snd (scan_frac r)"]
    by linarith
  show ?thesis
    unfolding scan_number_def rest_shorter_def Let_def split_def
    by (cases s) (auto dest: * split: option.split)
qed

lemma scan_const_shorter: "rest_shorter s (scan_const s)"
  using scan_number_shorter [of s]
  by (cases s) (simp_all add: rest_shorter_def scan_const_def diff_less_Suc split: option.splits)

lemma rest_shorter_map [simp]:
  "rest_shorter s (map_option (\<lambda>(v, fl, t). (f v, g fl, t)) r) = rest_shorter s r"
  by (auto simp: rest_shorter_def split: option.splits)

lemma scan_total: "\<exists>r. scan d m s = Some r \<and> rest_shorter s r"
proof (induction "2 * length s + jmode_rank m" arbitrary: d m s rule: less_induct)
  case less
  show ?case
  proof (cases m)
    case JValue
    show ?thesis
    proof (cases s)
      case Nil
      then show ?thesis using JValue by (simp add: scan.simps rest_shorter_def)
    next
      case (Cons c r)
      let ?r1 = "skip_ws r"
      have r1: "length ?r1 < length s" using Cons length_skip_ws [of r] by (simp add: le_imp_less_Suc)
      have "2 * length ?r1 + jmode_rank (if c = CHR ''{'' then JMembers [] else JElems [])
          < 2 * length s + jmode_rank m"
        using r1 JValue by simp
      then obtain x where x: "scan (Suc d) (if c = CHR ''{'' then JMembers [] else JElems []) ?r1 = Some x"
        "rest_shorter ?r1 x"
        using less [where m = "if c = CHR ''{'' then JMembers [] else JElems []" and s = ?r1 and d = "Suc d"]
        by blast
      have tl: "length (tl ?r1) < length s" using r1 by simp
      consider (str) "(of_char c :: nat) = 34" | (cont) "(of_char c :: nat) \<noteq> 34" "c = CHR ''{'' \<or> c = CHR ''[''"
        | (const) "(of_char c :: nat) \<noteq> 34" "c \<noteq> CHR ''{''" "c \<noteq> CHR ''[''"
        by blast
      then show ?thesis
      proof cases
        case str
        then show ?thesis
          using JValue Cons scan_str_shorter [of r]
          by (auto simp: scan.simps [of d JValue] rest_shorter_def split: option.splits)
      next
        case cont
        then show ?thesis
          using JValue Cons x r1 tl
          by (auto simp: scan.simps [of d JValue] Let_def rest_shorter_def split: option.splits prod.splits)
      next
        case const
        then show ?thesis
          using JValue Cons scan_const_shorter [of s] by (simp add: scan.simps [of d JValue])
      qed
    qed
  next
    case (JElems acc)
    obtain res where res: "scan d JValue s = Some res" "rest_shorter s res"
      using less [where m = JValue and s = s and d = d] JElems by auto
    show ?thesis
    proof (cases res)
      case None
      then show ?thesis using JElems res by (simp add: scan.simps [of d "JElems acc"] rest_shorter_def)
    next
      case (Some a)
      then obtain v fl r where a: "res = Some (v, fl, r)" by (cases a) auto
      let ?t = "skip_ws (tl (skip_ws r))"
      have t: "length ?t < length s"
        using res(2) a length_skip_tl_skip [of r] by (simp add: rest_shorter_def)
      then obtain y where y: "scan d (JElems (acc @ [v])) ?t = Some y" "rest_shorter ?t y"
        using less [where m = "JElems (acc @ [v])" and s = ?t and d = d] JElems by auto
      have "length (tl (skip_ws r)) < length s"
        using res(2) a length_skip_ws [of r] by (simp add: rest_shorter_def)
      then show ?thesis
        using JElems res a y t
        by (auto simp: scan.simps [of d "JElems acc"] Let_def rest_shorter_def split: option.splits)
    qed
  next
    case (JMembers acc)
    show ?thesis
    proof (cases "s \<noteq> [] \<and> (of_char (hd s) :: nat) = 34")
      case False
      then have "scan d m s = Some None" using JMembers by (subst scan.simps) auto
      then show ?thesis by (simp add: rest_shorter_def)
    next
      case True
      show ?thesis
      proof (cases "scan_str (tl s)")
        case None
        then show ?thesis using JMembers True by (simp add: scan.simps [of d "JMembers acc"] rest_shorter_def)
      next
        case (Some a)
        then obtain k fk r where k: "scan_str (tl s) = Some (k, fk, r)" by (cases a) auto
        let ?u = "skip_ws (tl (skip_ws r))"
        have u: "length ?u < length s"
          using True k scan_str_shorter [of "tl s"] length_skip_tl_skip [of r]
          by (simp add: rest_shorter_def)
        then obtain res where res: "scan d JValue ?u = Some res" "rest_shorter ?u res"
          using less [where m = JValue and s = ?u and d = d] JMembers by auto
        show ?thesis
        proof (cases res)
          case None
          then show ?thesis
            using JMembers True k res by (simp add: scan.simps [of d "JMembers acc"] Let_def rest_shorter_def)
        next
          case (Some b)
          then obtain v fl r2 where b: "res = Some (v, fl, r2)" by (cases b) auto
          let ?t = "skip_ws (tl (skip_ws r2))"
          have t: "length ?t < length s"
            using res(2) b u length_skip_tl_skip [of r2] by (simp add: rest_shorter_def)
          then obtain y where y: "scan d (JMembers (acc @ [(k, v)])) ?t = Some y" "rest_shorter ?t y"
            using less [where m = "JMembers (acc @ [(k, v)])" and s = ?t and d = d] JMembers by auto
          have "length (tl (skip_ws r2)) < length s"
            using res(2) b u length_skip_ws [of r2] by (simp add: rest_shorter_def)
          then show ?thesis
            using JMembers True k res b y t
            by (simp add: scan.simps [of d "JMembers acc"] Let_def rest_shorter_def split: option.splits prod.splits)
        qed
      qed
    qed
  qed
qed

lemma char_of_of_char_eq: "(of_char c :: nat) = n \<Longrightarrow> char_of n = c"
  by (drule sym) (simp add: char_of_eq_iff take_bit_eq_mod)

lemma hex_value_hex_char: "k < 16 \<Longrightarrow> hex_value (hex_char k) = Some k"
  by (auto simp: hex_value_def hex_char_def Let_def)

lemma scan_str_esc_char:
  "scan_str (esc_char c @ t) = map_option (\<lambda>(x, fl, r). (c # x, fl, r)) (scan_str t)"
proof -
  define n where "n = (of_char c :: nat)"
  have n: "n < 256" "char_of n = c" using char_of_of_char_eq by (auto simp: n_def)
  have bs: "(of_char (CHR 0x5C) :: nat) = 92" by simp
  have lit: "c = CHR 0x22 \<longleftrightarrow> n = 34" "c = CHR 0x5C \<longleftrightarrow> n = 92" "c = CHR 0x08 \<longleftrightarrow> n = 8"
    "c = CHR 0x0C \<longleftrightarrow> n = 12" "c = CHR 0x0A \<longleftrightarrow> n = 10" "c = CHR 0x0D \<longleftrightarrow> n = 13"
    "c = CHR 0x09 \<longleftrightarrow> n = 9"
    by (auto simp: n_def intro: of_char_eqI)
  consider (q) "c = CHR 0x22 \<or> c = CHR 0x5C" | (ctl) "c = CHR 0x08 \<or> c = CHR 0x0C \<or> c = CHR 0x0A \<or> c = CHR 0x0D \<or> c = CHR 0x09"
    | (plain) "n \<noteq> 34" "n \<noteq> 92" "32 \<le> n" "n \<le> 126"
    | (hex) "n \<noteq> 34" "n \<noteq> 92" "n \<noteq> 8" "n \<noteq> 12" "n \<noteq> 10" "n \<noteq> 13" "n \<noteq> 9" "\<not> (32 \<le> n \<and> n \<le> 126)"
    unfolding lit by auto
  then show ?thesis
  proof cases
    case q
    then show ?thesis by (auto simp: esc_char_def json_escape_def Let_def)
  next
    case ctl
    then show ?thesis by (auto simp: esc_char_def json_escape_def Let_def)
  next
    case plain
    then show ?thesis by (simp add: esc_char_def n_def [symmetric])
  next
    case hex
    have "hex4 (CHR ''0'' # CHR ''0'' # hex_char (n div 16) # hex_char (n mod 16) # t) = Some n"
    proof -
      have "n div 16 < 16" "n mod 16 < (16::nat)" using n(1) by simp_all
      moreover have "hex_value CHR ''0'' = Some 0" by (simp add: hex_value_def)
      ultimately show ?thesis by (simp add: hex4_def hex_value_hex_char)
    qed
    then show ?thesis
      using hex n by (simp add: esc_char_def n_def [symmetric])
  qed
qed

lemma scan_str_dumps_str:
  "scan_str (tl (dumps_str x) @ r) = Some (x, False, r)"
proof (induction x)
  case Nil
  then show ?case by (simp add: dumps_str_def)
next
  case (Cons c x)
  then show ?case using scan_str_esc_char [of c "concat (map esc_char x) @ CHR 0x22 # r"]
    by (simp add: dumps_str_def)
qed

lemma nat_text_zero_hd: "nat_text n = CHR ''0'' # cs \<Longrightarrow> n = 0 \<and> cs = []"
proof (induction n arbitrary: cs rule: nat_text.induct)
  case (1 n)
  show ?case
  proof (cases "n < 10")
    case True
    then show ?thesis using 1(2)
      by (subst (asm) nat_text.simps) (auto simp: digit_char_def dest: arg_cong [where f = "of_char :: char \<Rightarrow> nat"])
  next
    case False
    obtain c' cs' where "nat_text (n div 10) = c' # cs'" by (cases "nat_text (n div 10)") auto
    then show ?thesis using 1 False by (subst (asm) (2) nat_text.simps) auto
  qed
qed

lemma json_stop_cases: "json_stop r \<Longrightarrow> r = [] \<or> (\<not> is_digit (hd r) \<and> hd r \<noteq> CHR ''.'' \<and> hd r \<noteq> CHR ''e'' \<and> hd r \<noteq> CHR ''E'')"
  by (auto simp: json_stop_def is_digit_def)

lemma scan_int_part_nat_text:
  assumes "json_stop r"
  shows "scan_int_part (nat_text n @ r) = Some (nat_text n, r)"
proof -
  obtain c cs where c: "nat_text n = c # cs" by (cases "nat_text n") auto
  have d: "is_digit c" "list_all is_digit cs" using nat_text_digits [of n] c by simp_all
  have tw: "takeWhile is_digit (cs @ r) = cs" "dropWhile is_digit (cs @ r) = r"
    using d(2) json_stop_cases [OF assms]
    by (auto simp: takeWhile_append2 dropWhile_append2 list_all_iff takeWhile_eq_Nil_iff
        dropWhile_eq_self_iff)
  show ?thesis
  proof (cases "c = CHR ''0''")
    case True
    then show ?thesis using c nat_text_zero_hd [of n cs] by (simp add: scan_int_part_def)
  next
    case False
    then show ?thesis using c d tw by (simp add: scan_int_part_def)
  qed
qed

lemma scan_frac_stop: "json_stop r \<Longrightarrow> scan_frac r = (False, r)"
  using json_stop_cases [of r] by (auto simp: scan_frac_def split: list.split)

lemma scan_exp_stop: "json_stop r \<Longrightarrow> scan_exp r = (False, r)"
  using json_stop_cases [of r] by (auto simp: scan_exp_def split: list.split)

lemma scan_number_int_text:
  assumes "json_stop r" "length (nat_text (nat \<bar>i\<bar>)) \<le> max_str_digits"
  shows "scan_number (int_text i @ r) = Some (JInt i, False, r)"
proof -
  obtain c cs where c: "nat_text (nat \<bar>i\<bar>) = c # cs" by (cases "nat_text (nat \<bar>i\<bar>)") auto
  have "c \<noteq> CHR ''-''" using nat_text_digits [of "nat \<bar>i\<bar>"] c by (auto simp: is_digit_def)
  then show ?thesis
    using assms c scan_int_part_nat_text [OF assms(1), of "nat \<bar>i\<bar>"]
      scan_frac_stop [OF assms(1)] scan_exp_stop [OF assms(1)] digits_value_nat_text [of "nat \<bar>i\<bar>"]
    by (cases "i < 0") (auto simp: scan_number_def int_text_def)
qed

lemma scan_const_int_text:
  assumes "json_stop r" "length (nat_text (nat \<bar>i\<bar>)) \<le> max_str_digits"
  shows "scan_const (int_text i @ r) = Some (JInt i, False, r)"
proof -
  obtain c cs where c: "nat_text (nat \<bar>i\<bar>) = c # cs" by (cases "nat_text (nat \<bar>i\<bar>)") auto
  have "is_digit c" using nat_text_digits [of "nat \<bar>i\<bar>"] c by simp
  then have "c \<notin> {CHR ''n'', CHR ''t'', CHR ''f'', CHR ''N'', CHR ''I'', CHR ''-''}"
    by (auto simp: is_digit_def)
  then show ?thesis
    using scan_number_int_text [OF assms] c
    by (cases "i < 0") (simp_all add: scan_const_def int_text_def)
qed

lemma dumps_str_Cons: "dumps_str x = CHR 0x22 # tl (dumps_str x)"
  by (simp add: dumps_str_def)

lemma dumps_str_append [simp]:
  "hd (dumps_str x @ t) = CHR 0x22" "tl (dumps_str x @ t) = tl (dumps_str x) @ t" "dumps_str x @ t \<noteq> []"
  by (simp_all add: dumps_str_def)

lemma dumps_Cons: "\<exists>c cs. dumps v = c # cs \<and> \<not> json_ws c \<and> c \<noteq> CHR '']'' \<and> c \<noteq> CHR ''}''"
proof (cases v)
  case (JInt i)
  obtain c cs where c: "nat_text (nat \<bar>i\<bar>) = c # cs" by (cases "nat_text (nat \<bar>i\<bar>)") auto
  have "is_digit c" using nat_text_digits [of "nat \<bar>i\<bar>"] c by simp
  then show ?thesis using JInt c by (auto simp: int_text_def json_ws_def is_digit_def)
qed (auto simp: json_ws_def dumps_str_def)

lemma skip_ws_dumps: "skip_ws (dumps v @ r) = dumps v @ r"
  using dumps_Cons [of v] by (auto simp: skip_ws_def)

lemma join_comma_Cons: "\<exists>t. join_comma (x # xs) = x @ t"
  by (cases xs) auto

lemma skip_ws_join_dumps: "skip_ws (join_comma (map dumps (v # vs)) @ r) = join_comma (map dumps (v # vs)) @ r"
proof -
  obtain t where "join_comma (map dumps (v # vs)) = dumps v @ t" using join_comma_Cons by fastforce
  then show ?thesis using skip_ws_dumps [of v "t @ r"] by simp
qed

lemma skip_ws_stop [simp]: "skip_ws (CHR '','' # r) = CHR '','' # r" "skip_ws (CHR '']'' # r) = CHR '']'' # r"
  "skip_ws (CHR ''}'' # r) = CHR ''}'' # r" "skip_ws (CHR '':'' # r) = CHR '':'' # r"
  "skip_ws [CHR 0x0A] = []"
  by (simp_all add: skip_ws_def json_ws_def)

lemma json_stop_simps [simp]: "json_stop (CHR '','' # r)" "json_stop (CHR '']'' # r)"
  "json_stop (CHR ''}'' # r)" "json_stop [CHR 0x0A]"
  by (simp_all add: json_stop_def)

lemma scan_elems_dumps:
  assumes "vs \<noteq> []"
    and "\<And>v r. v \<in> set vs \<Longrightarrow> json_stop r \<Longrightarrow> scan d JValue (dumps v @ r) = Some (Some (json_norm v, False, r))"
  shows "scan d (JElems acc) (join_comma (map dumps vs) @ CHR '']'' # r) =
    Some (Some (JList (acc @ map json_norm vs), False, r))"
  using assms
proof (induction vs arbitrary: acc)
  case (Cons v vs)
  have v: "scan d JValue (dumps v @ t) = Some (Some (json_norm v, False, t))" if "json_stop t" for t
    using Cons.prems(2) that by simp
  show ?case
  proof (cases "vs = []")
    case True
    then show ?thesis using v [of "CHR '']'' # r"] by (simp add: scan.simps [of d "JElems acc"])
  next
    case False
    then obtain w ws where w: "vs = w # ws" by (cases vs) auto
    have ih: "scan d (JElems (acc @ [json_norm v])) (join_comma (map dumps vs) @ CHR '']'' # r) =
        Some (Some (JList (acc @ [json_norm v] @ map json_norm vs), False, r))"
      using Cons.IH [of "acc @ [json_norm v]"] Cons.prems(2) False by simp
    then show ?thesis
      using v [of "CHR '','' # join_comma (map dumps vs) @ CHR '']'' # r"] w skip_ws_join_dumps [of w ws]
      by (simp add: scan.simps [of d "JElems acc"])
  qed
qed simp

lemma scan_members_dumps:
  assumes "kvs \<noteq> []"
    and "\<And>k v r. (k, v) \<in> set kvs \<Longrightarrow> json_stop r \<Longrightarrow>
           scan d JValue (dumps v @ r) = Some (Some (json_norm v, False, r))"
  shows "scan d (JMembers acc) (join_comma (map (\<lambda>(k, v). dumps_str k @ '':'' @ dumps v) kvs) @ CHR ''}'' # r) =
    Some (Some (JObj (acc @ map (\<lambda>(k, v). (k, json_norm v)) kvs), False, r))"
  using assms
proof (induction kvs arbitrary: acc)
  case (Cons kv kvs)
  obtain k v where kv: "kv = (k, v)" by (cases kv)
  have v: "scan d JValue (dumps v @ t) = Some (Some (json_norm v, False, t))" if "json_stop t" for t
    using Cons.prems(2) [of k v t] that kv by simp
  show ?case
  proof (cases "kvs = []")
    case True
    then show ?thesis
      using v [of "CHR ''}'' # r"] kv skip_ws_dumps [of v "CHR ''}'' # r"]
      by (simp add: scan.simps [of d "JMembers acc"] scan_str_dumps_str)
  next
    case False
    then obtain w ws where w: "kvs = w # ws" by (cases kvs) auto
    obtain t where t: "join_comma (map (\<lambda>(k, v). dumps_str k @ '':'' @ dumps v) kvs) = (case w of (k, v) \<Rightarrow> dumps_str k @ '':'' @ dumps v) @ t"
      using join_comma_Cons w by fastforce
    have "scan d JValue (dumps v' @ t) = Some (Some (json_norm v', False, t))"
      if "(k', v') \<in> set kvs" "json_stop t" for k' v' t
      using Cons.prems(2) [of k' v' t] that by simp
    then have ih: "scan d (JMembers (acc @ [(k, json_norm v)])) (join_comma (map (\<lambda>(k, v). dumps_str k @ '':'' @ dumps v) kvs) @ CHR ''}'' # r) =
        Some (Some (JObj (acc @ [(k, json_norm v)] @ map (\<lambda>(k, v). (k, json_norm v)) kvs), False, r))"
      using Cons.IH [of "acc @ [(k, json_norm v)]", OF False] by simp
    have hd: "skip_ws (join_comma (map (\<lambda>(k, v). dumps_str k @ '':'' @ dumps v) kvs) @ CHR ''}'' # r) = join_comma (map (\<lambda>(k, v). dumps_str k @ '':'' @ dumps v) kvs) @ CHR ''}'' # r"
      using t by (cases w) (simp add: dumps_str_def skip_ws_def json_ws_def)
    let ?rest = "CHR '','' # join_comma (map (\<lambda>(k, v). dumps_str k @ '':'' @ dumps v) kvs) @ CHR ''}'' # r"
    show ?thesis
      using v [of ?rest] kv ih hd w skip_ws_dumps [of v ?rest]
      by (simp add: scan.simps [of d "JMembers acc"] scan_str_dumps_str)
  qed
qed simp

lemma scan_dumps:
  "json_fits d v \<Longrightarrow> json_stop r \<Longrightarrow> scan d JValue (dumps v @ r) = Some (Some (json_norm v, False, r))"
proof (induction v arbitrary: d r)
  case JNull
  then show ?case by (simp add: scan.simps [of d JValue] scan_const_def)
next
  case (JBool b)
  then show ?case by (cases b) (simp_all add: scan.simps [of d JValue] scan_const_def)
next
  case (JInt i)
  obtain c cs where c: "nat_text (nat \<bar>i\<bar>) = c # cs" by (cases "nat_text (nat \<bar>i\<bar>)") auto
  have "is_digit c" using nat_text_digits [of "nat \<bar>i\<bar>"] c by simp
  then have "(of_char c :: nat) \<noteq> 34 \<and> c \<noteq> CHR ''{'' \<and> c \<noteq> CHR ''[''" by (auto simp: is_digit_def)
  then show ?case
    using JInt scan_const_int_text [of r i] c
    by (cases "i < 0") (simp_all add: scan.simps [of d JValue] int_text_def)
next
  case (JStr x)
  have eq: "dumps_str x @ r = CHR 0x22 # tl (dumps_str x) @ r" by (simp add: dumps_str_def)
  show ?case unfolding dumps.simps eq by (simp add: scan.simps [of d JValue] scan_str_dumps_str)
next
  case (JList vs)
  show ?case
  proof (cases "vs = []")
    case True
    then show ?thesis using JList.prems by (simp add: scan.simps [of d JValue] max_depth_def)
  next
    case False
    then obtain w ws where w: "vs = w # ws" by (cases vs) auto
    obtain c cs where c: "dumps w = c # cs" "c \<noteq> CHR '']''" using dumps_Cons [of w] by blast
    have "scan (Suc d) (JElems []) (join_comma (map dumps vs) @ CHR '']'' # r) =
        Some (Some (JList (map json_norm vs), False, r))"
      using scan_elems_dumps [OF False, of "Suc d" "[]" r] JList by (simp add: list_all_iff)
    moreover obtain t where "join_comma (map dumps vs) = dumps w @ t" using join_comma_Cons w by fastforce
    ultimately show ?thesis
      using JList.prems c w skip_ws_join_dumps [of w ws "CHR '']'' # r"]
      by (simp add: scan.simps [of d JValue] Let_def)
  qed
next
  case (JObj kvs)
  show ?case
  proof (cases "py_dict kvs = []")
    case True
    then show ?thesis using JObj.prems by (simp add: scan.simps [of d JValue] max_depth_def)
  next
    case False
    have "scan (Suc d) (JMembers []) (join_comma (map (\<lambda>(k, v). dumps_str k @ '':'' @ dumps v) (py_dict kvs)) @ CHR ''}'' # r) =
        Some (Some (JObj (map (\<lambda>(k, v). (k, json_norm v)) (py_dict kvs)), False, r))"
      using scan_members_dumps [OF False, of "Suc d" "[]" r] JObj set_py_dict [of kvs]
      by (fastforce simp: list_all_iff)
    moreover obtain w ws where "py_dict kvs = w # ws" using False by (cases "py_dict kvs") auto
    moreover obtain t where "join_comma (map (\<lambda>(k, v). dumps_str k @ '':'' @ dumps v) (py_dict kvs)) =
        (case w of (k, v) \<Rightarrow> dumps_str k @ '':'' @ dumps v) @ t"
      using join_comma_Cons calculation(2) by fastforce
    ultimately show ?thesis
      using JObj.prems by (cases w) (simp add: scan.simps [of d JValue] Let_def dumps_str_def skip_ws_def json_ws_def)
  qed
qed

lemma scan_jsonify_text:
  "json_fits 0 v \<Longrightarrow> scan 0 JValue (skip_ws (jsonify_text v)) = Some (Some (json_norm v, False, [CHR 0x0A]))"
  using scan_dumps [of 0 v "[CHR 0x0A]"] skip_ws_dumps [of v "[CHR 0x0A]"] by (simp add: jsonify_text_def)

lemma app_text_Malformed:
  "json_loads t = Some Malformed \<Longrightarrow>
   app_text s \<lparr>treq_method = m, treq_path = p, treq_body = t\<rparr> =
     Some (app s \<lparr>req_method = m, req_path = p, req_body = None\<rparr>)"
  by (simp add: app_text_def)

subsection \<open>Termination and roundtrip of the JSON models\<close>

text \<open>\<open>json.loads\<close> terminates on every body text: the recursive-descent scanner
  returns a value, a decoding error or a value outside the model, never no result.\<close>

lemma json_loads_total: "\<exists>r. json_loads t = Some r"
  using scan_total [of 0 JValue "skip_ws t"] by (auto simp: json_loads_def)

text \<open>\<open>json.loads\<close> reads back the text \<open>jsonify\<close> writes, for every JSON value
  nested less than \<^const>\<open>max_depth\<close> deep with integers of at most 4300 digits: the same
  value, each object as the dict \<open>json.dumps\<close> wrote (last value of a repeated key, keys
  sorted).\<close>

lemma json_loads_jsonify:
  assumes "json_fits 0 v"
  shows "json_loads (jsonify_text v) = Some (Loaded (json_norm v))"
  using scan_jsonify_text [OF assms] by (simp add: json_loads_def)

text \<open>The text-level application refines the value-level one: a request whose body
  is the text \<open>json.dumps\<close> gives for a value \<open>v\<close> is answered as \<^const>\<open>app\<close> answers the
  request carrying the decoded value.\<close>

lemma app_text_jsonify:
  assumes "json_fits 0 v"
  shows "app_text s \<lparr>treq_method = m, treq_path = p, treq_body = jsonify_text v\<rparr> =
    Some (app s \<lparr>req_method = m, req_path = p, req_body = Some (json_norm v)\<rparr>)"
  using scan_jsonify_text [OF assms] by (simp add: app_text_def json_loads_def)

subsection \<open>Properties\<close>

text \<open>C31. A body that is not JSON text makes \<open>POST /add\<close>, and the other views that read
  the body once their row is found, answer 400 with the database unchanged.\<close>

theorem malformed_body_bad_request:
  assumes "json_loads t = Some Malformed" "int k < 2 ^ 63"
    and "rt = AddComment \<or> ((rt = UpdateComment k \<or> rt = AddAnswer k) \<and> tbl_get (user_tbl s) k \<noteq> None)
         \<or> (rt = UpdateAnswer k \<and> tbl_get (answer_tbl s) k \<noteq> None)"
  shows "app_text s \<lparr>treq_method = route_method rt, treq_path = route_path rt, treq_body = t\<rparr> =
    Some (ErrorPage 400, s)"
proof -
  have "route_args_ok rt" using assms(3) nat_text_small [OF assms(2)] by (auto simp: route_args_ok_def)
  then show ?thesis
    using assms app_text_Malformed [OF assms(1)]
    by (auto simp: app_def resolve_route_path handler_defs get_json_def)
qed

text \<open>C32. On a well-formed database, a \<open>POST /add\<close> whose body decodes to
  \<open>{"comment": c}\<close> is answered with exactly the bytes
  \<open>{"answers":[],"comment":c,"id":k}\<close> and a newline, keys in sorted order, where \<open>k\<close>
  is the new question's id; the question is stored.\<close>

theorem add_comment_wire:
  assumes "wf_db s" "json_loads t = Some (Loaded (JObj [(''comment'', JStr c)]))"
  shows "map_option (\<lambda>(r, s'). (response_text r, s'))
           (app_text s \<lparr>treq_method = POST, treq_path = ''/add'', treq_body = t\<rparr>) =
         Some (Some (''{'' @ dumps_str ''answers'' @ '':[],'' @ dumps_str ''comment'' @ '':'' @ dumps_str c @
                     '','' @ dumps_str ''id'' @ '':'' @ nat_text (new_rowid (user_tbl s)) @ ''}'' @ [CHR 0x0A]),
               s\<lparr>user_tbl := user_tbl s @ [(new_rowid (user_tbl s), \<lparr>comment = c\<rparr>)]\<rparr>)"
proof -
  let ?k = "new_rowid (user_tbl s)"
  let ?s' = "s\<lparr>user_tbl := user_tbl s @ [(?k, \<lparr>comment = c\<rparr>)]\<rparr>"
  have "user_answers ?s' ?k = []"
    using wf_user_answers_absent [OF assms(1) new_rowid_fresh] by simp
  then have "app_text s \<lparr>treq_method = POST, treq_path = ''/add'', treq_body = t\<rparr> =
      Some (JsonResponse 200 (JObj [(''id'', JInt (int ?k)), (''comment'', JStr c), (''answers'', JList [])]), ?s')"
    using assms(2)
    by (simp add: app_text_def app_def resolve_add add_comment_def session_add_user_def tbl_insert_def
        dict_lookup_def Let_def dump_user_no_answers)
  then show ?thesis
    by (simp add: jsonify_text_def py_dict_def int_text_def)
qed

subsection \<open>Witnesses\<close>

theorem malformed_body_bad_request_witness:
  "json_loads ''[1,]'' = Some Malformed \<and>
   app_text empty_db \<lparr>treq_method = POST, treq_path = ''/add'', treq_body = ''[1,]''\<rparr> = Some (ErrorPage 400, empty_db)"
proof -
  have h: "json_loads ''[1,]'' = Some Malformed" by code_simp
  show ?thesis using h malformed_body_bad_request [OF h, of 0 AddComment empty_db] by simp
qed

theorem add_comment_wire_witness:
  "wf_db empty_db \<and>
   json_loads (''{'' @ [CHR 0x22] @ ''comment'' @ [CHR 0x22] @ '': '' @ [CHR 0x22] @ ''Is the sky blue?'' @ [CHR 0x22] @ ''}'') =
     Some (Loaded (JObj [(''comment'', JStr ''Is the sky blue?'')])) \<and>
   map_option (\<lambda>(r, s'). (response_text r, s'))
     (app_text empty_db \<lparr>treq_method = POST, treq_path = ''/add'',
        treq_body = ''{'' @ [CHR 0x22] @ ''comment'' @ [CHR 0x22] @ '': '' @ [CHR 0x22] @ ''Is the sky blue?'' @ [CHR 0x22] @ ''}''\<rparr>) =
   Some (Some (''{'' @ [CHR 0x22] @ ''answers'' @ [CHR 0x22] @ '':[],'' @ [CHR 0x22] @ ''comment'' @ [CHR 0x22] @ '':'' @
               [CHR 0x22] @ ''Is the sky blue?'' @ [CHR 0x22] @ '','' @ [CHR 0x22] @ ''id'' @ [CHR 0x22] @ '':1}'' @ [CHR 0x0A]),
         \<lparr>user_tbl = [(1, \<lparr>comment = ''Is the sky blue?''\<rparr>)], answer_tbl = []\<rparr>)"
proof -
  have w: "wf_db empty_db" by (simp add: wf_db_def empty_db_def tbl_ok_def)
  have j: "json_loads (''{'' @ [CHR 0x22] @ ''comment'' @ [CHR 0x22] @ '': '' @ [CHR 0x22] @ ''Is the sky blue?'' @ [CHR 0x22] @ ''}'') =
     Some (Loaded (JObj [(''comment'', JStr ''Is the sky blue?'')]))" by code_simp
  have one: "char_of (49::nat) = CHR ''1''" by code_simp
  show ?thesis
    using add_comment_wire [OF w j]
    by (intro conjI w j) (simp add: one empty_db_def new_rowid_def nat_text.simps digit_char_def dumps_str_def esc_char_def)
qed

end
