(* ===== verification/Http.thy ===== *)
theory Http
  imports JsonText
begin

text \<open>
  The HTTP exchange around the application of \<^verbatim>\<open>src/main.py\<close>. Werkzeug's development
  server, which \<open>app.run\<close> starts, reads the path of the request target (the query and
  fragment cut off, percent-escapes decoded); Flask answers with a \<open>Content-Type\<close>, and
  with an \<open>Allow\<close> header on its automatic \<open>OPTIONS\<close> answer and on a 405; \<open>CORS(app)\<close>
  (line 9) adds the CORS headers of flask_cors's default options to every response,
  error pages included (origins \<open>*\<close>, every method, any requested header, a \<open>Vary\<close>
  header when the origin is echoed, headers sent even without an \<open>Origin\<close>); the server
  sends no body for \<open>HEAD\<close>. Characters are code points below 256: a path whose escapes
  decode to a non-ASCII byte is outside the model.
\<close>

subsection \<open>The request target\<close>

text \<open>\<open>urllib.parse.unquote\<close>: \<open>%XX\<close> with two hex digits (either case) is the byte
  \<open>XX\<close>, any other \<open>%\<close> stays. A byte from 0x80 starts a UTF-8 sequence of a code point
  the model does not reach, and so does a raw non-ASCII character: \<open>None\<close>.\<close>

fun pct_decode :: "string \<Rightarrow> string option" where
  "pct_decode [] = Some []"
| "pct_decode (c # a # b # r) =
     (case (hex_value a, hex_value b) of
        (Some x, Some y) \<Rightarrow>
          if c = CHR ''%'' then
            (if 16 * x + y < 128 then map_option (Cons (char_of (16 * x + y))) (pct_decode r) else None)
          else if (of_char c :: nat) < 128 then map_option (Cons c) (pct_decode (a # b # r)) else None
      | _ \<Rightarrow> if (of_char c :: nat) < 128 then map_option (Cons c) (pct_decode (a # b # r)) else None)"
| "pct_decode (c # r) = (if (of_char c :: nat) < 128 then map_option (Cons c) (pct_decode r) else None)"

text \<open>\<open>urlsplit(self.path).path\<close>, then \<open>unquote\<close>: the path ends at the first \<open>?\<close> or
  \<open>#\<close>. A target that does not start with one slash (an absolute URL, \<open>*\<close>, or a path
  starting with \<open>//\<close>, which \<open>urlsplit\<close> reads as a host) is not modelled.\<close>

definition target_path :: "string \<Rightarrow> string option" where
  "target_path t =
     (if t \<noteq> [] \<and> hd t = CHR ''/'' \<and> \<not> (tl t \<noteq> [] \<and> hd (tl t) = CHR ''/'')
      then pct_decode (takeWhile (\<lambda>c. c \<noteq> CHR ''?'' \<and> c \<noteq> CHR ''#'') t)
      else None)"

subsection \<open>Response headers\<close>

definition method_name :: "http_method \<Rightarrow> string" where
  "method_name m =
     (case m of GET \<Rightarrow> ''GET'' | HEAD \<Rightarrow> ''HEAD'' | POST \<Rightarrow> ''POST'' | PUT \<Rightarrow> ''PUT''
      | PATCH \<Rightarrow> ''PATCH'' | DELETE \<Rightarrow> ''DELETE'' | OPTIONS \<Rightarrow> ''OPTIONS'')"

definition all_methods :: "http_method list" where
  "all_methods = [GET, HEAD, POST, PUT, PATCH, DELETE, OPTIONS]"

text \<open>\<open>MapAdapter.allowed_methods\<close>: the methods of the rules that match the path or,
  as the matcher retries, the path with its slashes merged. Werkzeug writes them into the
  \<open>Allow\<close> header in the iteration order of a set; the model lists them in a fixed
  order, and only their set is meant.\<close>

definition allowed_methods :: "string \<Rightarrow> http_method list" where
  "allowed_methods p =
     (let q = strip_slashes p; ms = matching_rules q @ matching_rules (merge_slashes q) in
      filter (\<lambda>m. list_ex (\<lambda>(r, _). method_allowed m r) ms) all_methods)"

text \<open>The media type: \<open>jsonify\<close>'s \<open>application/json\<close>, and Flask's and Werkzeug's
  HTML default for the automatic \<open>OPTIONS\<close> answer, error pages and redirects.\<close>

fun content_type :: "http_response \<Rightarrow> string" where
  "content_type (JsonResponse c j) = ''application/json''"
| "content_type _ = ''text/html; charset=utf-8''"

fun status_code :: "http_response \<Rightarrow> nat" where
  "status_code (JsonResponse c j) = c"
| "status_code (EmptyResponse c) = c"
| "status_code (ErrorPage c) = c"
| "status_code (Redirect q) = 308"

subsection \<open>CORS\<close>

text \<open>The request headers flask_cors reads.\<close>

record cors_request =
  origin_hdr :: "string option"
  acr_method_hdr :: "string option"
  acr_headers_hdr :: "string option"

text \<open>flask_cors's default \<open>methods\<close>, written by \<open>flexible_str\<close> as the sorted list
  joined by \<open>", "\<close>.\<close>

definition cors_methods :: string where
  "cors_methods = ''DELETE, GET, HEAD, OPTIONS, PATCH, POST, PUT''"

text \<open>\<open>str.upper\<close> on one character: ASCII and Latin-1 small letters, U+00DF as
  \<open>SS\<close>; \<open>None\<close> for U+00B5 and U+00FF, whose capitals lie above U+00FF.\<close>

definition upper_char :: "char \<Rightarrow> string option" where
  "upper_char c =
     (let n = (of_char c :: nat) in
      if (97 \<le> n \<and> n \<le> 122) \<or> (224 \<le> n \<and> n \<le> 254 \<and> n \<noteq> 247) then Some [char_of (n - 32)]
      else if n = 223 then Some ''SS''
      else if n = 181 \<or> n = 255 then None
      else Some [c])"

definition py_upper :: "string \<Rightarrow> string option" where
  "py_upper s = map_option concat (those (map upper_char s))"

text \<open>\<open>str.strip()\<close>: the whitespace of \<open>str.isspace\<close>, the same as \<open>int()\<close>'s.\<close>

definition py_strip :: "string \<Rightarrow> string" where
  "py_strip s = rev (dropWhile int_space (rev (dropWhile int_space s)))"

fun join_sep :: "string \<Rightarrow> string list \<Rightarrow> string" where
  "join_sep d [] = []"
| "join_sep d [x] = x"
| "join_sep d (x # y # xs) = x @ d @ join_sep d (y # xs)"

text \<open>\<open>get_allow_headers\<close>: the requested header names, stripped, all matched by the
  default pattern \<open>.*\<close>, sorted and joined; an empty result sends no header.\<close>

definition allow_headers_value :: "string option \<Rightarrow> string option" where
  "allow_headers_value h =
     (case h of
        None \<Rightarrow> None
      | Some v \<Rightarrow>
          if v = [] then None
          else (let r = join_sep '', '' (sort (map py_strip (split_on CHR '','' v))) in
                if r = [] then None else Some r))"

text \<open>\<open>get_cors_headers\<close> for the default options: the request's origin is echoed
  (\<open>.*\<close> matches it) with \<open>Vary: Origin\<close>, and \<open>*\<close> is sent when the request has no
  origin; a preflight \<open>OPTIONS\<close> whose requested method, upper-cased, occurs in
  \<^const>\<open>cors_methods\<close> (Python's \<open>in\<close> on strings) also gets the allowed headers and
  methods.\<close>

definition cors_headers :: "cors_request \<Rightarrow> http_method \<Rightarrow> (string \<times> string) list" where
  "cors_headers h m =
     (let origin = (case origin_hdr h of Some x \<Rightarrow> if x \<noteq> [] then x else ''*'' | None \<Rightarrow> ''*'');
          preflight =
            (case acr_method_hdr h of
               None \<Rightarrow> False
             | Some a \<Rightarrow> a \<noteq> [] \<and> (case py_upper a of None \<Rightarrow> False | Some u \<Rightarrow> sublist u cors_methods))
      in [(''Access-Control-Allow-Origin'', origin)]
         @ (if m = OPTIONS \<and> preflight then
              (case allow_headers_value (acr_headers_hdr h) of
                 None \<Rightarrow> [] | Some v \<Rightarrow> [(''Access-Control-Allow-Headers'', v)])
              @ [(''Access-Control-Allow-Methods'', cors_methods)]
            else [])
         @ (if origin \<noteq> ''*'' then [(''Vary'', ''Origin'')] else []))"

subsection \<open>The exchange\<close>

record wire_request =
  w_method :: http_method
  w_target :: string
  w_headers :: cors_request
  w_body :: string

text \<open>What the client receives: the status, the headers in the order they are added,
  the methods of the \<open>Allow\<close> header (none when it is absent), and the body (\<open>None\<close> for
  an HTML page, which is not modelled).\<close>

record http_reply =
  reply_status :: nat
  reply_headers :: "(string \<times> string) list"
  reply_allow :: "http_method list"
  reply_body :: "string option"

definition reply :: "wire_request \<Rightarrow> string \<Rightarrow> http_response \<Rightarrow> http_reply" where
  "reply rq p r =
     \<lparr>reply_status = status_code r,
      reply_headers = (''Content-Type'', content_type r) # cors_headers (w_headers rq) (w_method rq),
      reply_allow = (if r = EmptyResponse 200 \<or> r = ErrorPage 405 then allowed_methods p else []),
      reply_body = (if w_method rq = HEAD then Some [] else response_text r)\<rparr>"

text \<open>One request as it arrives on the socket, and the reply and database after it;
  \<open>None\<close> when the target or the body is outside the model.\<close>

definition app_wire :: "db \<Rightarrow> wire_request \<Rightarrow> (http_reply \<times> db) option" where
  "app_wire s rq =
     (case target_path (w_target rq) of
        None \<Rightarrow> None
      | Some p \<Rightarrow>
          map_option (\<lambda>(r, s'). (reply rq p r, s'))
            (app_text s \<lparr>treq_method = w_method rq, treq_path = p, treq_body = w_body rq\<rparr>))"

subsection \<open>Lemmas\<close>

lemma pct_decode_plain:
  "list_all (\<lambda>c. (of_char c :: nat) < 128 \<and> c \<noteq> CHR ''%'') w \<Longrightarrow> pct_decode w = Some w"
  by (induction w rule: pct_decode.induct) (auto split: option.split)

lemma digit_plain: "is_digit c \<Longrightarrow> (of_char c :: nat) < 128 \<and> c \<noteq> CHR ''%'' \<and> c \<noteq> CHR ''?'' \<and> c \<noteq> CHR ''#''"
  by (auto simp: is_digit_def)

lemma nat_text_plain:
  "list_all (\<lambda>c. (of_char c :: nat) < 128 \<and> c \<noteq> CHR ''%'' \<and> c \<noteq> CHR ''?'' \<and> c \<noteq> CHR ''#'') (nat_text k)"
  using nat_text_digits [of k] digit_plain by (auto simp: list_all_iff)

lemma target_path_route: "target_path (route_path rt) = Some (route_path rt)"
proof -
  have plain: "list_all (\<lambda>c. (of_char c :: nat) < 128 \<and> c \<noteq> CHR ''%'' \<and> c \<noteq> CHR ''?'' \<and> c \<noteq> CHR ''#'') (route_path rt)"
    using nat_text_plain by (cases rt) simp_all
  then have tw: "takeWhile (\<lambda>c. c \<noteq> CHR ''?'' \<and> c \<noteq> CHR ''#'') (route_path rt) = route_path rt"
    by (simp add: takeWhile_eq_all_conv list_all_iff)
  have pd: "pct_decode (route_path rt) = Some (route_path rt)"
    by (rule pct_decode_plain) (use plain in \<open>simp add: list_all_iff\<close>)
  have "route_path rt \<noteq> [] \<and> hd (route_path rt) = CHR ''/'' \<and> \<not> (tl (route_path rt) \<noteq> [] \<and> hd (tl (route_path rt)) = CHR ''/'')"
    by (cases rt) simp_all
  then show ?thesis unfolding target_path_def tw pd by simp
qed

lemma allowed_methods_route:
  "set (allowed_methods (route_path rt)) = {route_method rt, OPTIONS} \<union> (if rt = Home then {HEAD} else {})"
  unfolding allowed_methods_def Let_def route_path_slashes matching_rules_def route_path_segments
  by (cases rt) (auto simp: url_map_def map_filter_def method_allowed_def all_methods_def nat_text_digits)

lemma method_in_cors: "py_upper (method_name m) = Some (method_name m) \<and> sublist (method_name m) cors_methods"
  by (cases m) (simp_all add: method_name_def cors_methods_def py_upper_def upper_char_def; code_simp)+

lemma method_name_not_Nil: "method_name m \<noteq> []"
  by (cases m) (simp_all add: method_name_def)

lemma json_loads_Nil: "json_loads [] = Some Malformed"
  by (simp add: json_loads_def skip_ws_def scan.simps)

text \<open>The preflight test is Python's substring \<open>in\<close>: a requested method that is only
  a piece of the list, such as \<open>et\<close>, is accepted as well.\<close>

lemma cors_substring_method:
  "cors_headers \<lparr>origin_hdr = None, acr_method_hdr = Some ''et'', acr_headers_hdr = None\<rparr> OPTIONS =
     [(''Access-Control-Allow-Origin'', ''*''), (''Access-Control-Allow-Methods'', cors_methods)]"
  by code_simp

subsection \<open>Properties\<close>

text \<open>C33. A browser's CORS preflight for any route succeeds from any origin: \<open>OPTIONS\<close> on
  the route's URL, asking for the route's method and the \<open>Content-Type\<close> header, is
  answered 200 with no body, the origin echoed with \<open>Vary: Origin\<close>, the header and the
  method allowed, and an \<open>Allow\<close> header listing exactly the route's methods and
  \<open>OPTIONS\<close>; nothing is stored.\<close>

theorem cors_preflight:
  assumes "route_args_ok rt" "origin \<noteq> []"
  shows "app_wire s \<lparr>w_method = OPTIONS, w_target = route_path rt,
            w_headers = \<lparr>origin_hdr = Some origin, acr_method_hdr = Some (method_name (route_method rt)),
                         acr_headers_hdr = Some ''Content-Type''\<rparr>, w_body = []\<rparr> =
      Some (\<lparr>reply_status = 200,
              reply_headers = [(''Content-Type'', ''text/html; charset=utf-8''),
                (''Access-Control-Allow-Origin'', origin), (''Access-Control-Allow-Headers'', ''Content-Type''),
                (''Access-Control-Allow-Methods'', cors_methods)] @
                (if origin \<noteq> ''*'' then [(''Vary'', ''Origin'')] else []),
              reply_allow = allowed_methods (route_path rt), reply_body = Some []\<rparr>, s)
    \<and> set (allowed_methods (route_path rt)) = {route_method rt, OPTIONS} \<union> (if rt = Home then {HEAD} else {})"
proof -
  have app: "app_text s \<lparr>treq_method = OPTIONS, treq_path = route_path rt, treq_body = []\<rparr> =
      Some (EmptyResponse 200, s)"
    using resolve_options_route [OF assms(1)] by (simp add: app_text_def json_loads_Nil app_def)
  have hdr: "allow_headers_value (Some ''Content-Type'') = Some ''Content-Type''"
    by (simp add: allow_headers_value_def py_strip_def int_space_def)
  show ?thesis
    using app hdr assms(2) method_in_cors [of "route_method rt"] allowed_methods_route [of rt]
    method_name_not_Nil [of "route_method rt"]
    by (simp add: app_wire_def target_path_route reply_def cors_headers_def Let_def)
qed

subsection \<open>Witnesses\<close>

theorem cors_preflight_witness:
  "route_args_ok (UpdateComment 7) \<and>
   app_wire empty_db \<lparr>w_method = OPTIONS, w_target = ''/update/7'',
       w_headers = \<lparr>origin_hdr = Some ''https://client.example'', acr_method_hdr = Some ''PATCH'',
                    acr_headers_hdr = Some ''Content-Type''\<rparr>, w_body = []\<rparr> =
     Some (\<lparr>reply_status = 200,
             reply_headers = [(''Content-Type'', ''text/html; charset=utf-8''),
               (''Access-Control-Allow-Origin'', ''https://client.example''),
               (''Access-Control-Allow-Headers'', ''Content-Type''),
               (''Access-Control-Allow-Methods'', cors_methods), (''Vary'', ''Origin'')],
             reply_allow = allowed_methods ''/update/7'', reply_body = Some []\<rparr>, empty_db)"
proof -
  have ok: "route_args_ok (UpdateComment 7)" by (simp add: route_args_ok_def max_str_digits_def nat_text.simps)
  have p: "route_path (UpdateComment 7) = ''/update/7''" by (simp add: nat_text.simps digit_char_def) code_simp
  show ?thesis
    using cors_preflight [OF ok, of "''https://client.example''" empty_db] ok p
    by (simp add: method_name_def)
qed

end
