(* ===== verification/Spec2Isabelle.thy ===== *)
theory Spec2Isabelle
  imports Board Bootstrap Lifecycle Http
begin

text \<open>
  \<^bold>\<open>A verified model of the question-and-answer board of \<^verbatim>\<open>src/main.py\<close>.\<close>

  The program is a Flask application with two SQLAlchemy models on SQLite: \<open>User\<close>
  (a question: \<open>id\<close>, \<open>comment\<close>) and \<open>Answer\<close> (\<open>id\<close>, \<open>answer\<close>,
  \<open>question_id\<close>), with the relationship \<open>User.answers\<close> cascading deletes, two
  marshmallow schemas that render them as JSON, and seven routes (\<open>/add\<close>,
  \<open>/home\<close>, \<open>/delete/<id>\<close>, \<open>/update/<id>\<close>, \<open>/add_answer/<id>\<close>,
  \<open>/delete_answer/<id>\<close>, \<open>/update_answer/<id>\<close>) that read a JSON body, look rows up,
  write through the ORM session and commit once. Flask dispatches each request to a
  route; an exception escaping a route becomes an error page and the request's session
  is rolled back.

  \<^bold>\<open>Theories.\<close>
  \<^item> \<open>Prelude\<close>: the exceptions a handler can raise (\<open>exc\<close>), their propagation
    (\<open>ok_bind\<close>), the decimal text of numbers (Python's \<open>str(int)\<close>, Werkzeug's
    \<open>int\<close> converter), the collections \<open>db_simps\<close> and \<open>wf_intros\<close>.
  \<^item> \<open>Json\<close>: the decoded body (\<open>jvalue\<close>), \<open>request.get_json()\<close>, and Python's
    \<open>data[k]\<close> (\<open>py_getitem\<close>) and \<open>k in data\<close> (\<open>py_contains\<close>) on every JSON
    value, raising \<open>KeyError\<close>/\<open>TypeError\<close> where Python does.
  \<^item> \<open>Table\<close>: a SQLite table keyed by an \<open>INTEGER PRIMARY KEY\<close> (the rowid) as the
    list of its rows in rowid order; a new row gets the largest rowid plus one
    (\<open>new_rowid\<close>); lookups, deletes and updates refine the map \<open>tbl_get\<close>.
  \<^item> \<open>Store\<close>: the models \<open>User\<close>, \<open>Answer\<close> (records), the database \<open>db\<close> (the two
    tables), \<open>db.create_all()\<close> (\<open>empty_db\<close>), the column binding of a JSON value
    with SQLite's TEXT affinity and NOT NULL (\<open>bind_text\<close>), \<open>Model.query.get\<close>
    with the 64-bit bound of a bound parameter, the relationship \<open>user_answers\<close>, and
    one \<open>session_*\<close> operation per add/delete/attribute-set plus commit of the routes,
    the delete of a user cascading to its answers. \<open>wf_db\<close> is the database invariant:
    both tables ordered by unique positive ids, every answer's \<open>question_id\<close> an
    existing question (the foreign key, which SQLite does not enforce by default).
  \<^item> \<open>Schema\<close>: \<open>AnswerSchema\<close>, \<open>UserSchema\<close> (answers nested) and
    \<open>users_schema\<close> as \<open>dump_answer\<close>, \<open>dump_user\<close>, \<open>dump_users\<close>; the declared
    field types of both schemas (\<open>answer_ty\<close>, \<open>user_ty\<close>) over a small type language
    of JSON (\<open>jtype\<close>) with the typing judgement \<open>has_type\<close> (a \<open>function\<close> whose
    termination is proved by a measure on the value), and the typing of every dump.
  \<^item> \<open>Handlers\<close>: the seven route functions, statement by statement
    (\<open>add_comment\<close>, \<open>home\<close>, \<open>delete_comment\<close>, \<open>update_comment\<close>,
    \<open>add_answer\<close>, \<open>delete_answer\<close>, \<open>update_answer\<close>), each returning the exception
    or the response with the committed database; the characterisation of every
    successful branch (\<open>*_Inr\<close>), invariant preservation, the body type of every
    response (\<open>*_type\<close>, with \<open>error_ty\<close> and \<open>message_ty\<close> for the two dict
    literals), and the behavioural theorems.
  \<^item> \<open>App\<close>: the URL map of the decorators, Werkzeug's matching (\<open>resolve\<close>: leading
    slashes collapsed, the whole path matched, \<open><int:...>\<close> as ASCII digits read by
    \<open>int()\<close> with its 4300-digit limit, automatic \<open>HEAD\<close> and \<open>OPTIONS\<close>, 404/405,
    and the 308 redirect to the path with doubled slashes merged), the
    mapping of exceptions to 400/500 with rollback (\<open>finish\<close>), one request
    (\<open>app\<close>), a sequence of requests (\<open>serve\<close>), and the reachable databases
    (\<open>reachable\<close>, an inductive predicate) with the invariant proved by rule induction;
    the response contract of the specification (\<open>response_ty\<close>: the body type per
    route and status) and its proof for every JSON response.
  \<^item> \<open>Board\<close>: the abstract contract of the specification, a board mapping each
    question id to its comment and the ordered answers it owns, with one abstract
    operation per route (\<open>b_*\<close>) and the abstract step relation \<open>board_step\<close>; the
    abstraction \<open>abs_db\<close> of the two tables, a refinement lemma \<open>abs_db (op s) =
    b_op (abs_db s)\<close> for every ORM operation, the simulation of every committed
    handler step by an abstract step, and the completeness of the abstraction on
    well-formed stores (every answer row is on the board).
  \<^item> \<open>PyInt\<close>: Python's \<open>int()\<close> on a \<open>str\<close> (\<open>py_int_str\<close>: whitespace, one sign,
    single underscores between digits, the 4300-digit limit \<open>max_str_digits\<close> of
    Python 3.11 and later), shared by the port reading and the JSON decoder.
  \<^item> \<open>Bootstrap\<close>: the configuration (\<open>os.path.join\<close> as \<open>posix_join\<close>, the
    \<open>sqlite:///\<close> URL, \<open>app.config\<close>) and the \<open>__main__\<close> block as \<open>main\<close>:
    \<open>db.create_all()\<close> keeping an existing file (\<open>create_all\<close>),
    \<open>int(os.environ.get("PORT", 5000))\<close> (\<open>env_port\<close>), and \<open>app.run\<close> resolving
    the address with \<open>getaddrinfo\<close> (\<open>getaddrinfo_port\<close>: CPython's C \<open>long\<close>, glibc's
    32-bit \<open>int\<close> and 16-bit \<open>htons\<close>, as \<open>32 word\<close> and \<open>16 word\<close>) before binding the
    socket (\<open>socket_bind\<close>, \<open>OverflowError\<close> outside 0--65535).
  \<^item> \<open>JsonText\<close>: the JSON text on the wire. \<open>json.loads\<close> of a request body as
    CPython's recursive-descent scanner (\<open>scan\<close>, a \<open>partial_function (option)\<close> over a
    mode \<open>jmode\<close>: a value, the rest of an array, the rest of an object; strict strings
    \<open>scan_str\<close>, numbers \<open>scan_number\<close>, constants \<open>scan_const\<close>) and \<open>json_loads\<close>
    (value, \<open>Malformed\<close>, or \<open>Unmodelled\<close>); the text \<open>jsonify\<close> writes (\<open>dumps\<close>:
    sorted keys through \<open>py_dict\<close> of \<open>Json\<close>, compact separators, \<open>ensure_ascii\<close>
    escapes \<open>esc_char\<close>; \<open>jsonify_text\<close> adds the newline); the application on body
    texts (\<open>app_text\<close>) and the body of a response (\<open>response_text\<close>).
  \<^item> \<open>Lifecycle\<close>: runs of \<open>serve\<close> over request sequences built by a client; the
    deletion of every question in table order (\<open>drain_requests\<close>), and the rebuild
    of a given store from the empty one (\<open>rebuild_requests\<close>).
  \<^item> \<open>Http\<close>: the exchange on the socket: the request target as the development
    server reads it (\<open>target_path\<close>: query and fragment cut, percent-decoding), the
    \<open>Allow\<close> header (\<open>allowed_methods\<close>), the media type and status line, and the
    headers \<open>CORS(app)\<close> adds with flask_cors's default options (\<open>cors_headers\<close>:
    the origin echoed, the preflight's \<open>Access-Control-Allow-Headers\<close> and
    \<open>-Methods\<close>, \<open>Vary\<close>); \<open>app_wire\<close> is one request as it arrives and the reply
    the client receives.
  \<^item> \<open>Spec2Isabelle\<close> (this theory): properties that combine several routes.

  \<^bold>\<open>What is proved.\<close> The invariant holds in every reachable database (C1); deleting a
  question deletes exactly its answers (C2, C7); missing ids give the 404 of the source
  before the body is read and change nothing (C3, C10); updates and deletes touch only
  their row (C4, C13, C14); creation returns what \<open>/home\<close> then lists (C5, C6) with a
  fresh id (C11, C12); every route's URL dispatches to it (C9); the specification's
  scenario (create a question, answer it, delete it, update the answer) leaves every
  well-formed store exactly as it was, the last update a 404 (C17); every request is a
  step of the abstract board, and the board accounts for every stored answer (C18);
  answer updates replace the text in place (C20); and the router accepts exactly the
  decorated methods (C21). Every JSON response has the body type of the response
  contract for its route and status (C26), and every well-formed store is emptied,
  answers included, by deleting its questions one request at a time (C27); conversely to
  C1, every well-formed store with 64-bit ids is reached from the empty one by HTTP
  requests, so \<open>wf_db\<close> is exactly the set of reachable stores below that bound (C30). The
  process starts on 0.0.0.0:5000 over \<open>/tmp/db.sqlite\<close> when \<open>PORT\<close> is unset (C22); a
  printed port \<open>p\<close> is not range-checked: the server listens on \<open>p mod 65536\<close> when
  \<open>getaddrinfo\<close> accepts it and fails with \<open>OverflowError\<close> otherwise (C23); too many
  digits (C24) or a foreign character (C25) stop the process with \<open>ValueError\<close>, after
  the tables are created. A number or boolean posted as a comment is stored as its text,
  exactly as if the text had been posted (C28), and a comment SQLite cannot store is a
  500 with nothing changed (C29). Three theorems record where
  the code departs from the specification: ids are reused after the largest one is
  deleted (C8), a missing \<open>comment\<close> is a 500, not a client error (C15), and an id
  beyond 64 bits is a 500, not a 404 (C16); and a JSON string body containing
  \<open>comment\<close> makes \<open>/update\<close> fail with a 500 (C19). On the wire, a body that is not
  JSON is a 400 with nothing changed (C31); \<open>POST /add\<close> answers with exactly the bytes
  \<open>{"answers":[],"comment":...,"id":...}\<close>, keys sorted (C32); and a browser's CORS
  preflight for the URL of any route is answered 200 from any origin, with the route's
  method and \<open>Content-Type\<close> allowed and an \<open>Allow\<close> header of exactly the route's
  methods (C33). Lemmas of the library models support these: the JSON decoder returns
  on every body text (\<open>json_loads_total\<close>, the termination of the partial scanner) and
  reads back the text \<open>jsonify\<close> writes (\<open>json_loads_jsonify\<close>), and an error page
  leaves the database as it was (\<open>app_cases\<close>).

  \<^bold>\<open>Bounds and choices.\<close> Ids are \<open>nat\<close>: Werkzeug's converter yields a
  non-negative Python int of any size, and the 64-bit limit appears where SQLite binds it
  (\<open>sqlite_int_ok\<close>). SQLite's rowid choice is modelled as max + 1; its random choice
  once rowid \<open>2^63 - 1\<close> is in use is not modelled (it needs that many inserts). No
  loop of the program is unbounded: every definition is structural or a finite
  recursion on lists and strings, except \<open>has_type\<close>, whose nested recursion through
  the fields of an object terminates by the size of the JSON value. Characters are code
  points below 256: \<open>int()\<close>'s whitespace among them is ASCII 9--13, 28--32 and the
  non-ASCII spaces U+0085 and U+00A0, and its decimal digits are the ASCII ones.
  The JSON scanner is the one loop whose termination is not structural: it is a
  \<open>partial_function (option)\<close>, and its totality is proved by induction on twice the
  length of the unread text plus the rank of the mode, every call either reading a
  character or passing from a container to its first value; no fuel is needed.
  \<open>max_depth\<close> = 200 is a nesting well below CPython's recursion limit of 1000 frames,
  which the scanner's recursion and Flask's own frames share: deeper containers are read to the end
  but marked \<open>Unmodelled\<close>, and the roundtrip \<open>json_loads_jsonify\<close> is proved for values that fit
  (\<open>json_fits\<close>: containers below depth 200, integers of at most 4300 digits).

  \<^bold>\<open>Not modelled.\<close> JSON numbers with a fraction or exponent, \<open>NaN\<close> and
  \<open>Infinity\<close> (Python floats), and backslash-u escapes of code points from U+0100: the scanner reads them but marks
  them \<open>Unmodelled\<close>, and \<open>app_text\<close> gives no answer when a view would read such a
  body. The byte-level decoding of a body (UTF-8/16/32 detection, a byte-order mark):
  a body is the sequence of its code points.
  The \<open>Content-Type\<close> check of \<open>get_json\<close> (a body is taken to be sent as JSON; a
  missing body or wrong type is the \<open>None\<close> of \<open>Json\<close>, answered 400, whose exact status
  depends on the Flask version). The CORS headers are those of flask_cors 3 and 4 with
  its default options; request headers other than \<open>Origin\<close> and the two
  \<open>Access-Control-Request-*\<close> ones, the \<open>Location\<close> header of a redirect, the
  \<open>Content-Length\<close> and \<open>Date\<close> headers and the HTML text of Werkzeug's error
  pages are not modelled (\<open>response_text\<close> gives no body for them), nor percent-escapes
  of non-ASCII bytes in a path, which \<open>unquote\<close> decodes as UTF-8. Also left out:
  the socket I/O of \<open>app.run\<close> beyond the address resolution and the bind of its
  port (privileged ports, an address in use, \<open>FLASK_RUN_FROM_CLI\<close>), other C libraries
  than glibc on 64-bit Linux for \<open>getaddrinfo\<close>, concurrent requests (each request is
  one transaction, and requests are applied one at a time), and the Unicode digits
  beyond U+00FF that the digit class of Werkzeug's converter and \<open>int()\<close> accept.
\<close>

section \<open>Properties across the components\<close>

subsection \<open>Lemmas\<close>

text \<open>Deleting a question just created, with the one answer just added to it, gives back
  the store it was added to.\<close>

lemma delete_new_question:
  assumes "wf_db s" "k = new_rowid (user_tbl s)"
  shows "session_delete_user k
           \<lparr>user_tbl = user_tbl s @ [(k, u)], answer_tbl = answer_tbl s @ [(a, \<lparr>answer = t, question_id = k\<rparr>)]\<rparr>
         = s"
proof -
  have "tbl_delete k (user_tbl s @ [(k, u)]) = user_tbl s"
    using assms(2) new_rowid_gt [of _ "user_tbl s"]
    by (force simp: tbl_delete_def filter_id_conv)
  moreover have "tbl_delete_where (\<lambda>a. question_id a = k) (answer_tbl s @ [(a, \<lparr>answer = t, question_id = k\<rparr>)]) = answer_tbl s"
    using assms new_rowid_fresh [of "user_tbl s"]
    by (auto simp: tbl_delete_where_def wf_db_def list_all_iff filter_id_conv)
  ultimately show ?thesis by (simp add: session_delete_user_def)
qed

subsection \<open>Properties\<close>

text \<open>C5. On a well-formed database, \<open>POST /add\<close> with \<open>{"comment": c}\<close>
  creates one question with the next free id, comment \<open>c\<close> (of any length: the 500 of
  \<open>String(500)\<close> is not enforced) and no answers, returns it, and \<open>GET /home\<close> then
  lists the questions that were there, unchanged, followed by exactly this one.\<close>

theorem add_comment_then_home:
  assumes "wf_db s"
  shows "let k = new_rowid (user_tbl s);
             q = JObj [(''id'', JInt (int k)), (''comment'', JStr c), (''answers'', JList [])];
             s' = s\<lparr>user_tbl := user_tbl s @ [(k, \<lparr>comment = c\<rparr>)]\<rparr>
         in add_comment (Some (JObj [(''comment'', JStr c)])) s = Inr (Response 200 q, s') \<and>
            home s' = Inr (Response 200 (JList (map (\<lambda>(j, u). dump_user s j u) (user_tbl s) @ [q])), s')"
proof -
  let ?k = "new_rowid (user_tbl s)"
  let ?s' = "s\<lparr>user_tbl := user_tbl s @ [(?k, \<lparr>comment = c\<rparr>)]\<rparr>"
  have none: "user_answers ?s' ?k = []"
    using wf_user_answers_absent [OF assms new_rowid_fresh] by simp
  have "add_comment (Some (JObj [(''comment'', JStr c)])) s =
          Inr (Response 200 (dump_user ?s' ?k \<lparr>comment = c\<rparr>), ?s')"
    by (simp add: add_comment_def session_add_user_def tbl_insert_def dict_lookup_def Let_def)
  moreover have "home ?s' = Inr (Response 200 (JList (map (\<lambda>(j, u). dump_user s j u) (user_tbl s)
                   @ [dump_user ?s' ?k \<lparr>comment = c\<rparr>])), ?s')"
    by (simp add: home_def dump_users_def dump_user_def case_prod_beta)
  ultimately show ?thesis
    using none by (simp add: dump_user_no_answers Let_def)
qed

text \<open>C6. What \<open>POST /add\<close> returns for the question it created is exactly the
  entry \<open>GET /home\<close> lists for it right afterwards (the last one), for every body the
  handler accepts.\<close>

theorem add_comment_listed:
  assumes "add_comment body s = Inr (Response c j, s')"
  shows "home s' = Inr (Response 200 (JList (map (\<lambda>(k, u). dump_user s' k u) (user_tbl s) @ [j])), s')"
  using assms by (auto simp: add_comment_Inr db_simps home_def dump_users_def)

text \<open>C8. Ids are not kept unique over time, contrary to the specification:
  SQLite gives a new row the largest rowid in the table plus one. When the question with
  the largest id \<open>k\<close> is deleted (and the ids below it are consecutive), the next
  question created gets the id \<open>k\<close> again.\<close>

theorem question_id_reused:
  assumes "wf_db s" and "user_tbl s = t @ [(k, u)]" and "Suc (max_rowid t) = k"
    and "delete_comment k s = Inr (r, s1)" and "add_comment body s1 = Inr (Response c j, s2)"
  shows "\<exists>u'. user_tbl s2 = t @ [(k, u')] \<and> py_getitem j ''id'' = Inr (JInt (int k))"
proof -
  have "tbl_get (user_tbl s) k = Some u"
    using assms(1,2) by (auto simp: wf_db_def intro: in_tbl_get)
  with assms(4) have s1: "s1 = session_delete_user k s"
    by (auto simp: delete_comment_Inr query_get_user_eq_Inr)
  have "k \<notin> set (map fst t)"
    using assms(3) le_max_rowid by fastforce
  then have "user_tbl s1 = t"
    by (simp add: s1 assms(2) tbl_delete_def filter_id_conv) (force simp: image_iff)
  with assms(3,5) show ?thesis
    by (auto simp: add_comment_Inr db_simps new_rowid_def dump_user_id)
qed


text \<open>C17. The scenario of the specification, run on any well-formed store: create a
  question, answer it, delete the question, then update the answer. Each step answers as
  the specification says, the deleted question takes its answer with it so that the
  update is a 404, and the store ends exactly as it was.\<close>

theorem spec_scenario:
  assumes "wf_db s" "int (new_rowid (user_tbl s)) < 2 ^ 63" "int (new_rowid (answer_tbl s)) < 2 ^ 63"
  shows "serve s [add_request c, answer_request (new_rowid (user_tbl s)) t,
                  delete_request (new_rowid (user_tbl s)),
                  \<lparr>req_method = PATCH, req_path = route_path (UpdateAnswer (new_rowid (answer_tbl s))),
                   req_body = Some (JObj [(''answer'', JStr t')])\<rparr>] =
    ([JsonResponse 200 (JObj [(''id'', JInt (int (new_rowid (user_tbl s)))), (''comment'', JStr c),
                              (''answers'', JList [])]),
      JsonResponse 200 (JObj [(''id'', JInt (int (new_rowid (answer_tbl s)))), (''answer'', JStr t),
                              (''question_id'', JInt (int (new_rowid (user_tbl s))))]),
      deleted_json (new_rowid (user_tbl s)),
      JsonResponse 404 (JObj [(''error'', JStr ''Answer not found'')])], s)"
proof -
  define k where "k = new_rowid (user_tbl s)"
  define a where "a = new_rowid (answer_tbl s)"
  define s1 where "s1 = s\<lparr>user_tbl := user_tbl s @ [(k, \<lparr>comment = c\<rparr>)]\<rparr>"
  define s2 where "s2 = \<lparr>user_tbl = user_tbl s @ [(k, \<lparr>comment = c\<rparr>)],
                         answer_tbl = answer_tbl s @ [(a, \<lparr>answer = t, question_id = k\<rparr>)]\<rparr>"
  have "user_answers s1 k = []"
    using wf_user_answers_absent [OF assms(1) new_rowid_fresh] by (simp add: s1_def k_def)
  then have r1: "app s (add_request c) =
      (JsonResponse 200 (JObj [(''id'', JInt (int k)), (''comment'', JStr c), (''answers'', JList [])]), s1)"
    by (simp add: s1_def app_def add_request_def resolve_add add_comment_def session_add_user_def
        tbl_insert_def dict_lookup_def Let_def dump_user_no_answers k_def)
  have "resolve POST (route_path (AddAnswer k)) = Matched (AddAnswer k)"
    using resolve_route_path [of "AddAnswer k"] nat_text_small assms(2)
    by (simp add: route_args_ok_def k_def)
  then have r2: "app s1 (answer_request k t) =
      (JsonResponse 200 (JObj [(''id'', JInt (int a)), (''answer'', JStr t), (''question_id'', JInt (int k))]), s2)"
    using assms(2)
    by (simp add: s1_def s2_def app_def answer_request_def add_answer_def session_add_answer_def
        tbl_insert_def dict_lookup_def query_get_user_def sqlite_int_ok_def Let_def a_def k_def
        dump_answer_def tbl_get_def)
  have r3: "app s2 (delete_request k) = (deleted_json k, s)"
    using app_delete_request [of k s2] assms(2) delete_new_question [OF assms(1) k_def]
    by (simp add: s2_def k_def)
  have "resolve PATCH (route_path (UpdateAnswer a)) = Matched (UpdateAnswer a)"
    using resolve_route_path [of "UpdateAnswer a"] nat_text_small assms(3)
    by (simp add: route_args_ok_def a_def)
  then have r4: "app s \<lparr>req_method = PATCH, req_path = route_path (UpdateAnswer a),
                      req_body = Some (JObj [(''answer'', JStr t')])\<rparr> =
      (JsonResponse 404 (JObj [(''error'', JStr ''Answer not found'')]), s)"
    using assms(3)
    by (simp add: app_def update_answer_def query_get_answer_def sqlite_int_ok_def not_found_def a_def)
  show ?thesis
    using r1 r2 r3 r4 by (simp add: k_def a_def)
qed

text \<open>C28. The \<open>comment\<close> column has TEXT affinity: posting a JSON integer that
  SQLite can bind, or a boolean, creates and returns the same question as posting its
  decimal text (\<open>true\<close> and \<open>false\<close> as \<open>1\<close> and \<open>0\<close>); the comment is always a
  string, even when the client sent a number.\<close>

theorem add_comment_scalar_as_text:
  assumes "sqlite_int_ok i"
  shows "app s \<lparr>req_method = POST, req_path = ''/add'', req_body = Some (JObj [(''comment'', JInt i)])\<rparr> =
         app s \<lparr>req_method = POST, req_path = ''/add'', req_body = Some (JObj [(''comment'', JStr (int_text i))])\<rparr>
       \<and> app s \<lparr>req_method = POST, req_path = ''/add'', req_body = Some (JObj [(''comment'', JBool b)])\<rparr> =
         app s \<lparr>req_method = POST, req_path = ''/add'', req_body = Some (JObj [(''comment'', JStr (if b then ''1'' else ''0''))])\<rparr>"
  using assms add_comment_bind_text [of "JInt i" "JStr (int_text i)" s]
    add_comment_bind_text [of "JBool b" "JStr (if b then ''1'' else ''0'')" s]
  by (simp add: app_def resolve_add)

text \<open>C29. A \<open>comment\<close> that SQLite cannot store (\<open>null\<close> against
  \<open>nullable=False\<close>, a list or an object the driver cannot bind, an integer beyond 64
  bits) makes both \<open>POST /add\<close> and \<open>PATCH /update/<id>\<close> of an existing question
  answer 500 and leaves the database as it was, where the specification's taxonomy
  would call the request malformed.\<close>

theorem comment_unstorable_server_error:
  assumes "v = JNull \<or> (\<exists>vs. v = JList vs) \<or> (\<exists>kvs. v = JObj kvs) \<or> (\<exists>i. v = JInt i \<and> \<not> sqlite_int_ok i)"
    and "tbl_get (user_tbl s) k = Some u" "int k < 2 ^ 63"
  shows "app s \<lparr>req_method = POST, req_path = ''/add'', req_body = Some (JObj [(''comment'', v)])\<rparr> = (ErrorPage 500, s)
       \<and> app s \<lparr>req_method = PATCH, req_path = route_path (UpdateComment k), req_body = Some (JObj [(''comment'', v)])\<rparr>
           = (ErrorPage 500, s)"
proof -
  have bind: "\<exists>e. e \<noteq> BadRequest \<and> bind_text v = Inl e" using assms(1) by auto
  have upd: "resolve PATCH (route_path (UpdateComment k)) = Matched (UpdateComment k)"
    using resolve_route_path [of "UpdateComment k"] nat_text_small [OF assms(3)]
    by (simp add: route_args_ok_def)
  show ?thesis
    using bind assms(2,3) upd
    by (auto simp: app_def resolve_add finish_server_error add_comment_def update_comment_def session_add_user_def
        session_set_comment_def dict_lookup_def query_get_user_def sqlite_int_ok_def)
qed


subsection \<open>Witnesses\<close>

text \<open>Each theorem above with a hypothesis, applied at a concrete database where the
  hypotheses hold.\<close>

theorem add_comment_then_home_witness:
  "let s = \<lparr>user_tbl = [(1, \<lparr>comment = ''q''\<rparr>)], answer_tbl = [(1, \<lparr>answer = ''a'', question_id = 1\<rparr>)]\<rparr>;
       s' = s\<lparr>user_tbl := [(1, \<lparr>comment = ''q''\<rparr>), (2, \<lparr>comment = ''r''\<rparr>)]\<rparr>;
       q = JObj [(''id'', JInt 2), (''comment'', JStr ''r''), (''answers'', JList [])]
   in wf_db s \<and>
      add_comment (Some (JObj [(''comment'', JStr ''r'')])) s = Inr (Response 200 q, s') \<and>
      home s' = Inr (Response 200 (JList [dump_user s 1 \<lparr>comment = ''q''\<rparr>, q]), s')"
proof -
  let ?s = "\<lparr>user_tbl = [(1::nat, \<lparr>comment = ''q''\<rparr>)], answer_tbl = [(1::nat, \<lparr>answer = ''a'', question_id = 1::nat\<rparr>)]\<rparr>"
  have h: "wf_db ?s" by (simp add: wf_db_def tbl_ok_def tbl_get_def)
  have "new_rowid (user_tbl ?s) = 2" by (simp add: new_rowid_def)
  then show ?thesis using h add_comment_then_home [OF h, of "''r''"] by (simp add: Let_def)
qed

theorem add_comment_listed_witness:
  "let s = \<lparr>user_tbl = [], answer_tbl = []\<rparr>;
       s' = \<lparr>user_tbl = [(1, \<lparr>comment = ''42''\<rparr>)], answer_tbl = []\<rparr>;
       j = JObj [(''id'', JInt 1), (''comment'', JStr ''42''), (''answers'', JList [])]
   in add_comment (Some (JObj [(''comment'', JInt 42)])) s = Inr (Response 200 j, s') \<and>
      home s' = Inr (Response 200 (JList [j]), s')"
proof -
  let ?s = "\<lparr>user_tbl = [], answer_tbl = []\<rparr> :: db"
  let ?s' = "\<lparr>user_tbl = [(1::nat, \<lparr>comment = ''42''\<rparr>)], answer_tbl = []\<rparr>"
  let ?j = "JObj [(''id'', JInt 1), (''comment'', JStr ''42''), (''answers'', JList [])]"
  have h: "add_comment (Some (JObj [(''comment'', JInt 42)])) ?s = Inr (Response 200 ?j, ?s')"
    by code_simp
  show ?thesis using h add_comment_listed [OF h] by (simp add: Let_def)
qed

theorem question_id_reused_witness:
  "let s = \<lparr>user_tbl = [(1, \<lparr>comment = ''q''\<rparr>)], answer_tbl = [(1, \<lparr>answer = ''a'', question_id = 1\<rparr>)]\<rparr>;
       s1 = session_delete_user 1 s;
       s2 = \<lparr>user_tbl = [(1, \<lparr>comment = ''new''\<rparr>)], answer_tbl = []\<rparr>;
       j = JObj [(''id'', JInt 1), (''comment'', JStr ''new''), (''answers'', JList [])]
   in wf_db s \<and> delete_comment 1 s = Inr (deleted ''Question deleted successfully'' 1, s1) \<and>
      add_comment (Some (JObj [(''comment'', JStr ''new'')])) s1 = Inr (Response 200 j, s2) \<and>
      py_getitem j ''id'' = Inr (JInt 1)"
proof -
  let ?s = "\<lparr>user_tbl = [(1::nat, \<lparr>comment = ''q''\<rparr>)], answer_tbl = [(1::nat, \<lparr>answer = ''a'', question_id = 1::nat\<rparr>)]\<rparr>"
  let ?s2 = "\<lparr>user_tbl = [(1::nat, \<lparr>comment = ''new''\<rparr>)], answer_tbl = []\<rparr>"
  let ?j = "JObj [(''id'', JInt 1), (''comment'', JStr ''new''), (''answers'', JList [])]"
  have h1: "wf_db ?s" by (simp add: wf_db_def tbl_ok_def tbl_get_def)
  have h2: "user_tbl ?s = [] @ [(1, \<lparr>comment = ''q''\<rparr>)]" by simp
  have h3: "Suc (max_rowid ([] :: User table)) = 1" by simp
  have h4: "delete_comment 1 ?s = Inr (deleted ''Question deleted successfully'' 1, session_delete_user 1 ?s)"
    by (simp add: delete_comment_def tbl_get_def)
  have h5: "add_comment (Some (JObj [(''comment'', JStr ''new'')])) (session_delete_user 1 ?s) =
              Inr (Response 200 ?j, ?s2)"
    by (simp add: app_eval session_delete_user_def tbl_delete_where_def)
  show ?thesis using h1 h4 h5 question_id_reused [OF h1 h2 h3 h4 h5] by (simp add: Let_def)
qed

theorem spec_scenario_witness:
  "wf_db empty_db \<and> int (new_rowid (user_tbl empty_db)) < 2 ^ 63 \<and>
   int (new_rowid (answer_tbl empty_db)) < 2 ^ 63 \<and>
   serve empty_db [add_request ''Is the sky blue?'', answer_request 1 ''Yes'', delete_request 1,
      \<lparr>req_method = PATCH, req_path = route_path (UpdateAnswer 1), req_body = Some (JObj [(''answer'', JStr ''No'')])\<rparr>] =
   ([JsonResponse 200 (JObj [(''id'', JInt 1), (''comment'', JStr ''Is the sky blue?''), (''answers'', JList [])]),
     JsonResponse 200 (JObj [(''id'', JInt 1), (''answer'', JStr ''Yes''), (''question_id'', JInt 1)]),
     deleted_json 1,
     JsonResponse 404 (JObj [(''error'', JStr ''Answer not found'')])],
    empty_db)"
proof -
  have n: "new_rowid (user_tbl empty_db) = 1" "new_rowid (answer_tbl empty_db) = 1"
    by (simp_all add: empty_db_def new_rowid_def)
  have h1: "wf_db empty_db" by simp
  have h2: "int (new_rowid (user_tbl empty_db)) < 2 ^ 63" by (simp add: n)
  have h3: "int (new_rowid (answer_tbl empty_db)) < 2 ^ 63" by (simp add: n)
  have "serve empty_db [add_request ''Is the sky blue?'', answer_request 1 ''Yes'', delete_request 1,
      \<lparr>req_method = PATCH, req_path = route_path (UpdateAnswer 1), req_body = Some (JObj [(''answer'', JStr ''No'')])\<rparr>] =
   ([JsonResponse 200 (JObj [(''id'', JInt 1), (''comment'', JStr ''Is the sky blue?''), (''answers'', JList [])]),
     JsonResponse 200 (JObj [(''id'', JInt 1), (''answer'', JStr ''Yes''), (''question_id'', JInt 1)]),
     deleted_json 1,
     JsonResponse 404 (JObj [(''error'', JStr ''Answer not found'')])],
    empty_db)"
    using spec_scenario [OF h1 h2 h3, of "''Is the sky blue?''" "''Yes''" "''No''"]
    unfolding n by (simp only: of_nat_1)
  with h1 h2 h3 show ?thesis by blast
qed
theorem add_comment_scalar_as_text_witness:
  "sqlite_int_ok 42 \<and>
   app empty_db \<lparr>req_method = POST, req_path = ''/add'', req_body = Some (JObj [(''comment'', JInt 42)])\<rparr> =
   app empty_db \<lparr>req_method = POST, req_path = ''/add'', req_body = Some (JObj [(''comment'', JStr (int_text 42))])\<rparr>
   \<and> app empty_db \<lparr>req_method = POST, req_path = ''/add'', req_body = Some (JObj [(''comment'', JBool True)])\<rparr> =
   app empty_db \<lparr>req_method = POST, req_path = ''/add'', req_body = Some (JObj [(''comment'', JStr ''1'')])\<rparr>"
proof -
  have h: "sqlite_int_ok 42" by (simp add: sqlite_int_ok_def)
  show ?thesis using h add_comment_scalar_as_text [OF h, of empty_db True] by simp
qed

theorem comment_unstorable_server_error_witness:
  "let s = \<lparr>user_tbl = [(1, \<lparr>comment = ''q''\<rparr>)], answer_tbl = []\<rparr>
   in tbl_get (user_tbl s) 1 = Some \<lparr>comment = ''q''\<rparr> \<and>
      app s \<lparr>req_method = POST, req_path = ''/add'', req_body = Some (JObj [(''comment'', JNull)])\<rparr> = (ErrorPage 500, s)
    \<and> app s \<lparr>req_method = PATCH, req_path = route_path (UpdateComment 1), req_body = Some (JObj [(''comment'', JNull)])\<rparr>
       = (ErrorPage 500, s)"
proof -
  let ?s = "\<lparr>user_tbl = [(1::nat, \<lparr>comment = ''q''\<rparr>)], answer_tbl = []\<rparr>"
  have h1: "JNull = JNull \<or> (\<exists>vs. JNull = JList vs) \<or> (\<exists>kvs. JNull = JObj kvs) \<or> (\<exists>i. JNull = JInt i \<and> \<not> sqlite_int_ok i)"
    by simp
  have h2: "tbl_get (user_tbl ?s) 1 = Some \<lparr>comment = ''q''\<rparr>" by (simp add: tbl_get_def)
  have h3: "int 1 < 2 ^ 63" by simp
  show ?thesis using h2 comment_unstorable_server_error [OF h1 h2 h3] by (simp add: Let_def)
qed

end
